theory Spec2Isabelle
  imports Complex_Main "HOL-Library.Word"
begin

section \<open>JavaScript strings\<close>

text \<open>
  A JavaScript string is a sequence of UTF-16 code units. Every Hangul syllable the converter
  tests for (U+AC00 .. U+D7A3) is a single code unit, so regular-expression character classes,
  indices and \<open>length\<close> are modelled per code unit, as the source's string type counts them.
  \<open>js\<close> embeds an ASCII literal.
\<close>

type_synonym jschar = "16 word"
type_synonym jsstring = "jschar list"

definition js :: "string \<Rightarrow> jsstring" where
  "js s = map (\<lambda>c. of_nat (of_char c)) s"

text \<open>
  The code units that \<open>String.prototype.trim\<close> strips and that \<open>\s\<close> matches: the ECMAScript
  white space and line terminator code points.
\<close>

definition isSpace :: "jschar \<Rightarrow> bool" where
  "isSpace c \<longleftrightarrow>
     c \<in> set [0x09, 0x0A, 0x0B, 0x0C, 0x0D, 0x20, 0xA0, 0x1680, 0x2028, 0x2029, 0x202F, 0x205F, 0x3000, 0xFEFF]
     \<or> (0x2000 \<le> c \<and> c \<le> 0x200A)"

definition trim :: "jsstring \<Rightarrow> jsstring" where
  "trim s = rev (dropWhile isSpace (rev (dropWhile isSpace s)))"

definition isDigit :: "jschar \<Rightarrow> bool" where
  "isDigit c \<longleftrightarrow> 0x30 \<le> c \<and> c \<le> 0x39"

text \<open>
  \<open>s.split(sep)\<close> for a string separator: the pieces between the non-overlapping occurrences
  of \<open>sep\<close>, found left to right; an empty separator splits into single code units. \<open>skip\<close>
  counts the code units of a separator occurrence still to be passed over.
\<close>

fun splitAux :: "jsstring \<Rightarrow> nat \<Rightarrow> jsstring \<Rightarrow> jsstring \<Rightarrow> jsstring list" where
  "splitAux sep skip cur [] = [cur]"
| "splitAux sep skip cur (c # s) =
     (if skip > 0 then splitAux sep (skip - 1) cur s
      else if take (length sep) (c # s) = sep then cur # splitAux sep (length sep - 1) [] s
      else splitAux sep 0 (cur @ [c]) s)"

definition split :: "jsstring \<Rightarrow> jsstring \<Rightarrow> jsstring list" where
  "split sep s = (if sep = [] then map (\<lambda>c. [c]) s else splitAux sep 0 [] s)"

text \<open>
  \<open>toLowerCase\<close>: the ASCII letters, and the two code points outside ASCII whose lower case
  contains an ASCII letter (U+0130, which becomes two code units, and the Kelvin sign U+212A).
  Every other cased letter maps to a letter outside ASCII and outside the Hangul block; the
  converter only ever compares a lower-cased string with fixed ASCII or Hangul words, and for
  those comparisons this function agrees with the full Unicode mapping.
\<close>

definition lowerChar :: "jschar \<Rightarrow> jsstring" where
  "lowerChar c =
     (if 0x41 \<le> c \<and> c \<le> 0x5A then [c + 0x20]
      else if c = 0x130 then [0x69, 0x307]
      else if c = 0x212A then [0x6B]
      else [c])"

definition toLowerCase :: "jsstring \<Rightarrow> jsstring" where
  "toLowerCase s = concat (map lowerChar s)"

section \<open>Double-precision arithmetic\<close>

text \<open>
  A JavaScript number is an IEEE 754 binary64 value. A finite double is modelled by the
  rational number it denotes (the two zeros are not told apart), and an arithmetic operation
  of the source by the exact operation followed by \<open>roundDouble\<close>, rounding to the nearest
  double with ties to the even significand. \<open>floorLog2\<close> is the binary exponent of a positive
  rational; below \<open>2^-1022\<close> the spacing of the doubles stays \<open>2^-1074\<close> (the subnormal range).
  Overflow to \<^verbatim>\<open>Infinity\<close> is not part of \<open>roundDouble\<close>: where the source can reach it, the
  caller tests for it.
\<close>

function log2up :: "rat \<Rightarrow> int" where
  "log2up q = (if q < 2 then 0 else log2up (q / 2) + 1)"
  by pat_completeness auto
termination
proof (relation "measure (\<lambda>q. nat \<lfloor>q\<rfloor>)")
  show "wf (measure (\<lambda>q. nat \<lfloor>q\<rfloor>))" by simp
next
  fix q :: rat
  assume "\<not> q < 2"
  then have "q / 2 \<le> q - 1" by simp
  then have "\<lfloor>q / 2\<rfloor> \<le> \<lfloor>q - 1\<rfloor>" by (rule floor_mono)
  moreover have "1 \<le> \<lfloor>q\<rfloor>" using \<open>\<not> q < 2\<close> by (simp add: le_floor_iff)
  ultimately show "(q / 2, q) \<in> measure (\<lambda>q. nat \<lfloor>q\<rfloor>)" by simp
qed

function log2down :: "rat \<Rightarrow> int" where
  "log2down q = (if q \<le> 0 \<or> 1 \<le> q then 0 else log2down (2 * q) + 1)"
  by pat_completeness auto
termination
proof (relation "measure (\<lambda>q. nat \<lfloor>1 / q\<rfloor>)")
  show "wf (measure (\<lambda>q. nat \<lfloor>1 / q\<rfloor>))" by simp
next
  fix q :: rat
  assume "\<not> (q \<le> 0 \<or> 1 \<le> q)"
  then have q: "0 < q" "q < 1" by simp_all
  then have one: "1 \<le> 1 / q" by (simp add: le_divide_eq)
  then have f: "1 \<le> \<lfloor>1 / q\<rfloor>" by (simp add: le_floor_iff)
  have "1 / (2 * q) = (1 / q) / 2" by simp
  also have "\<dots> \<le> 1 / q - 1 / 2" using one by simp
  finally have "\<lfloor>1 / (2 * q)\<rfloor> \<le> \<lfloor>1 / q - 1 / 2\<rfloor>" by (rule floor_mono)
  also have "\<dots> \<le> \<lfloor>1 / q\<rfloor>" by (rule floor_mono) simp
  finally have le: "\<lfloor>1 / (2 * q)\<rfloor> \<le> \<lfloor>1 / q\<rfloor>" .
  have "\<lfloor>1 / (2 * q)\<rfloor> < \<lfloor>1 / q\<rfloor>"
  proof (rule ccontr)
    assume "\<not> \<lfloor>1 / (2 * q)\<rfloor> < \<lfloor>1 / q\<rfloor>"
    then have eq: "\<lfloor>1 / (2 * q)\<rfloor> = \<lfloor>1 / q\<rfloor>" using le by simp
    have "of_int \<lfloor>1 / q\<rfloor> \<le> 1 / (2 * q)" using eq of_int_floor_le[of "1 / (2 * q)"] by simp
    moreover have "1 / q < of_int \<lfloor>1 / q\<rfloor> + 1" by linarith
    moreover have "(1::rat) \<le> of_int \<lfloor>1 / q\<rfloor>" using f by linarith
    moreover have "1 / (2 * q) = (1 / q) / 2" by simp
    ultimately show False by linarith
  qed
  then show "(2 * q, q) \<in> measure (\<lambda>q. nat \<lfloor>1 / q\<rfloor>)" using f by simp
qed

declare log2up.simps [simp del]
declare log2down.simps [simp del]

definition floorLog2 :: "rat \<Rightarrow> int" where
  "floorLog2 q = (if 1 \<le> q then log2up q else - log2down q)"

definition roundHalfEven :: "rat \<Rightarrow> int" where
  "roundHalfEven x =
     (let f = \<lfloor>x\<rfloor>; d = x - of_int f
      in if d < 1 / 2 then f else if 1 / 2 < d then f + 1 else if even f then f else f + 1)"

definition roundDouble :: "rat \<Rightarrow> rat" where
  "roundDouble q =
     (if q = 0 then 0
      else
        (let e = max (floorLog2 \<bar>q\<bar>) (- 1022);
             ulp = power_int 2 (e - 52)
         in of_int (roundHalfEven (q / ulp)) * ulp))"


section \<open>Delimiter detection\<close>

text \<open>
  \<open>detectDelimiter\<close> of \<^verbatim>\<open>converter.ts\<close>. The sample is the non-blank lines among the first
  ten lines of the text (\<^verbatim>\<open>text.split('\n').slice(0, 10).filter(line => line.trim())\<close>). For
  each candidate the column counts of the sampled lines that split into more than one column
  are collected. The score is computed in double precision, as in the source: the quotient,
  the difference and the two products are each rounded, and \<^verbatim>\<open>0.8\<close> is the double nearest to
  eight tenths. The column counts, their sum, their number and the difference of the largest
  and the smallest are integers far below \<open>2^53\<close> for every JavaScript string, so they are
  doubles exactly.
\<close>

definition delimiters :: "jsstring list" where
  "delimiters = [[0x09], [0x2C], [0x3B], [0x7C]]"

definition sampleLines :: "jsstring \<Rightarrow> jsstring list" where
  "sampleLines text = filter (\<lambda>line. trim line \<noteq> []) (take 10 (split [0x0A] text))"

definition columnCounts :: "jsstring list \<Rightarrow> jsstring \<Rightarrow> nat list" where
  "columnCounts lines delimiter =
     filter (\<lambda>columnCount. columnCount > 1)
       (map (\<lambda>line. length (split delimiter line)) (filter (\<lambda>line. trim line \<noteq> []) lines))"

definition delimiterScore :: "nat list \<Rightarrow> rat" where
  "delimiterScore cc =
     (let avgColumns = roundDouble (of_nat (sum_list cc) / of_nat (length cc));
          maxCols = Max (set cc);
          minCols = Min (set cc);
          consistency = (if maxCols > 10 then roundDouble (8 / 10)
                         else roundDouble (1 - roundDouble (of_nat (maxCols - minCols) / max avgColumns 1)))
      in roundDouble (roundDouble (avgColumns * max consistency (1 / 2)) * of_nat (length cc)))"

text \<open>One iteration of the loop over the candidates; the state is \<open>(bestDelimiter, maxScore)\<close>.\<close>

definition detectStep :: "jsstring list \<Rightarrow> jsstring \<times> rat \<Rightarrow> jsstring \<Rightarrow> jsstring \<times> rat" where
  "detectStep lines st delimiter =
     (let columnCounts = columnCounts lines delimiter
      in if columnCounts \<noteq> [] then
           (let score = delimiterScore columnCounts
            in if score > snd st then (delimiter, score) else st)
         else st)"

definition detectDelimiter :: "jsstring \<Rightarrow> jsstring" where
  "detectDelimiter text = fst (foldl (detectStep (sampleLines text)) ([0x2C], 0) delimiters)"

text \<open>
  The score of a candidate on a sample, with the loop's initial \<open>score = 0\<close> for a candidate
  that splits no sampled line.
\<close>

definition candidateScore :: "jsstring list \<Rightarrow> jsstring \<Rightarrow> rat" where
  "candidateScore lines delimiter =
     (let cc = columnCounts lines delimiter in if cc = [] then 0 else delimiterScore cc)"

text \<open>
  The specification's wording, for comparison: the sample is the first up to ten non-blank
  lines, and the consistency divides by the average itself. The formula is evaluated in
  double precision, the numbers of the specification being doubles.
\<close>

definition sampleLines_spec :: "jsstring \<Rightarrow> jsstring list" where
  "sampleLines_spec text = take 10 (filter (\<lambda>line. trim line \<noteq> []) (split [0x0A] text))"

definition score_spec :: "nat list \<Rightarrow> rat" where
  "score_spec cc =
     (let avg = roundDouble (of_nat (sum_list cc) / of_nat (length cc));
          consistency = (if Max (set cc) > 10 then roundDouble (8 / 10)
                         else roundDouble (1 - roundDouble (of_nat (Max (set cc) - Min (set cc)) / avg)))
      in roundDouble (roundDouble (avg * max consistency (1 / 2)) * of_nat (length cc)))"

text \<open>Ten empty lines followed by one semicolon-separated line.\<close>

definition blankLedText :: jsstring where
  "blankLedText = replicate 10 0x0A @ js ''a;b''"

text \<open>
  Three lines on which tab gives the column counts 3, 5, 5 and comma the single count 7. The
  exact value of both scores is 7; in double precision the average 13/3, the consistency and
  the products are rounded, and the score of tab falls just below 7.
\<close>

definition tiedText :: jsstring where
  "tiedText =
     js ''a'' @ [0x09] @ js ''b'' @ [0x09] @ js ''c,d,e,f,g,h,i\<newline>'' @
     js ''1'' @ [0x09] @ js ''2'' @ [0x09] @ js ''3'' @ [0x09] @ js ''4'' @ [0x09] @ js ''5\<newline>'' @
     js ''1'' @ [0x09] @ js ''2'' @ [0x09] @ js ''3'' @ [0x09] @ js ''4'' @ [0x09] @ js ''5''"

section \<open>Line tokenizer\<close>

text \<open>
  \<open>parseCSVLine\<close>. The loop's variables are the fields of \<open>scan_state\<close>; \<open>quoteChar\<close> is the
  empty string outside a quoted region, as in the source. \<open>scan\<close> is the \<^verbatim>\<open>for\<close> loop: it
  consumes the line one code unit at a time and two at an escaped (doubled) quote, where the
  source increments \<open>i\<close> once more. The delimiter is a string, and \<^verbatim>\<open>char === delimiter\<close> holds
  when the delimiter is exactly that one code unit.
\<close>

definition dquote :: jschar where "dquote = 0x22"
definition squote :: jschar where "squote = 0x27"

record scan_state =
  result :: "jsstring list"
  current :: jsstring
  inQuotes :: bool
  quoteChar :: jsstring

fun scan :: "jsstring \<Rightarrow> scan_state \<Rightarrow> jsstring \<Rightarrow> scan_state" where
  "scan delimiter st [] = st"
| "scan delimiter st (c # rest) =
    (if \<not> inQuotes st then
       (if c = dquote \<or> c = squote then
          scan delimiter (st\<lparr>inQuotes := True, quoteChar := [c]\<rparr>) rest
        else if [c] = delimiter then
          scan delimiter (st\<lparr>result := result st @ [trim (current st)], current := []\<rparr>) rest
        else scan delimiter (st\<lparr>current := current st @ [c]\<rparr>) rest)
     else
       (if [c] = quoteChar st then
          (case rest of
             c' # rest' \<Rightarrow>
               if [c'] = quoteChar st then scan delimiter (st\<lparr>current := current st @ [c]\<rparr>) rest'
               else scan delimiter (st\<lparr>inQuotes := False, quoteChar := []\<rparr>) rest
           | [] \<Rightarrow> scan delimiter (st\<lparr>inQuotes := False, quoteChar := []\<rparr>) rest)
        else scan delimiter (st\<lparr>current := current st @ [c]\<rparr>) rest))"

definition parseCSVLine :: "jsstring \<Rightarrow> jsstring \<Rightarrow> jsstring list" where
  "parseCSVLine line delimiter =
     (let st = scan delimiter \<lparr>result = [], current = [], inQuotes = False, quoteChar = []\<rparr> (trim line)
      in map (\<lambda>cell. if cell \<noteq> [] then cell else []) (result st @ [trim (current st)]))"

section \<open>Cell normalizer\<close>

text \<open>
  A cell of an array-of-arrays table. \<open>CNull\<close> is JavaScript's \<^verbatim>\<open>null\<close>, which
  \<^verbatim>\<open>sheet_to_json\<close> is asked to put where a sheet has no cell (\<^verbatim>\<open>defval: null\<close>). A number cell
  carries the value of a finite double. A date cell is the calendar day that \<^verbatim>\<open>parseISO\<close> of
  date-fns accepts.
\<close>

datatype date = Date (year: nat) (month: nat) (day: nat)

datatype cell = CNull | CStr jsstring | CNum rat | CBool bool | CDate date

definition stripPrefixChar :: "jschar \<Rightarrow> jsstring \<Rightarrow> jsstring" where
  "stripPrefixChar x s = (case s of c # r \<Rightarrow> if c = x then r else s | [] \<Rightarrow> s)"

text \<open>
  \<^verbatim>\<open>/^-?[\d,]+\.?\d*$/\<close>: an optional minus sign, a non-empty run of digits and commas, an
  optional dot, digits to the end. The greedy run decides the match: a shorter run would have
  to be followed by digits only, which the run then contains.
\<close>

definition numberMatch :: "jsstring \<Rightarrow> bool" where
  "numberMatch s =
     (let a = stripPrefixChar 0x2D s;
          b = dropWhile (\<lambda>c. isDigit c \<or> c = 0x2C) a
      in takeWhile (\<lambda>c. isDigit c \<or> c = 0x2C) a \<noteq> [] \<and> list_all isDigit (stripPrefixChar 0x2E b))"

text \<open>
  \<^verbatim>\<open>/^(-?[\d,]+\.?\d*)\s*%$/\<close>: the text ends in a percent sign and, white space before it
  removed, the rest matches the number pattern; the result is the captured group.
\<close>

definition percentMatch :: "jsstring \<Rightarrow> jsstring option" where
  "percentMatch s =
     (if s \<noteq> [] \<and> last s = 0x25 then
        (let g = rev (dropWhile isSpace (rev (butlast s)))
         in if numberMatch g then Some g else None)
      else None)"

definition digitsValue :: "jsstring \<Rightarrow> nat" where
  "digitsValue ds = foldl (\<lambda>a c. 10 * a + unat (c - 0x30)) 0 ds"

text \<open>
  \<^verbatim>\<open>parseFloat\<close> followed by the test \<^verbatim>\<open>!isNaN(num) && isFinite(num)\<close>, on the texts that reach it
  in \<open>normalizeCell\<close>: a minus sign, digits and at most one dot (the commas are removed
  first). The result is the double nearest to the number that the decimal text denotes.
  \<open>None\<close> stands for a result the test rejects: NaN when there is no digit, and Infinity when
  the number is at least \<open>2^1024 - 2^970\<close>, the least real that rounds to it.
\<close>

definition parseFloat :: "jsstring \<Rightarrow> rat option" where
  "parseFloat s =
     (let neg = (s \<noteq> [] \<and> hd s = 0x2D);
          a = stripPrefixChar 0x2D s;
          ip = takeWhile isDigit a;
          b = dropWhile isDigit a;
          fp = (if b \<noteq> [] \<and> hd b = 0x2E then takeWhile isDigit (tl b) else [])
      in if ip = [] \<and> fp = [] then None
         else (let v = of_nat (digitsValue ip) + of_nat (digitsValue fp) / 10 ^ length fp
               in if 2 ^ 1024 - 2 ^ 970 \<le> v then None
                  else Some (if neg then - roundDouble v else roundDouble v)))"

definition removeCommas :: "jsstring \<Rightarrow> jsstring" where
  "removeCommas s = filter (\<lambda>c. c \<noteq> 0x2C) s"

text \<open>\<^verbatim>\<open>/^\d{4}-\d{2}-\d{2}$/\<close>\<close>

definition simpleDatePattern :: "jsstring \<Rightarrow> bool" where
  "simpleDatePattern s \<longleftrightarrow>
     length s = 10 \<and> list_all isDigit (take 4 s) \<and> s ! 4 = 0x2D \<and>
     list_all isDigit (take 2 (drop 5 s)) \<and> s ! 7 = 0x2D \<and> list_all isDigit (drop 8 s)"

definition isLeapYear :: "nat \<Rightarrow> bool" where
  "isLeapYear y \<longleftrightarrow> y mod 400 = 0 \<or> (y mod 4 = 0 \<and> y mod 100 \<noteq> 0)"

definition daysInMonth :: "nat \<Rightarrow> nat \<Rightarrow> nat" where
  "daysInMonth y m =
     (if m = 2 then (if isLeapYear y then 29 else 28)
      else if m \<in> set [4, 6, 9, 11] then 30 else 31)"

text \<open>
  \<^verbatim>\<open>parseISO\<close> and \<^verbatim>\<open>isValid\<close> of date-fns on a text of the shape \<^verbatim>\<open>YYYY-MM-DD\<close>: the date when
  the month and the day exist in the calendar, an invalid date (\<open>None\<close>) otherwise.
\<close>

definition parseISO :: "jsstring \<Rightarrow> date option" where
  "parseISO s =
     (let y = digitsValue (take 4 s); m = digitsValue (take 2 (drop 5 s)); d = digitsValue (drop 8 s)
      in if 1 \<le> m \<and> m \<le> 12 \<and> 1 \<le> d \<and> d \<le> daysInMonth y m then Some (Date y m d) else None)"

text \<open>The Korean words for true (U+CC38) and false (U+AC70 U+C9D3).\<close>

definition str_cham :: jsstring where "str_cham = [0xCC38]"
definition str_geojit :: jsstring where "str_geojit = [0xAC70, 0xC9D3]"

text \<open>
  \<open>normalizeCell\<close>. Its rules in the source's order, each a function that yields \<open>None\<close> where
  the source falls through to the next rule: number, percent, date, boolean, and the trimmed
  text as the default.
\<close>

definition numberRule :: "jsstring \<Rightarrow> rat option" where
  "numberRule trimmed =
     (if numberMatch trimmed \<and> 0x28 \<notin> set trimmed then parseFloat (removeCommas trimmed) else None)"

definition percentRule :: "jsstring \<Rightarrow> rat option" where
  "percentRule trimmed =
     (case percentMatch trimmed of
        Some g \<Rightarrow> map_option (\<lambda>num. roundDouble (num / 100)) (parseFloat (removeCommas g))
      | None \<Rightarrow> None)"

definition dateRule :: "jsstring \<Rightarrow> date option" where
  "dateRule trimmed = (if simpleDatePattern trimmed then parseISO trimmed else None)"

definition booleanRule :: "jsstring \<Rightarrow> cell" where
  "booleanRule trimmed =
     (let lowerValue = toLowerCase trimmed
      in if lowerValue = js ''true'' \<or> lowerValue = str_cham \<or> lowerValue = js ''yes'' then CBool True
         else if lowerValue = js ''false'' \<or> lowerValue = str_geojit \<or> lowerValue = js ''no'' then CBool False
         else CStr trimmed)"

definition normalizeCell :: "jsstring \<Rightarrow> cell" where
  "normalizeCell value =
     (if value = [] \<or> trim value = [] then CStr []
      else
        (let trimmed = trim value
         in if 0x28 \<in> set trimmed \<and> 0x29 \<in> set trimmed then CStr trimmed
            else
              (case numberRule trimmed of
                 Some num \<Rightarrow> CNum num
               | None \<Rightarrow>
                   (case percentRule trimmed of
                      Some num \<Rightarrow> CNum num
                    | None \<Rightarrow>
                        (case dateRule trimmed of
                           Some d \<Rightarrow> CDate d
                         | None \<Rightarrow> booleanRule trimmed)))))"

section \<open>Buffers, workbooks and the collaborators\<close>

text \<open>
  A \<^verbatim>\<open>Buffer\<close> is a list of bytes. A thrown JavaScript error is a value carrying its message.
  A sheet is the array of arrays of its cells (\<^verbatim>\<open>aoa_to_sheet\<close> stores the rows it is given and
  leaves out \<^verbatim>\<open>null\<close>, for which \<open>CNull\<close> stands); a workbook is the list of its named sheets in
  the order of \<^verbatim>\<open>SheetNames\<close>.
\<close>

type_synonym byte = "8 word"
type_synonym buffer = "byte list"

datatype error = Error (message: jsstring)

type_synonym table = "cell list list"
type_synonym workbook = "(jsstring \<times> table) list"

text \<open>The options objects the source passes to \<^verbatim>\<open>XLSX.read\<close>, as the list of their
  properties, and to \<^verbatim>\<open>sheet_to_json\<close> (always with \<^verbatim>\<open>header: 1, defval: null\<close>; \<open>None\<close> is an
  option left out).\<close>

datatype optval = B bool | N int | S jsstring

type_synonym read_opts = "(string \<times> optval) list"
type_synonym write_opts = "(string \<times> optval) list"

record json_opts =
  jo_raw :: "bool option"
  jo_blankrows :: "bool option"

text \<open>
  The libraries the converter calls are not part of the repository; they are parameters of
  the model.
  \<^item> \<open>xlsx_read\<close> is \<^verbatim>\<open>XLSX.read\<close>, which returns a workbook or throws.
  \<^item> \<open>sheet_to_json\<close> is \<^verbatim>\<open>XLSX.utils.sheet_to_json\<close> with \<^verbatim>\<open>header: 1, defval: null\<close>: the rows
    of a sheet, \<open>CNull\<close> where the sheet has no cell.
  \<^item> \<open>append_error\<close> is the check of \<^verbatim>\<open>XLSX.utils.book_append_sheet\<close>, given the names already
    in the workbook and the new name: \<open>None\<close> when the sheet is appended, the error thrown
    otherwise.
  \<^item> \<open>xlsx_write\<close> is \<^verbatim>\<open>XLSX.write\<close>, the workbook writer, which returns the bytes of the file
    or throws (SheetJS refuses, for one, a text cell of more than 32767 characters).
  \<^item> \<open>detect\<close> is jschardet's \<^verbatim>\<open>detect\<close>: an encoding name with a confidence, or nothing
    (also when it throws, which the source treats alike).
  \<^item> \<open>iconv_decode\<close> and \<open>iconv_encodingExists\<close> are iconv-lite's, called by the source only
    with encoding names that exist, where decoding does not throw.
  \<^item> \<open>inflateRawSync\<close> and \<open>gunzipSync\<close> are zlib's.
\<close>

record env =
  xlsx_read :: "buffer \<Rightarrow> read_opts \<Rightarrow> error + workbook"
  sheet_to_json :: "json_opts \<Rightarrow> table \<Rightarrow> table"
  append_error :: "jsstring list \<Rightarrow> jsstring \<Rightarrow> error option"
  xlsx_write :: "workbook \<Rightarrow> write_opts \<Rightarrow> error + buffer"
  detect :: "buffer \<Rightarrow> (jsstring \<times> rat) option"
  iconv_decode :: "jsstring \<Rightarrow> buffer \<Rightarrow> jsstring"
  iconv_encodingExists :: "jsstring \<Rightarrow> bool"
  inflateRawSync :: "buffer \<Rightarrow> error + buffer"
  gunzipSync :: "buffer \<Rightarrow> error + buffer"

definition book_append_sheet :: "env \<Rightarrow> workbook \<Rightarrow> table \<Rightarrow> jsstring \<Rightarrow> error + workbook" where
  "book_append_sheet E wb ws name =
     (case append_error E (map fst wb) name of
        Some e \<Rightarrow> Inl e
      | None \<Rightarrow> Inr (wb @ [(name, ws)]))"

text \<open>
  The options of the three forms of the call of \<^verbatim>\<open>XLSX.write\<close> in the source, and the lines that
  end every stage building a table of its own: \<^verbatim>\<open>book_new\<close>, \<^verbatim>\<open>aoa_to_sheet\<close>,
  \<^verbatim>\<open>book_append_sheet\<close> and the compressing \<^verbatim>\<open>XLSX.write\<close>, either of the last two of which may
  throw.
\<close>

definition plainWrite :: write_opts where
  "plainWrite = [(''type'', S (js ''buffer'')), (''bookType'', S (js ''xlsx''))]"

definition compressedWrite :: write_opts where
  "compressedWrite = [(''type'', S (js ''buffer'')), (''bookType'', S (js ''xlsx'')), (''compression'', B True)]"

definition finalWrite :: write_opts where
  "finalWrite =
     [(''type'', S (js ''buffer'')), (''bookType'', S (js ''xlsx'')), (''compression'', B True),
      (''cellDates'', B True)]"

definition writeTable :: "env \<Rightarrow> table \<Rightarrow> jsstring \<Rightarrow> error + buffer" where
  "writeTable E data name =
     (case book_append_sheet E [] data name of
        Inl e \<Rightarrow> Inl e
      | Inr workbook \<Rightarrow> xlsx_write E workbook compressedWrite)"

subsection \<open>Node's buffer decoders\<close>

text \<open>
  \<^verbatim>\<open>buffer.toString('latin1')\<close> maps each byte to the code unit of the same value,
  \<^verbatim>\<open>'ascii'\<close> clears the high bit first, \<^verbatim>\<open>'utf16le'\<close> pairs the bytes (a trailing odd byte is
  dropped), and \<^verbatim>\<open>Buffer.from(s, 'latin1')\<close> keeps the low byte of each code unit.
\<close>

definition toString_latin1 :: "buffer \<Rightarrow> jsstring" where
  "toString_latin1 b = map ucast b"

definition toString_ascii :: "buffer \<Rightarrow> jsstring" where
  "toString_ascii b = map (\<lambda>x. ucast (and x 0x7F)) b"

fun toString_utf16le :: "buffer \<Rightarrow> jsstring" where
  "toString_utf16le (lo # hi # rest) = (ucast lo + 256 * ucast hi) # toString_utf16le rest"
| "toString_utf16le _ = []"

definition bufferFrom_latin1 :: "jsstring \<Rightarrow> buffer" where
  "bufferFrom_latin1 s = map ucast s"

text \<open>
  \<^verbatim>\<open>buffer.toString('utf8')\<close>: the decoder of the Encoding Standard. The state is the number of
  continuation bytes still needed, the code point collected so far, and the bounds for the
  next byte. An ill-formed sequence yields U+FFFD, and the byte that broke it is decoded
  again as the start of a sequence.
\<close>

record utf8_state =
  u8_needed :: nat
  u8_cp :: int
  u8_lower :: int
  u8_upper :: int

definition utf8_init :: utf8_state where
  "utf8_init = \<lparr>u8_needed = 0, u8_cp = 0, u8_lower = 0x80, u8_upper = 0xBF\<rparr>"

definition utf8_start :: "int \<Rightarrow> int list \<times> utf8_state" where
  "utf8_start b =
     (if b \<le> 0x7F then ([b], utf8_init)
      else if 0xC2 \<le> b \<and> b \<le> 0xDF then
        ([], \<lparr>u8_needed = 1, u8_cp = b mod 0x20, u8_lower = 0x80, u8_upper = 0xBF\<rparr>)
      else if 0xE0 \<le> b \<and> b \<le> 0xEF then
        ([], \<lparr>u8_needed = 2, u8_cp = b mod 0x10,
              u8_lower = (if b = 0xE0 then 0xA0 else 0x80),
              u8_upper = (if b = 0xED then 0x9F else 0xBF)\<rparr>)
      else if 0xF0 \<le> b \<and> b \<le> 0xF4 then
        ([], \<lparr>u8_needed = 3, u8_cp = b mod 0x08,
              u8_lower = (if b = 0xF0 then 0x90 else 0x80),
              u8_upper = (if b = 0xF4 then 0x8F else 0xBF)\<rparr>)
      else ([0xFFFD], utf8_init))"

fun utf8_decode :: "utf8_state \<Rightarrow> int list \<Rightarrow> int list" where
  "utf8_decode st [] = (if u8_needed st > 0 then [0xFFFD] else [])"
| "utf8_decode st (b # bs) =
     (if u8_needed st = 0 then
        (let (out, st') = utf8_start b in out @ utf8_decode st' bs)
      else if u8_lower st \<le> b \<and> b \<le> u8_upper st then
        (let cp = u8_cp st * 64 + b mod 64
         in if u8_needed st = 1 then cp # utf8_decode utf8_init bs
            else utf8_decode \<lparr>u8_needed = u8_needed st - 1, u8_cp = cp,
                               u8_lower = 0x80, u8_upper = 0xBF\<rparr> bs)
      else
        (let (out, st') = utf8_start b in 0xFFFD # out @ utf8_decode st' bs))"

text \<open>A code point as UTF-16: one code unit, or a surrogate pair above the basic plane.\<close>

definition utf16_units :: "int \<Rightarrow> jsstring" where
  "utf16_units cp =
     (if cp < 0x10000 then [of_int cp]
      else [of_int (0xD800 + (cp - 0x10000) div 0x400), of_int (0xDC00 + (cp - 0x10000) mod 0x400)])"

definition toString_utf8 :: "buffer \<Rightarrow> jsstring" where
  "toString_utf8 b = concat (map utf16_units (utf8_decode utf8_init (map uint b)))"

text \<open>\<^verbatim>\<open>buffer.toString('base64')\<close>.\<close>

definition base64_char :: "int \<Rightarrow> jschar" where
  "base64_char n =
     (if n < 26 then of_int (0x41 + n)
      else if n < 52 then of_int (0x61 + (n - 26))
      else if n < 62 then of_int (0x30 + (n - 52))
      else if n = 62 then 0x2B else 0x2F)"

fun base64_encode :: "int list \<Rightarrow> jsstring" where
  "base64_encode (a # b # c # rest) =
     [base64_char (a div 4), base64_char ((a mod 4) * 16 + b div 16),
      base64_char ((b mod 16) * 4 + c div 64), base64_char (c mod 64)] @ base64_encode rest"
| "base64_encode [a, b] =
     [base64_char (a div 4), base64_char ((a mod 4) * 16 + b div 16),
      base64_char ((b mod 16) * 4), 0x3D]"
| "base64_encode [a] = [base64_char (a div 4), base64_char ((a mod 4) * 16), 0x3D, 0x3D]"
| "base64_encode [] = []"

definition toString_base64 :: "buffer \<Rightarrow> jsstring" where
  "toString_base64 b = base64_encode (map uint b)"

section \<open>Encoding resolution\<close>

text \<open>\<^verbatim>\<open>s.indexOf(sub)\<close> (\<open>None\<close> for -1) and \<^verbatim>\<open>s.includes(sub)\<close>.\<close>

fun indexOfFrom :: "jsstring \<Rightarrow> jsstring \<Rightarrow> nat \<Rightarrow> nat option" where
  "indexOfFrom sub [] i = (if sub = [] then Some i else None)"
| "indexOfFrom sub (c # s) i =
     (if take (length sub) (c # s) = sub then Some i else indexOfFrom sub s (Suc i))"

definition indexOf :: "jsstring \<Rightarrow> jsstring \<Rightarrow> nat option" where
  "indexOf sub s = indexOfFrom sub s 0"

definition includesStr :: "jsstring \<Rightarrow> jsstring \<Rightarrow> bool" where
  "includesStr sub s \<longleftrightarrow> indexOf sub s \<noteq> None"

definition hasReplacement :: "jsstring \<Rightarrow> bool" where
  "hasReplacement s \<longleftrightarrow> 0xFFFD \<in> set s"

text \<open>
  \<open>detectAndDecode\<close>, step 2: the detector's encoding is used when it is named with a
  confidence above 0.7, the Korean families through \<^verbatim>\<open>euc-kr\<close>.
\<close>

definition detectedDecode :: "env \<Rightarrow> buffer \<Rightarrow> jsstring option" where
  "detectedDecode E buffer =
     (case detect E buffer of
        None \<Rightarrow> None
      | Some (enc, confidence) \<Rightarrow>
          if enc \<noteq> [] \<and> confidence > 7 / 10 then
            (let encoding = toLowerCase enc
             in if includesStr (js ''euc-kr'') encoding \<or> includesStr (js ''cp949'') encoding
                then Some (iconv_decode E (js ''euc-kr'') buffer)
                else if iconv_encodingExists E encoding then Some (iconv_decode E encoding buffer)
                else None)
          else None)"

definition detectAndDecode :: "env \<Rightarrow> buffer \<Rightarrow> jsstring" where
  "detectAndDecode E buffer =
     (let utf8Text = toString_utf8 buffer
      in if \<not> hasReplacement utf8Text then utf8Text
         else
           (case detectedDecode E buffer of
              Some decoded \<Rightarrow> decoded
            | None \<Rightarrow>
                (case find (\<lambda>decoded. decoded \<noteq> [] \<and> \<not> hasReplacement decoded)
                        (map (\<lambda>encoding. iconv_decode E encoding buffer)
                           [js ''euc-kr'', js ''cp949'', js ''utf8'', js ''latin1'']) of
                   Some decoded \<Rightarrow> decoded
                 | None \<Rightarrow> iconv_decode E (js ''latin1'') buffer)))"

section \<open>Header normalizer\<close>

definition isWordChar :: "jschar \<Rightarrow> bool" where
  "isWordChar c \<longleftrightarrow>
     (0x41 \<le> c \<and> c \<le> 0x5A) \<or> (0x61 \<le> c \<and> c \<le> 0x7A) \<or> isDigit c \<or> c = 0x5F"

definition isHangul :: "jschar \<Rightarrow> bool" where
  "isHangul c \<longleftrightarrow> 0xAC00 \<le> c \<and> c \<le> 0xD7A3"

definition isControl :: "jschar \<Rightarrow> bool" where
  "isControl c \<longleftrightarrow> c \<le> 0x1F \<or> (0x7F \<le> c \<and> c \<le> 0x9F)"

text \<open>The class \<^verbatim>\<open>[\w\sU+AC00-U+D7A3()[\]{}.,\-_]\<close> of the characters a header keeps (the Hangul
  range written with its two end points U+AC00 and U+D7A3 in the source).\<close>

definition isHeaderSafe :: "jschar \<Rightarrow> bool" where
  "isHeaderSafe c \<longleftrightarrow> isWordChar c \<or> isSpace c \<or> isHangul c \<or> c \<in> set (js ''()[]{}.,-_'')"

text \<open>\<^verbatim>\<open>replace(/\s+/g, ' ')\<close>; the flag says that the previous code unit was white space.\<close>

fun collapseSpaces :: "bool \<Rightarrow> jsstring \<Rightarrow> jsstring" where
  "collapseSpaces prev [] = []"
| "collapseSpaces prev (c # s) =
     (if isSpace c then (if prev then collapseSpaces True s else 0x20 # collapseSpaces True s)
      else c # collapseSpaces False s)"

text \<open>The placeholder header, the Korean word for column.\<close>

definition str_column :: jsstring where
  "str_column = [0xCEEC, 0xB7FC]"

definition normalizeHeaderField :: "jsstring \<Rightarrow> jsstring" where
  "normalizeHeaderField value =
     (if value = [] \<or> trim value = [] then []
      else
        (let trimmed = trim value;
             normalized = trim (filter isHeaderSafe (filter (\<lambda>c. \<not> isControl c) trimmed));
             normalized = collapseSpaces False normalized
         in if normalized = [] then str_column else normalized))"

text \<open>A natural number in decimal, as a template literal prints it.\<close>

fun showNat :: "nat \<Rightarrow> jsstring" where
  "showNat n = (if n < 10 then [of_nat (0x30 + n)] else showNat (n div 10) @ [of_nat (0x30 + n mod 10)])"

declare showNat.simps [simp del]

section \<open>Delimited-text recovery\<close>

text \<open>
  \<open>textBasedRecovery\<close>. The lines are the non-blank lines of the decoded text. The first
  line is the header: each of its cells goes through the header normalizer, an empty result
  replaced by the placeholder and the position of the first cell with the same text. The
  other lines go through the cell normalizer and are kept when a cell is neither \<^verbatim>\<open>null\<close>
  nor empty. \<open>maxColumns\<close> follows every tokenized line, kept or not. The \<^verbatim>\<open>try\<close> block of the
  loop calls the tokenizer and the normalizers only, none of which has a throwing branch, so
  its \<^verbatim>\<open>catch\<close> block with the naive splitting fallbacks is never entered.
\<close>

definition nonBlankLines :: "jsstring \<Rightarrow> jsstring list" where
  "nonBlankLines text = filter (\<lambda>line. trim line \<noteq> []) (split [0x0A] text)"

text \<open>\<^verbatim>\<open>cells.indexOf(cell)\<close> for a cell of \<open>cells\<close>.\<close>

definition indexOfElem :: "'a \<Rightarrow> 'a list \<Rightarrow> nat" where
  "indexOfElem x xs = length (takeWhile (\<lambda>y. y \<noteq> x) xs)"

definition headerCells :: "jsstring list \<Rightarrow> cell list" where
  "headerCells cells =
     map (\<lambda>cell. let h = normalizeHeaderField cell
                 in if h \<noteq> [] then CStr h else CStr (str_column @ showNat (indexOfElem cell cells + 1)))
       cells"

definition processLine :: "jsstring \<Rightarrow> nat \<Rightarrow> jsstring \<Rightarrow> cell list" where
  "processLine delimiter lineIndex line =
     (let cells = parseCSVLine line delimiter
      in if lineIndex = 0 then headerCells cells else map normalizeCell cells)"

definition cellNonEmpty :: "cell \<Rightarrow> bool" where
  "cellNonEmpty c \<longleftrightarrow> c \<noteq> CNull \<and> c \<noteq> CStr []"

fun buildRows :: "jsstring \<Rightarrow> nat \<Rightarrow> jsstring list \<Rightarrow> table \<times> nat \<Rightarrow> table \<times> nat" where
  "buildRows delimiter lineIndex [] st = st"
| "buildRows delimiter lineIndex (line # rest) st =
     (let processedCells = processLine delimiter lineIndex line;
          maxColumns = max (snd st) (length processedCells);
          data = (if lineIndex = 0 \<or> list_ex cellNonEmpty processedCells
                  then fst st @ [processedCells] else fst st)
      in buildRows delimiter (Suc lineIndex) rest (data, maxColumns))"

definition padRow :: "nat \<Rightarrow> cell list \<Rightarrow> cell list" where
  "padRow maxColumns row = row @ replicate (maxColumns - length row) (CStr [])"

text \<open>The error of an input without a line: no data was parsed, check the file format.\<close>

definition msg_noData :: jsstring where
  "msg_noData = [0xD30C, 0xC2F1, 0xB41C, 0x20, 0xB370, 0xC774, 0xD130, 0xAC00, 0x20, 0xC5C6,
     0xC2B5, 0xB2C8, 0xB2E4, 0x2E, 0x20, 0xD30C, 0xC77C, 0x20, 0xD615, 0xC2DD, 0xC744, 0x20,
     0xD655, 0xC778, 0xD574, 0xC8FC, 0xC138, 0xC694, 0x2E]"

definition textBasedRecovery :: "env \<Rightarrow> buffer \<Rightarrow> error + workbook" where
  "textBasedRecovery E buffer =
     (let text = detectAndDecode E buffer;
          delimiter = detectDelimiter text;
          lines = nonBlankLines text;
          st = buildRows delimiter 0 lines ([], 0);
          data = map (padRow (snd st)) (fst st)
      in if data = [] then Inl (Error msg_noData)
         else book_append_sheet E [] data (js ''Sheet1''))"

section \<open>Workbook normalization\<close>

text \<open>
  \<open>sanitizeFilename\<close>: every code unit outside \<^verbatim>\<open>[\w.\-_]\<close> and the Hangul syllables becomes an
  underscore, runs of underscores collapse to one, and an empty result is replaced.
\<close>

definition isFilenameSafe :: "jschar \<Rightarrow> bool" where
  "isFilenameSafe c \<longleftrightarrow> isWordChar c \<or> isHangul c \<or> c = 0x2E \<or> c = 0x2D \<or> c = 0x5F"

fun collapseUnderscores :: "jsstring \<Rightarrow> jsstring" where
  "collapseUnderscores (a # b # s) =
     (if a = 0x5F \<and> b = 0x5F then collapseUnderscores (b # s) else a # collapseUnderscores (b # s))"
| "collapseUnderscores s = s"

definition sanitizeFilename :: "jsstring \<Rightarrow> jsstring" where
  "sanitizeFilename filename =
     (let sanitized = trim (collapseUnderscores (map (\<lambda>c. if isFilenameSafe c then c else 0x5F) filename))
      in if sanitized \<noteq> [] then sanitized else js ''converted_file'')"

text \<open>
  \<open>normalizeWorkbook\<close>: each sheet is read back as rows (\<^verbatim>\<open>raw: false\<close>), every cell that is a
  string goes through the cell normalizer, every other cell is kept as it is, and the rows are
  appended to the new workbook under the sanitized name cut to 31 code units. An error of
  \<^verbatim>\<open>book_append_sheet\<close> is not caught here.
\<close>

definition normalizeRows :: "table \<Rightarrow> table" where
  "normalizeRows jsonData =
     map (\<lambda>row. map (\<lambda>cell. case cell of CStr s \<Rightarrow> normalizeCell s | _ \<Rightarrow> cell) row) jsonData"

fun normalizeSheets :: "env \<Rightarrow> workbook \<Rightarrow> workbook \<Rightarrow> error + workbook" where
  "normalizeSheets E normalizedWorkbook [] = Inr normalizedWorkbook"
| "normalizeSheets E normalizedWorkbook ((sheetName, worksheet) # rest) =
     (let jsonData = sheet_to_json E \<lparr>jo_raw = Some False, jo_blankrows = None\<rparr> worksheet;
          normalizedData = normalizeRows jsonData;
          safeSheetName = take 31 (sanitizeFilename sheetName)
      in case book_append_sheet E normalizedWorkbook normalizedData safeSheetName of
           Inl e \<Rightarrow> Inl e
         | Inr wb \<Rightarrow> normalizeSheets E wb rest)"

definition normalizeWorkbook :: "env \<Rightarrow> workbook \<Rightarrow> error + workbook" where
  "normalizeWorkbook E workbook = normalizeSheets E [] workbook"

section \<open>Regular expressions of the miners\<close>

text \<open>
  \<^verbatim>\<open>s.match(re)\<close> for a global regular expression: the matches from left to right, each search
  resuming after the previous match (the empty list stands for \<^verbatim>\<open>null\<close>). A regular expression
  is given by its matcher: from the code unit before a position (for \<^verbatim>\<open>\b\<close>) and the text from
  that position on, the length of the match that starts there, if there is one. None of the
  source's expressions matches the empty string. \<open>skip\<close> counts the code units of the previous
  match still to be passed over.
\<close>

type_synonym matcher = "jschar option \<Rightarrow> jsstring \<Rightarrow> nat option"

fun matchAllAux :: "matcher \<Rightarrow> nat \<Rightarrow> jschar option \<Rightarrow> jsstring \<Rightarrow> jsstring list" where
  "matchAllAux m skip prev [] = []"
| "matchAllAux m skip prev (c # s) =
     (if skip > 0 then matchAllAux m (skip - 1) (Some c) s
      else
        (case m prev (c # s) of
           Some n \<Rightarrow> take n (c # s) # matchAllAux m (n - 1) (Some c) s
         | None \<Rightarrow> matchAllAux m 0 (Some c) s))"

definition matchAll :: "matcher \<Rightarrow> jsstring \<Rightarrow> jsstring list" where
  "matchAll m s = matchAllAux m 0 None s"

text \<open>\<^verbatim>\<open>re.test(s)\<close>: there is a match somewhere.\<close>

definition regexTest :: "matcher \<Rightarrow> jsstring \<Rightarrow> bool" where
  "regexTest m s \<longleftrightarrow> matchAll m s \<noteq> []"

text \<open>\<^verbatim>\<open>[class]{n,}\<close>: a run of at least \<open>n\<close> code units of the class, as long as it goes.\<close>

definition runOf :: "(jschar \<Rightarrow> bool) \<Rightarrow> nat \<Rightarrow> matcher" where
  "runOf P n prev s = (let k = length (takeWhile P s) in if k \<ge> n then Some k else None)"

text \<open>A literal word, and a literal word regardless of the case of ASCII letters.\<close>

definition literal :: "jsstring \<Rightarrow> matcher" where
  "literal w prev s = (if take (length w) s = w then Some (length w) else None)"

definition asciiLower :: "jschar \<Rightarrow> jschar" where
  "asciiLower c = (if 0x41 \<le> c \<and> c \<le> 0x5A then c + 0x20 else c)"

definition literalCI :: "jsstring \<Rightarrow> matcher" where
  "literalCI w prev s =
     (if length w \<le> length s \<and> map asciiLower (take (length w) s) = map asciiLower w
      then Some (length w) else None)"

text \<open>\<^verbatim>\<open>^\<close> and \<^verbatim>\<open>$\<close> around a matcher: the match starts at the beginning of the text, or it
  reaches its end.\<close>

definition startsWith :: "matcher \<Rightarrow> jsstring \<Rightarrow> bool" where
  "startsWith m s \<longleftrightarrow> s \<noteq> [] \<and> m None s \<noteq> None"

definition endsWithCI :: "jsstring \<Rightarrow> jsstring \<Rightarrow> bool" where
  "endsWithCI w s \<longleftrightarrow>
     length w \<le> length s \<and> map asciiLower (drop (length s - length w) s) = map asciiLower w"

definition equalsCI :: "jsstring \<Rightarrow> jsstring \<Rightarrow> bool" where
  "equalsCI w s \<longleftrightarrow> map asciiLower s = map asciiLower w"

text \<open>\<^verbatim>\<open>\b\<close>: exactly one of the two neighbouring code units is a word character; there is
  none beyond either end of the text.\<close>

definition wordBefore :: "jschar option \<Rightarrow> bool" where
  "wordBefore prev = (case prev of None \<Rightarrow> False | Some p \<Rightarrow> isWordChar p)"

definition wordAt :: "jsstring \<Rightarrow> bool" where
  "wordAt s = (case s of [] \<Rightarrow> False | c # _ \<Rightarrow> isWordChar c)"

text \<open>\<^verbatim>\<open>\b(w1|w2|...)\b\<close>: the first alternative, in the order written, that is found at the
  position between two word boundaries.\<close>

definition boundedWords :: "(jsstring \<Rightarrow> matcher) \<Rightarrow> jsstring list \<Rightarrow> matcher" where
  "boundedWords lit ws prev s =
     (if wordBefore prev = wordAt s then None
      else
        (case find (\<lambda>w. lit w prev s \<noteq> None \<and> wordAt [last (take (length w) s)] \<noteq> wordAt (drop (length w) s))
                (filter (\<lambda>w. w \<noteq> []) ws) of
           Some w \<Rightarrow> Some (length w)
         | None \<Rightarrow> None))"

text \<open>\<^verbatim>\<open>\b\d{lo,hi}\b\<close>, with a fixed prefix of digits before the counted ones
  (\<^verbatim>\<open>\b20\d{8,10}\b\<close>), and \<^verbatim>\<open>\b\d{n,}\<close> without the closing boundary. A digit is a word
  character, so the run of digits at the position is taken whole.\<close>

definition boundedDigits :: "jsstring \<Rightarrow> nat \<Rightarrow> nat \<Rightarrow> matcher" where
  "boundedDigits pre lo hi prev s =
     (let k = length (takeWhile isDigit s)
      in if \<not> wordBefore prev \<and> take (length pre) s = pre \<and> length pre + lo \<le> k \<and> k \<le> length pre + hi
            \<and> \<not> wordAt (drop k s)
         then Some k else None)"

definition boundaryDigits :: "nat \<Rightarrow> matcher" where
  "boundaryDigits n prev s =
     (let k = length (takeWhile isDigit s)
      in if \<not> wordBefore prev \<and> n \<le> k then Some k else None)"

text \<open>\<^verbatim>\<open>\b\d{4,}\b\<close>: a run of at least four digits between two boundaries.\<close>

definition longNumber :: matcher where
  "longNumber prev s =
     (let k = length (takeWhile isDigit s)
      in if \<not> wordBefore prev \<and> 4 \<le> k \<and> \<not> wordAt (drop k s) then Some k else None)"

text \<open>\<^verbatim>\<open>\b\d{2,4}-\d{2,4}-\d{4}\b\<close>, the shape of a telephone number.\<close>

definition phoneNumber :: matcher where
  "phoneNumber prev s =
     (let a = length (takeWhile isDigit s);
          s1 = drop a s;
          b = length (takeWhile isDigit (drop 1 s1));
          s2 = drop (1 + b) s1;
          c = length (takeWhile isDigit (drop 1 s2))
      in if \<not> wordBefore prev \<and> 2 \<le> a \<and> a \<le> 4 \<and> take 1 s1 = [0x2D] \<and> 2 \<le> b \<and> b \<le> 4
            \<and> take 1 s2 = [0x2D] \<and> c = 4 \<and> \<not> wordAt (drop 5 s2)
         then Some (a + 1 + b + 1 + 4) else None)"

text \<open>\<^verbatim>\<open><t[^>]*>([^<]*)<\/t>\<close> and \<^verbatim>\<open><v[^>]*>([^<]*)<\/v>\<close>: an opening tag whose name starts with
  the letter, up to the first \<^verbatim>\<open>>\<close>; text up to the next \<^verbatim>\<open><\<close>; and there the closing tag. The
  second component is the captured text.\<close>

definition textTagParts :: "jschar \<Rightarrow> jsstring \<Rightarrow> (nat \<times> jsstring) option" where
  "textTagParts letter s =
     (if take 2 s = [0x3C, letter] then
        (let attrs = takeWhile (\<lambda>c. c \<noteq> 0x3E) (drop 2 s);
             afterOpen = drop (2 + length attrs) s
         in if take 1 afterOpen = [0x3E] then
              (let body = takeWhile (\<lambda>c. c \<noteq> 0x3C) (drop 1 afterOpen);
                   closing = drop (1 + length body) afterOpen
               in if take 4 closing = [0x3C, 0x2F, letter, 0x3E]
                  then Some (2 + length attrs + 1 + length body + 4, body) else None)
            else None)
      else None)"

definition textTag :: "jschar \<Rightarrow> matcher" where
  "textTag letter prev s = map_option fst (textTagParts letter s)"

text \<open>\<^verbatim>\<open><c[^>]*>.*?<\/c>\<close>: an opening tag up to the first \<^verbatim>\<open>>\<close>, then as little as possible, without
  a line terminator, up to the next \<^verbatim>\<open></c>\<close>.\<close>

definition isLineTerminator :: "jschar \<Rightarrow> bool" where
  "isLineTerminator c \<longleftrightarrow> c = 0x0A \<or> c = 0x0D \<or> c = 0x2028 \<or> c = 0x2029"

definition cellTag :: matcher where
  "cellTag prev s =
     (if take 2 s = [0x3C, 0x63] then
        (let attrs = takeWhile (\<lambda>c. c \<noteq> 0x3E) (drop 2 s);
             afterOpen = drop (2 + length attrs) s
         in if take 1 afterOpen = [0x3E] then
              (case indexOf (js ''</c>'') (drop 1 afterOpen) of
                 Some k \<Rightarrow>
                   if list_ex isLineTerminator (take k (drop 1 afterOpen)) then None
                   else Some (2 + length attrs + 1 + k + 4)
               | None \<Rightarrow> None)
            else None)
      else None)"

text \<open>\<^verbatim>\<open>replace(/<[^>]*>/g, r)\<close>: every tag, from a \<^verbatim>\<open><\<close> to the first \<^verbatim>\<open>>\<close> after it, becomes
  \<open>r\<close>; the flag says that the position is inside a tag.\<close>

fun replaceTags :: "jsstring \<Rightarrow> bool \<Rightarrow> jsstring \<Rightarrow> jsstring" where
  "replaceTags r inTag [] = []"
| "replaceTags r inTag (c # s) =
     (if inTag then (if c = 0x3E then replaceTags r False s else replaceTags r True s)
      else if c = 0x3C \<and> 0x3E \<in> set s then r @ replaceTags r True s
      else c # replaceTags r False s)"

text \<open>\<^verbatim>\<open>s.split(re)\<close> for a regular expression \<^verbatim>\<open>[class]+\<close>: the pieces between the runs of
  separators; only the first and the last piece can be empty.\<close>

fun splitEvery :: "(jschar \<Rightarrow> bool) \<Rightarrow> jsstring \<Rightarrow> jsstring list" where
  "splitEvery P [] = [[]]"
| "splitEvery P (c # s) =
     (if P c then [] # splitEvery P s
      else (let r = splitEvery P s in (c # hd r) # tl r))"

definition splitRuns :: "(jschar \<Rightarrow> bool) \<Rightarrow> jsstring \<Rightarrow> jsstring list" where
  "splitRuns P s =
     (let ps = splitEvery P s
      in if length ps \<le> 2 then ps
         else hd ps # filter (\<lambda>p. p \<noteq> []) (butlast (tl ps)) @ [last ps])"

text \<open>\<^verbatim>\<open>Array.from(new Set(xs))\<close>: the first occurrence of each element, in order.\<close>

definition unique :: "'a list \<Rightarrow> 'a list" where
  "unique xs = rev (remdups (rev xs))"

text \<open>\<^verbatim>\<open>s.lastIndexOf(sub, from)\<close>: the last occurrence that starts at or before \<open>from\<close>.\<close>

definition lastIndexOf :: "jsstring \<Rightarrow> jsstring \<Rightarrow> nat \<Rightarrow> nat option" where
  "lastIndexOf sub s from =
     find (\<lambda>i. take (length sub) (drop i s) = sub \<and> i + length sub \<le> length s)
       (rev [0 ..< Suc (min from (length s))])"

section \<open>Byte-scan miner\<close>

text \<open>
  \<^verbatim>\<open>buffer.toString(encoding)\<close> of Node: the encodings it knows, and a thrown error for any
  other name (the Korean encodings among them).
\<close>

definition bufferToString :: "jsstring \<Rightarrow> buffer \<Rightarrow> error + jsstring" where
  "bufferToString encoding b =
     (if encoding = js ''utf8'' then Inr (toString_utf8 b)
      else if encoding = js ''latin1'' then Inr (toString_latin1 b)
      else if encoding = js ''ascii'' then Inr (toString_ascii b)
      else if encoding = js ''utf16le'' then Inr (toString_utf16le b)
      else if encoding = js ''base64'' then Inr (toString_base64 b)
      else Inl (Error (js ''Unknown encoding: '' @ encoding)))"

text \<open>\<^verbatim>\<open>filename.replace(/\.[^.]+$/, '')\<close>: the text after the last dot goes, with the dot, unless
  the dot is the last code unit.\<close>

definition stripExtension :: "jsstring \<Rightarrow> jsstring" where
  "stripExtension filename =
     (let ext = takeWhile (\<lambda>c. c \<noteq> 0x2E) (rev filename)
      in if ext \<noteq> [] \<and> length ext < length filename
         then take (length filename - length ext - 1) filename else filename)"

definition isLetter :: "jschar \<Rightarrow> bool" where
  "isLetter c \<longleftrightarrow> (0x41 \<le> c \<and> c \<le> 0x5A) \<or> (0x61 \<le> c \<and> c \<le> 0x7A)"

text \<open>The separators \<^verbatim>\<open>[_\-\[\]().\s]\<close> of the words of a file name.\<close>

definition isFilenameSeparator :: "jschar \<Rightarrow> bool" where
  "isFilenameSeparator c \<longleftrightarrow> c \<in> set (js ''_-[]().'') \<or> isSpace c"

definition filenameTexts :: "jsstring \<Rightarrow> jsstring list" where
  "filenameTexts filename =
     filter (\<lambda>t. regexTest (runOf isHangul 1) t \<or> regexTest (runOf isLetter 2) t \<or> regexTest (runOf isDigit 4) t)
       (filter (\<lambda>t. t \<noteq> []) (splitRuns isFilenameSeparator (stripExtension filename)))"

text \<open>The Korean business keywords the scan looks for, in the source's order (order number,
  invoice number, waybill, delivery, parcel, contact, telephone number, mobile phone twice,
  address, street name, lot number, postal code, quantity, amount, price, sum, total, customer,
  vendor, company, trade name, corporation, date, time, year, month, day, goods, product,
  article, item, and three names).\<close>

definition businessKeywords :: "jsstring list" where
  "businessKeywords = [[0xC8FC, 0xBB38, 0xBC88, 0xD638], [0xC1A1, 0xC7A5, 0xBC88, 0xD638],
     [0xC6B4, 0xC1A1, 0xC7A5], [0xBC30, 0xC1A1], [0xD0DD, 0xBC30], [0xC5F0, 0xB77D, 0xCC98],
     [0xC804, 0xD654, 0xBC88, 0xD638], [0xD734, 0xB300, 0xD3F0], [0xD578, 0xB4DC, 0xD3F0],
     [0xC8FC, 0xC18C], [0xB3C4, 0xB85C, 0xBA85], [0xC9C0, 0xBC88], [0xC6B0, 0xD3B8, 0xBC88,
     0xD638], [0xC218, 0xB7C9], [0xAE08, 0xC561], [0xAC00, 0xACA9], [0xD569, 0xACC4], [0xCD1D,
     0xC561], [0xACE0, 0xAC1D], [0xC5C5, 0xCCB4], [0xD68C, 0xC0AC], [0xC0C1, 0xD638], [0xBC95,
     0xC778], [0xB0A0, 0xC9DC], [0xC2DC, 0xAC04], [0xB144], [0xC6D4], [0xC77C], [0xC0C1,
     0xD488], [0xC81C, 0xD488], [0xD488, 0xBAA9], [0xC544, 0xC774, 0xD15C], [0xBD80, 0xB0B4,
     0xC0AC, 0xC5C5], [0xC9C0, 0xC815, 0xC1A1, 0xD558, 0xC778], [0xC624, 0xC384]]"

text \<open>The two Hangul vowels U+314F and U+3153 and the two repeated syllables that a Korean
  word must not contain or be.\<close>

definition validKoreanWord :: "jsstring \<Rightarrow> bool" where
  "validKoreanWord w \<longleftrightarrow>
     length w \<ge> 2 \<and> length w \<le> 20 \<and> w \<noteq> [] \<and> list_all isHangul w \<and>
     0x314F \<notin> set w \<and> 0x3153 \<notin> set w \<and> w \<noteq> [0xAC00, 0xAC00] \<and> w \<noteq> [0xB098, 0xB098]"

definition businessEnglishWords :: "jsstring list" where
  "businessEnglishWords =
     [js ''order'', js ''delivery'', js ''phone'', js ''address'', js ''company'', js ''customer'',
      js ''date'', js ''time'', js ''product'', js ''item'', js ''type'', js ''number'']"

text \<open>What one decoding of the buffer contributes: Korean words, business keywords, English
  business words, and numbers in the four shapes (telephone, postal code, order number, any
  run of four digits or more after a word boundary).\<close>

definition scanText :: "jsstring \<Rightarrow> jsstring list" where
  "scanText textContent =
     filter validKoreanWord (matchAll (runOf isHangul 2) textContent)
     @ concat (map (\<lambda>kw. matchAll (literal kw) textContent) businessKeywords)
     @ matchAll (boundedWords literalCI businessEnglishWords) textContent
     @ concat (map (\<lambda>m. matchAll m textContent)
         [phoneNumber, boundedDigits [] 5 5, boundedDigits (js ''20'') 8 10, boundaryDigits 4])"

definition scanEncodings :: "jsstring list" where
  "scanEncodings = [js ''euc-kr'', js ''cp949'', js ''utf8'', js ''utf16le'', js ''latin1'', js ''ascii'']"

definition scanBuffer :: "buffer \<Rightarrow> jsstring list" where
  "scanBuffer buffer =
     concat (map (\<lambda>encoding. case bufferToString encoding buffer of
                                Inl e \<Rightarrow> []
                              | Inr textContent \<Rightarrow> scanText textContent) scanEncodings)"

text \<open>The tokens of the miner: those of the file name, then those of the buffer, without
  duplicates and blanks, at most one hundred.\<close>

definition uniqueTexts :: "buffer \<Rightarrow> jsstring \<Rightarrow> jsstring list" where
  "uniqueTexts buffer filename =
     take 100 (filter (\<lambda>t. t \<noteq> [] \<and> trim t \<noteq> []) (unique (filenameTexts filename @ scanBuffer buffer)))"

text \<open>The words of the token table: the four column titles (found text, type, length,
  description), the four types (Hangul, English, number, compound) and the descriptions.\<close>

definition k_foundText :: jsstring where
  "k_foundText = [0xBC1C, 0xACAC, 0xB41C, 0x20, 0xD14D, 0xC2A4, 0xD2B8]"
definition k_type :: jsstring where
  "k_type = [0xD0C0, 0xC785]"
definition k_length :: jsstring where
  "k_length = [0xAE38, 0xC774]"
definition k_description :: jsstring where
  "k_description = [0xC124, 0xBA85]"
definition k_hangul :: jsstring where
  "k_hangul = [0xD55C, 0xAE00]"
definition k_english :: jsstring where
  "k_english = [0xC601, 0xBB38]"
definition k_number :: jsstring where
  "k_number = [0xC22B, 0xC790]"
definition k_compound :: jsstring where
  "k_compound = [0xBCF5, 0xD569]"
definition k_jumun :: jsstring where
  "k_jumun = [0xC8FC, 0xBB38]"
definition k_beonho :: jsstring where
  "k_beonho = [0xBC88, 0xD638]"
definition k_baesong :: jsstring where
  "k_baesong = [0xBC30, 0xC1A1]"
definition k_taekbae :: jsstring where
  "k_taekbae = [0xD0DD, 0xBC30]"
definition k_yeollak :: jsstring where
  "k_yeollak = [0xC5F0, 0xB77D]"
definition k_jeonhwa :: jsstring where
  "k_jeonhwa = [0xC804, 0xD654]"
definition k_orderRelated :: jsstring where
  "k_orderRelated = [0xC8FC, 0xBB38, 0x20, 0xAD00, 0xB828]"
definition k_deliveryRelated :: jsstring where
  "k_deliveryRelated = [0xBC30, 0xC1A1, 0x20, 0xAD00, 0xB828]"
definition k_contactRelated :: jsstring where
  "k_contactRelated = [0xC5F0, 0xB77D, 0xCC98, 0x20, 0xAD00, 0xB828]"
definition k_hangulText :: jsstring where
  "k_hangulText = [0xD55C, 0xAE00, 0x20, 0xD14D, 0xC2A4, 0xD2B8]"
definition k_businessKeyword :: jsstring where
  "k_businessKeyword = [0xC5C5, 0xBB34, 0x20, 0xD0A4, 0xC6CC, 0xB4DC]"
definition k_orderId :: jsstring where
  "k_orderId = [0xC8FC, 0xBB38, 0xBC88, 0xD638, 0x2F, 0x49, 0x44]"
definition k_postalCode :: jsstring where
  "k_postalCode = [0xC6B0, 0xD3B8, 0xBC88, 0xD638]"
definition k_otherNumber :: jsstring where
  "k_otherNumber = [0xAE30, 0xD0C0, 0x20, 0xC22B, 0xC790]"
definition k_phoneAddress :: jsstring where
  "k_phoneAddress = [0xC804, 0xD654, 0xBC88, 0xD638, 0x2F, 0xC8FC, 0xC18C, 0x20, 0xB4F1]"

definition tokenRow :: "jsstring \<Rightarrow> cell list" where
  "tokenRow t =
     (let (type, description) =
        (if t \<noteq> [] \<and> list_all isHangul t then
           (k_hangul,
            if includesStr k_jumun t \<or> includesStr k_beonho t then k_orderRelated
            else if includesStr k_baesong t \<or> includesStr k_taekbae t then k_deliveryRelated
            else if includesStr k_yeollak t \<or> includesStr k_jeonhwa t then k_contactRelated
            else k_hangulText)
         else if t \<noteq> [] \<and> list_all isLetter t then (k_english, k_businessKeyword)
         else if t \<noteq> [] \<and> list_all isDigit t then
           (k_number,
            if length t \<ge> 8 then k_orderId else if length t = 5 then k_postalCode else k_otherNumber)
         else (k_compound, k_phoneAddress))
      in [CStr (normalizeHeaderField t), CStr type, CStr (showNat (length t)), CStr description])"

definition tokenTable :: "jsstring list \<Rightarrow> table" where
  "tokenTable texts =
     [CStr k_foundText, CStr k_type, CStr k_length, CStr k_description] # map tokenRow texts"

text \<open>The table written when nothing was found: a title row (state, description) and four
  rows: the file is damaged and no meaningful text was found, the file name, the file size
  in bytes, and the advice to check the original file.\<close>

definition k_state :: jsstring where
  "k_state = [0xC0C1, 0xD0DC]"
definition k_explanation :: jsstring where
  "k_explanation = [0xC124, 0xBA85]"
definition k_fileDamaged :: jsstring where
  "k_fileDamaged = [0xD30C, 0xC77C, 0x20, 0xC190, 0xC0C1]"
definition k_noMeaningfulText :: jsstring where
  "k_noMeaningfulText = [0xC758, 0xBBF8, 0xC788, 0xB294, 0x20, 0xD14D, 0xC2A4, 0xD2B8, 0xB97C,
     0x20, 0xCC3E, 0xC744, 0x20, 0xC218, 0x20, 0xC5C6, 0xC2B5, 0xB2C8, 0xB2E4]"
definition k_fileName :: jsstring where
  "k_fileName = [0xD30C, 0xC77C, 0xBA85]"
definition k_fileSize :: jsstring where
  "k_fileSize = [0xD30C, 0xC77C, 0x20, 0xD06C, 0xAE30]"
definition k_advice :: jsstring where
  "k_advice = [0xAD8C, 0xC7A5, 0xC0AC, 0xD56D]"
definition k_checkOriginal :: jsstring where
  "k_checkOriginal = [0xC6D0, 0xBCF8, 0x20, 0xD30C, 0xC77C, 0xC744, 0x20, 0xB2E4, 0xC2DC, 0x20,
     0xD655, 0xC778, 0xD574, 0xC8FC, 0xC138, 0xC694]"

definition fileStatusTable :: "buffer \<Rightarrow> jsstring \<Rightarrow> table" where
  "fileStatusTable buffer filename =
     [[CStr k_state, CStr k_explanation],
      [CStr k_fileDamaged, CStr k_noMeaningfulText],
      [CStr k_fileName, CStr filename],
      [CStr k_fileSize, CStr (showNat (length buffer) @ js '' bytes'')],
      [CStr k_advice, CStr k_checkOriginal]]"

text \<open>
  \<open>findMeaningfulTextInBuffer\<close>. The per-encoding \<^verbatim>\<open>try\<close> skips an encoding that \<^verbatim>\<open>toString\<close>
  rejects. With a token, the token table is written as the sheet \<^verbatim>\<open>MeaningfulData\<close>; an error
  there, of \<^verbatim>\<open>book_append_sheet\<close> or of the writer, is caught by the outer \<^verbatim>\<open>try\<close>, and the status
  table follows, as it does without a token (the inner \<open>Inl\<close> of the model stands for leaving
  the \<^verbatim>\<open>try\<close> without a result). The status table is written outside every \<^verbatim>\<open>try\<close>, so an
  error there is thrown to the caller.
\<close>

definition findMeaningfulTextInBuffer :: "env \<Rightarrow> buffer \<Rightarrow> jsstring \<Rightarrow> error + buffer" where
  "findMeaningfulTextInBuffer E buffer filename =
     (let uniqueTexts = uniqueTexts buffer filename
      in case (if uniqueTexts \<noteq> []
               then writeTable E (tokenTable uniqueTexts) (js ''MeaningfulData'')
               else Inl (Error [])) of
           Inr outputBuffer \<Rightarrow> Inr outputBuffer
         | Inl e \<Rightarrow> writeTable E (fileStatusTable buffer filename) (js ''FileStatus''))"

section \<open>Container scan: shared strings and worksheet\<close>

text \<open>The three filters of the words of a shared-string payload without text tags, from
  the strictest to the most lenient, with their character classes and the names of the
  container's own parts that they exclude.\<close>

definition isStrictChar :: "jschar \<Rightarrow> bool" where
  "isStrictChar c \<longleftrightarrow> isHangul c \<or> isLetter c \<or> isDigit c \<or> c \<in> set (js ''-_()[]{}.,'')"

definition isMeaningfulChar :: "jschar \<Rightarrow> bool" where
  "isMeaningfulChar c \<longleftrightarrow> isHangul c \<or> isLetter c \<or> isDigit c"

definition isSevereControl :: "jschar \<Rightarrow> bool" where
  "isSevereControl c \<longleftrightarrow> c \<le> 0x08 \<or> (0x0E \<le> c \<and> c \<le> 0x1F) \<or> (0x7F \<le> c \<and> c \<le> 0x9F)"

text \<open>\<^verbatim>\<open>/^xl\/|\.xml$|^PK|^Content|^Types/i\<close>, the same with \<^verbatim>\<open>|sharedStrings\<close>, and
  \<^verbatim>\<open>/^PK$|^xl$|xml$/i\<close>.\<close>

definition isPartName :: "jsstring \<Rightarrow> bool" where
  "isPartName word \<longleftrightarrow>
     startsWith (literalCI (js ''xl/'')) word \<or> endsWithCI (js ''.xml'') word \<or>
     startsWith (literalCI (js ''PK'')) word \<or> startsWith (literalCI (js ''Content'')) word \<or>
     startsWith (literalCI (js ''Types'')) word"

definition isPartNameStrict :: "jsstring \<Rightarrow> bool" where
  "isPartNameStrict word \<longleftrightarrow> isPartName word \<or> regexTest (literalCI (js ''sharedStrings'')) word"

definition isSystemKeyword :: "jsstring \<Rightarrow> bool" where
  "isSystemKeyword word \<longleftrightarrow>
     equalsCI (js ''PK'') word \<or> equalsCI (js ''xl'') word \<or> endsWithCI (js ''xml'') word"

definition filterLevels :: "(jsstring \<Rightarrow> bool) list" where
  "filterLevels =
     [\<lambda>word. length word \<ge> 2 \<and> length word \<le> 50 \<and> word \<noteq> [] \<and> list_all isStrictChar word \<and>
             \<not> (word \<noteq> [] \<and> list_all (\<lambda>c. isDigit c \<or> c = 0x2E) word) \<and> \<not> isPartNameStrict word,
      \<lambda>word. length word \<ge> 2 \<and> length word \<le> 50 \<and> list_ex isMeaningfulChar word \<and>
             \<not> isPartName word \<and> \<not> list_ex isSevereControl word,
      \<lambda>word. length word \<ge> 1 \<and> length word \<le> 100 \<and> list_ex isMeaningfulChar word \<and>
             \<not> isSystemKeyword word]"

text \<open>The loop over the levels: the first level with a word decides when it has five distinct
  words or is the last one; a level without a word is passed over.\<close>

fun tryLevels :: "jsstring list \<Rightarrow> (jsstring \<Rightarrow> bool) list \<Rightarrow> jsstring list" where
  "tryLevels allWords [] = []"
| "tryLevels allWords (level # rest) =
     (let filtered = filter level allWords
      in if filtered \<noteq> [] then
           (let uniq = take 50 (unique filtered)
            in if length uniq \<ge> 5 \<or> rest = [] then uniq else tryLevels allWords rest)
         else tryLevels allWords rest)"

definition flexibleTexts :: "jsstring \<Rightarrow> jsstring list" where
  "flexibleTexts content =
     (let withoutTags = replaceTags [0x20] False content;
          allWords = filter (\<lambda>word. word \<noteq> []) (map trim (splitRuns isSpace withoutTags))
      in tryLevels allWords filterLevels)"

text \<open>The pattern scans run when fewer than five texts were found: the first pattern with a
  match adds its matches (system keywords left out), and the loop ends there when a text is
  now present.\<close>

definition scanPatterns :: "matcher list" where
  "scanPatterns = [runOf isHangul 1, runOf isLetter 2, runOf isDigit 4, runOf isMeaningfulChar 1]"

fun tryPatterns :: "jsstring \<Rightarrow> jsstring list \<Rightarrow> matcher list \<Rightarrow> jsstring list" where
  "tryPatterns content extractedTexts [] = extractedTexts"
| "tryPatterns content extractedTexts (pattern # rest) =
     (let matches = matchAll pattern content
      in if matches \<noteq> [] then
           (let extractedTexts =
                  extractedTexts @
                  filter (\<lambda>cleaned. length cleaned \<ge> 1 \<and> length cleaned \<le> 100 \<and> \<not> isSystemKeyword cleaned)
                    (map trim matches)
            in if extractedTexts \<noteq> [] then take 50 (unique extractedTexts)
               else tryPatterns content extractedTexts rest)
         else tryPatterns content extractedTexts rest)"

text \<open>The Korean keywords of the meaningfulness test (order, delivery, contact, telephone,
  address, number, company, customer, goods), which the source puts between two \<^verbatim>\<open>\b\<close>.\<close>

definition meaningfulKeywords :: "jsstring list" where
  "meaningfulKeywords = [[0xC8FC, 0xBB38], [0xBC30, 0xC1A1], [0xC5F0, 0xB77D], [0xC804, 0xD654],
     [0xC8FC, 0xC18C], [0xBC88, 0xD638], [0xD68C, 0xC0AC], [0xACE0, 0xAC1D], [0xC0C1, 0xD488]]"

definition isMeaningfulText :: "jsstring \<Rightarrow> bool" where
  "isMeaningfulText t \<longleftrightarrow>
     regexTest (runOf isHangul 2) t \<or> regexTest (boundedWords literal meaningfulKeywords) t \<or>
     regexTest longNumber t"

definition sharedStringTexts :: "jsstring \<Rightarrow> jsstring list" where
  "sharedStringTexts content =
     (let extractedTexts =
            filter (\<lambda>textContent. textContent \<noteq> [])
              (map (\<lambda>m. trim (replaceTags [] False m)) (matchAll (textTag 0x74) content));
          extractedTexts = (if extractedTexts = [] then flexibleTexts content else extractedTexts)
      in if length extractedTexts < 5 then tryPatterns content extractedTexts scanPatterns
         else extractedTexts)"

text \<open>Rows of \<open>n\<close> texts each, from position \<open>i\<close> on, the last one filled up with empty
  strings: the loop \<^verbatim>\<open>for (i = ...; i < length; i += n)\<close> run \<open>k\<close> times.\<close>

fun chunkRows :: "nat \<Rightarrow> nat \<Rightarrow> nat \<Rightarrow> jsstring list \<Rightarrow> jsstring list list" where
  "chunkRows 0 n i xs = []"
| "chunkRows (Suc k) n i xs =
     (let row = take n (drop i xs)
      in (row @ replicate (n - length row) []) # chunkRows k n (i + n) xs)"

definition iterations :: "nat \<Rightarrow> nat \<Rightarrow> nat \<Rightarrow> nat" where
  "iterations start len n = (if n = 0 then 0 else (len - start + n - 1) div n)"

definition sharedStringsTable :: "jsstring list \<Rightarrow> table" where
  "sharedStringsTable extractedTexts =
     (let headerCount = min (length extractedTexts) 10;
          headers = map (\<lambda>t. CStr (normalizeHeaderField t)) (take headerCount extractedTexts)
      in headers #
         map (map CStr)
           (chunkRows (iterations headerCount (length extractedTexts) headerCount) headerCount headerCount
              extractedTexts))"

text \<open>
  \<open>extractDataFromSharedStrings\<close>. Without a meaningful text the source throws inside its
  \<^verbatim>\<open>try\<close>; that error, an error of \<^verbatim>\<open>book_append_sheet\<close> and an error of the writer are caught, and
  the byte-scan miner runs on the original buffer.
\<close>

definition extractDataFromSharedStrings :: "env \<Rightarrow> buffer \<Rightarrow> jsstring \<Rightarrow> jsstring \<Rightarrow> error + buffer" where
  "extractDataFromSharedStrings E buffer filename sharedStringsContent =
     (let extractedTexts = sharedStringTexts sharedStringsContent;
          meaningfulTexts = filter isMeaningfulText extractedTexts
      in case (if meaningfulTexts \<noteq> [] \<and> extractedTexts \<noteq> []
               then writeTable E (sharedStringsTable extractedTexts) (js ''Sheet1'')
               else Inl (Error [])) of
           Inr outputBuffer \<Rightarrow> Inr outputBuffer
         | Inl e \<Rightarrow> findMeaningfulTextInBuffer E buffer filename)"

text \<open>The first match of \<^verbatim>\<open>/<v[^>]*>([^<]*)<\/v>/\<close> in a text, by its captured group.\<close>

fun firstTagBody :: "jschar \<Rightarrow> jsstring \<Rightarrow> jsstring option" where
  "firstTagBody letter [] = None"
| "firstTagBody letter (c # s) =
     (case textTagParts letter (c # s) of
        Some (n, body) \<Rightarrow> Some body
      | None \<Rightarrow> firstTagBody letter s)"

definition extractedValues :: "jsstring \<Rightarrow> jsstring list" where
  "extractedValues worksheetContent =
     concat (map (\<lambda>cellMatch. case firstTagBody 0x76 cellMatch of
                                 Some v \<Rightarrow> if v \<noteq> [] then [trim v] else []
                               | None \<Rightarrow> [])
               (matchAll cellTag worksheetContent))"

text \<open>\<^verbatim>\<open>Math.floor(Math.sqrt(n))\<close>.\<close>

definition floorSqrt :: "nat \<Rightarrow> nat" where
  "floorSqrt n = length (filter (\<lambda>k. k * k \<le> n) [1 ..< Suc n])"

definition worksheetTable :: "jsstring list \<Rightarrow> table" where
  "worksheetTable values =
     (let estimatedColumns = min (max (floorSqrt (length values)) 3) 15;
          rows = chunkRows (iterations 0 (length values) estimatedColumns) estimatedColumns 0 values
      in case rows of
           [] \<Rightarrow> []
         | first # others \<Rightarrow> headerCells first # map (map CStr) others)"

text \<open>The error of a worksheet without a value: worksheet extraction failed.\<close>

definition msg_worksheetFailed :: jsstring where
  "msg_worksheetFailed = [0x57, 0x6F, 0x72, 0x6B, 0x73, 0x68, 0x65, 0x65, 0x74, 0x20, 0xCD94,
     0xCD9C, 0x20, 0xC2E4, 0xD328]"

text \<open>
  \<open>extractDataFromWorksheet\<close>: the table of the cell values, written, or, when there is no
  value or \<^verbatim>\<open>book_append_sheet\<close> or the writer throws, the error after the \<^verbatim>\<open>try\<close>.
\<close>

definition extractDataFromWorksheet :: "env \<Rightarrow> buffer \<Rightarrow> jsstring \<Rightarrow> jsstring \<Rightarrow> error + buffer" where
  "extractDataFromWorksheet E buffer filename worksheetContent =
     (let values = extractedValues worksheetContent
      in case (if values \<noteq> [] then writeTable E (worksheetTable values) (js ''Sheet1'')
               else Inl (Error [])) of
           Inr outputBuffer \<Rightarrow> Inr outputBuffer
         | Inl e \<Rightarrow> Inl (Error msg_worksheetFailed))"

text \<open>
  \<open>tryDecompressData\<close>: the payload itself when it already holds markup; else what raw
  inflate or gunzip yield when that holds markup; else a decoding of the payload's bytes that
  holds markup and the word \<^verbatim>\<open>xml\<close>; else nothing. An error of zlib is caught at the call.
\<close>

definition hasMarkup :: "jsstring \<Rightarrow> bool" where
  "hasMarkup s \<longleftrightarrow> 0x3C \<in> set s \<and> 0x3E \<in> set s"

definition decompressWith :: "(buffer \<Rightarrow> error + buffer) \<Rightarrow> buffer \<Rightarrow> jsstring option" where
  "decompressWith f compressedBuffer =
     (case f compressedBuffer of
        Inl e \<Rightarrow> None
      | Inr out \<Rightarrow> (let r = toString_utf8 out in if hasMarkup r then Some r else None))"

definition redecoded :: "jsstring \<Rightarrow> jsstring \<Rightarrow> jsstring option" where
  "redecoded compressedData encoding =
     (case bufferToString encoding (bufferFrom_latin1 compressedData) of
        Inl e \<Rightarrow> None
      | Inr decoded \<Rightarrow>
          if hasMarkup decoded \<and> includesStr (js ''xml'') decoded then Some decoded else None)"

definition tryDecompressData :: "env \<Rightarrow> jsstring \<Rightarrow> jsstring option" where
  "tryDecompressData E compressedData =
     (if hasMarkup compressedData then Some compressedData
      else
        (let compressedBuffer = bufferFrom_latin1 compressedData
         in case decompressWith (inflateRawSync E) compressedBuffer of
              Some r \<Rightarrow> Some r
            | None \<Rightarrow>
                (case decompressWith (gunzipSync E) compressedBuffer of
                   Some r \<Rightarrow> Some r
                 | None \<Rightarrow>
                     (case List.map_filter (redecoded compressedData) [js ''utf8'', js ''ascii'', js ''base64''] of
                        decoded # _ \<Rightarrow> Some decoded
                      | [] \<Rightarrow> None))))"

text \<open>The payload of a container entry: from the local file header before the position of
  the entry's name, thirty code units on, up to the next \<^verbatim>\<open>PK\<close> or else the first \<open>cap\<close>
  code units. \<open>None\<close> when the name or the header is not found.\<close>

definition entryPayload :: "jsstring \<Rightarrow> jsstring \<Rightarrow> nat \<Rightarrow> jsstring option" where
  "entryPayload textContent name cap =
     (case indexOf name textContent of
        None \<Rightarrow> None
      | Some entryIndex \<Rightarrow>
          (case lastIndexOf [0x50, 0x4B, 0x03, 0x04] textContent entryIndex of
             None \<Rightarrow> None
           | Some zipEntryStart \<Rightarrow>
               (let afterEntry = drop (zipEntryStart + 30) textContent
                in case indexOf (js ''PK'') afterEntry of
                     Some nextPKIndex \<Rightarrow> Some (take nextPKIndex afterEntry)
                   | None \<Rightarrow> Some (take cap afterEntry))))"

text \<open>A decompressed payload counts when it is a non-empty string.\<close>

definition decompressedEntry :: "env \<Rightarrow> jsstring \<Rightarrow> jsstring \<Rightarrow> nat \<Rightarrow> jsstring option" where
  "decompressedEntry E textContent name cap =
     (case entryPayload textContent name cap of
        None \<Rightarrow> None
      | Some compressedData \<Rightarrow>
          (case tryDecompressData E compressedData of
             Some d \<Rightarrow> if d \<noteq> [] then Some d else None
           | None \<Rightarrow> None))"

text \<open>
  The container scan of \<open>handleExcelFile\<close>: \<open>Some\<close> when the scan returns from the function,
  \<open>None\<close> when it falls through, also after an error that its \<^verbatim>\<open>try\<close> catches.
\<close>

definition containerScan :: "env \<Rightarrow> buffer \<Rightarrow> jsstring \<Rightarrow> buffer option" where
  "containerScan E buffer filename =
     (if take 2 buffer = [0x50, 0x4B] then
        (let textContent = toString_latin1 buffer
         in case decompressedEntry E textContent (js ''xl/sharedStrings.xml'') 1000 of
              Some d \<Rightarrow>
                (case extractDataFromSharedStrings E buffer filename d of
                   Inr outputBuffer \<Rightarrow> Some outputBuffer
                 | Inl e \<Rightarrow> None)
            | None \<Rightarrow>
                (case decompressedEntry E textContent (js ''xl/worksheets/sheet1.xml'') 2000 of
                   Some d \<Rightarrow>
                     (case extractDataFromWorksheet E buffer filename d of
                        Inr outputBuffer \<Rightarrow> Some outputBuffer
                      | Inl e \<Rightarrow> None)
                 | None \<Rightarrow> None))
      else None)"

section \<open>Structured decoding and its fallbacks\<close>

text \<open>The test of a decoded first row in the fallback stages: a cell that is truthy and
  whose text is not blank. A string counts when it is not blank, a number when it is not
  zero, \<^verbatim>\<open>true\<close> and every date count, \<^verbatim>\<open>null\<close> and \<^verbatim>\<open>false\<close> do not.\<close>

definition cellHasText :: "cell \<Rightarrow> bool" where
  "cellHasText c =
     (case c of
        CNull \<Rightarrow> False
      | CStr s \<Rightarrow> s \<noteq> [] \<and> trim s \<noteq> []
      | CNum x \<Rightarrow> x \<noteq> 0
      | CBool b \<Rightarrow> b
      | CDate d \<Rightarrow> True)"

definition validFirstRow :: "table \<Rightarrow> bool" where
  "validFirstRow testData \<longleftrightarrow> testData \<noteq> [] \<and> list_ex cellHasText (hd testData)"

text \<open>The test of the first stage: the first row has a cell that is neither \<^verbatim>\<open>null\<close> nor the
  empty string.\<close>

definition validHeader :: "table \<Rightarrow> bool" where
  "validHeader jsonData \<longleftrightarrow> jsonData \<noteq> [] \<and> hd jsonData \<noteq> [] \<and> list_ex cellNonEmpty (hd jsonData)"

text \<open>The rows of the first sheet; a workbook without a sheet has none.\<close>

definition firstSheetRows :: "env \<Rightarrow> json_opts \<Rightarrow> workbook \<Rightarrow> table" where
  "firstSheetRows E opts workbook =
     (case workbook of [] \<Rightarrow> [] | (name, ws) # _ \<Rightarrow> sheet_to_json E opts ws)"

text \<open>
  The loop over configuration variants of \<open>handleExcelFile\<close> (both of its loops, which differ
  in the test of the first row, the options of reading the rows and the options of the
  writer): the first variant that the decoder reads into a workbook with a sheet, whose first
  row passes the test, that \<open>normalizeWorkbook\<close> accepts and whose normalized workbook the
  writer accepts, yields the written buffer. Every error is caught inside the loop and leads
  to the next variant.
\<close>

fun tryReadOptions ::
  "env \<Rightarrow> buffer \<Rightarrow> (table \<Rightarrow> bool) \<Rightarrow> json_opts \<Rightarrow> write_opts \<Rightarrow> read_opts list \<Rightarrow> buffer option" where
  "tryReadOptions E buffer valid jopts wopts [] = None"
| "tryReadOptions E buffer valid jopts wopts (opts # rest) =
     (case xlsx_read E buffer opts of
        Inl e \<Rightarrow> tryReadOptions E buffer valid jopts wopts rest
      | Inr workbook \<Rightarrow>
          if workbook \<noteq> [] \<and> valid (firstSheetRows E jopts workbook) then
            (case normalizeWorkbook E workbook of
               Inr normalizedWorkbook \<Rightarrow>
                 (case xlsx_write E normalizedWorkbook wopts of
                    Inr outputBuffer \<Rightarrow> Some outputBuffer
                  | Inl e \<Rightarrow> tryReadOptions E buffer valid jopts wopts rest)
             | Inl e \<Rightarrow> tryReadOptions E buffer valid jopts wopts rest)
          else tryReadOptions E buffer valid jopts wopts rest)"

definition readOptions :: "read_opts list" where
  "readOptions =
     [[(''cellText'', B False), (''cellDates'', B True), (''raw'', B False)],
      [(''cellText'', B True), (''cellDates'', B True), (''raw'', B False)],
      [(''cellText'', B False), (''cellDates'', B True), (''raw'', B True)],
      [(''cellText'', B True), (''cellDates'', B True), (''raw'', B True)],
      [(''cellText'', B False), (''cellDates'', B False), (''raw'', B False), (''codepage'', N 949)],
      [(''cellText'', B True), (''cellDates'', B False), (''raw'', B False), (''codepage'', N 949)],
      [(''cellText'', B False), (''cellDates'', B False), (''raw'', B True), (''codepage'', N 949)],
      [(''cellText'', B False), (''cellDates'', B True), (''raw'', B False), (''codepage'', N 1200)],
      [(''cellText'', B False), (''cellDates'', B True), (''raw'', B False), (''codepage'', N 65001)],
      [(''cellText'', B False), (''cellDates'', B True), (''raw'', B False), (''bookVBA'', B True)],
      [(''cellText'', B False), (''cellDates'', B True), (''raw'', B False), (''bookSheets'', B True), (''bookProps'', B True)]]"

definition fallbackReadOptions :: "read_opts list" where
  "fallbackReadOptions =
     [[(''type'', S (js ''buffer'')), (''codepage'', N 949), (''cellText'', B False), (''cellDates'', B True)],
      [(''type'', S (js ''buffer'')), (''codepage'', N 1200), (''cellText'', B False), (''cellDates'', B True)],
      [(''type'', S (js ''buffer'')), (''codepage'', N 65001), (''cellText'', B False), (''cellDates'', B True)],
      [(''type'', S (js ''buffer'')), (''cellText'', B False), (''cellDates'', B True), (''raw'', B True)],
      [(''type'', S (js ''buffer'')), (''cellText'', B True), (''cellDates'', B False), (''raw'', B False)],
      [(''type'', S (js ''buffer'')), (''cellFormula'', B False), (''cellHTML'', B False)]]"

definition binaryReadOptions :: "read_opts list" where
  "binaryReadOptions =
     [[(''type'', S (js ''buffer'')), (''cellText'', B False), (''cellDates'', B True), (''raw'', B True)],
      [(''type'', S (js ''buffer'')), (''cellText'', B True), (''cellDates'', B False), (''raw'', B False)],
      [(''type'', S (js ''buffer'')), (''cellText'', B False), (''cellDates'', B False), (''raw'', B False)],
      [(''type'', S (js ''buffer'')), (''cellFormula'', B False), (''cellHTML'', B False)]]"

definition testDataOpts :: json_opts where
  "testDataOpts = \<lparr>jo_raw = Some False, jo_blankrows = Some False\<rparr>"

subsection \<open>Lines of the binary as a table\<close>

text \<open>The lines that \<open>convertBinaryToJsonToXlsx\<close> keeps of one decoding: trimmed, at most
  499 code units, not starting like markup, a container or a long base64 run, holding a
  letter, digit, Hangul syllable, white space or one of \<^verbatim>\<open>-_()[]{}.,\<close>, and not starting with
  five control or high code units; at most one hundred of them.\<close>

definition isBase64Char :: "jschar \<Rightarrow> bool" where
  "isBase64Char c \<longleftrightarrow> isLetter c \<or> isDigit c \<or> c = 0x2B \<or> c = 0x2F"

definition isDataChar :: "jschar \<Rightarrow> bool" where
  "isDataChar c \<longleftrightarrow> isHangul c \<or> isLetter c \<or> isDigit c \<or> isSpace c \<or> c \<in> set (js ''-_()[]{}.,'')"

definition isBinaryChar :: "jschar \<Rightarrow> bool" where
  "isBinaryChar c \<longleftrightarrow> c \<le> 0x1F \<or> (0x7F \<le> c \<and> c \<le> 0xFF)"

definition isMeaningfulLine :: "jsstring \<Rightarrow> bool" where
  "isMeaningfulLine line \<longleftrightarrow>
     length line > 0 \<and> length line < 500 \<and>
     \<not> (take 1 line = [0x3C] \<or> take 1 line = [0x3E]) \<and>
     \<not> (take 2 line = js ''PK'' \<or> (length line \<ge> 20 \<and> list_all isBase64Char line)) \<and>
     list_ex isDataChar line \<and>
     \<not> startsWith (runOf isBinaryChar 5) line"

definition meaningfulLines :: "jsstring \<Rightarrow> jsstring list" where
  "meaningfulLines textContent =
     take 100 (filter isMeaningfulLine (map trim (splitRuns (\<lambda>c. c = 0x0D \<or> c = 0x0A) textContent)))"

text \<open>The decodings with a line, as pairs of the encoding and its lines.\<close>

definition extractedData :: "buffer \<Rightarrow> (jsstring \<times> jsstring list) list" where
  "extractedData buffer =
     concat (map (\<lambda>encoding. case bufferToString encoding buffer of
                                Inl e \<Rightarrow> []
                              | Inr textContent \<Rightarrow>
                                  (let ls = meaningfulLines textContent
                                   in if ls \<noteq> [] then [(encoding, ls)] else []))
               [js ''utf8'', js ''latin1'', js ''ascii'', js ''base64''])"

text \<open>\<^verbatim>\<open>reduce\<close> without an initial value: the first decoding with the most lines. On no
  decoding at all it throws, which \<open>None\<close> stands for.\<close>

definition bestEncoding :: "(jsstring \<times> jsstring list) list \<Rightarrow> (jsstring \<times> jsstring list) option" where
  "bestEncoding items =
     (case items of
        [] \<Rightarrow> None
      | first # rest \<Rightarrow>
          Some (foldl (\<lambda>best current. if length (snd current) > length (snd best) then current else best)
                  first rest))"

text \<open>The title row used when the first line does not split: data, content, encoding, line
  number.\<close>

definition defaultBinaryHeaders :: "jsstring list" where
  "defaultBinaryHeaders = [[0xB370, 0xC774, 0xD130], [0xB0B4, 0xC6A9], [0xC778, 0xCF54, 0xB529],
     [0xB77C, 0xC778, 0xBC88, 0xD638]]"

definition binaryHeaders :: "jsstring \<Rightarrow> jsstring list" where
  "binaryHeaders firstLine =
     (let bestSplit =
            fst (foldl (\<lambda>st delimiter.
                          let sp = filter (\<lambda>cell. trim cell \<noteq> []) (split delimiter firstLine)
                          in if length sp > snd st \<and> length sp \<le> 20 then (sp, length sp) else st)
                   ([firstLine], 1) [[0x09], [0x2C], [0x3B], [0x7C], [0x20]]);
          headers = map (\<lambda>header. normalizeHeaderField (trim header)) bestSplit
      in if length headers > 1 then headers else defaultBinaryHeaders)"

definition binaryCells :: "nat \<Rightarrow> jsstring \<Rightarrow> jsstring list" where
  "binaryCells headerLength line =
     (let cells = foldl (\<lambda>cells delimiter.
                           let sp = split delimiter line
                           in if length sp > length cells \<and> length sp \<le> 20 then map trim sp else cells)
                    [line] [[0x09], [0x2C], [0x3B], [0x7C]]
      in take headerLength (cells @ replicate (headerLength - length cells) []))"

text \<open>The data rows: every line of every decoding except the very first line of the first
  decoding, cut or filled to the width of the title row, and kept when a cell is not blank.\<close>

definition binaryRows :: "nat \<Rightarrow> (jsstring \<times> jsstring list) list \<Rightarrow> jsstring list list" where
  "binaryRows headerLength items =
     filter (\<lambda>cells. list_ex (\<lambda>cell. cell \<noteq> [] \<and> trim cell \<noteq> []) cells)
       (map (binaryCells headerLength)
          (drop 1 (concat (map snd items))))"

text \<open>The table of the last resort of this stage: the file name, the size in bytes, the
  state (conversion failed) and a remark (binary file, check by hand).\<close>

definition k_size :: jsstring where
  "k_size = [0xD06C, 0xAE30]"
definition k_content :: jsstring where
  "k_content = [0xB0B4, 0xC6A9]"
definition k_remark :: jsstring where
  "k_remark = [0xBE44, 0xACE0]"
definition k_conversionFailed :: jsstring where
  "k_conversionFailed = [0xBCC0, 0xD658, 0x20, 0xC2E4, 0xD328]"
definition k_binaryManualCheck :: jsstring where
  "k_binaryManualCheck = [0xBC14, 0xC774, 0xB108, 0xB9AC, 0x20, 0xD30C, 0xC77C, 0x20, 0x2D, 0x20,
     0xC218, 0xB3D9, 0x20, 0xD655, 0xC778, 0x20, 0xD544, 0xC694]"

definition fileInfoTable :: "buffer \<Rightarrow> jsstring \<Rightarrow> table" where
  "fileInfoTable buffer filename =
     [[CStr k_fileName, CStr k_size, CStr k_state, CStr k_remark],
      [CStr filename, CStr (showNat (length buffer) @ js '' bytes''), CStr k_conversionFailed,
       CStr k_binaryManualCheck]]"

text \<open>
  \<open>convertBinaryToJsonToXlsx\<close>. The \<^verbatim>\<open>reduce\<close> on no decoding, an error of \<^verbatim>\<open>book_append_sheet\<close>
  and an error of the writer are caught by its \<^verbatim>\<open>try\<close>, after which the file information table
  is written; an error there is thrown to the caller.
\<close>

definition convertBinaryToJsonToXlsx :: "env \<Rightarrow> buffer \<Rightarrow> jsstring \<Rightarrow> error + buffer" where
  "convertBinaryToJsonToXlsx E buffer filename =
     (let items = extractedData buffer
      in case (case bestEncoding items of
                 None \<Rightarrow> Inl (Error [])
               | Some best \<Rightarrow>
                   (let headers = binaryHeaders (hd (snd best));
                        excelData = headers # binaryRows (length headers) items
                    in writeTable E (map (map CStr) excelData) (js ''ExtractedData''))) of
           Inr outputBuffer \<Rightarrow> Inr outputBuffer
         | Inl e \<Rightarrow> writeTable E (fileInfoTable buffer filename) (js ''FileInfo''))"

subsection \<open>The binary stage\<close>

text \<open>The first variant that the decoder reads and whose first row passes the test; its
  workbook is not normalized inside the loop.\<close>

fun firstValidWorkbook :: "env \<Rightarrow> buffer \<Rightarrow> read_opts list \<Rightarrow> workbook option" where
  "firstValidWorkbook E buffer [] = None"
| "firstValidWorkbook E buffer (opts # rest) =
     (case xlsx_read E buffer opts of
        Inl e \<Rightarrow> firstValidWorkbook E buffer rest
      | Inr testWorkbook \<Rightarrow>
          if validFirstRow (firstSheetRows E testDataOpts testWorkbook) then Some testWorkbook
          else firstValidWorkbook E buffer rest)"

text \<open>The table of the binary stage's own \<^verbatim>\<open>catch\<close>: a title row (file name, content, remark),
  a row about the file (binary file converted to text, original size), and up to one hundred
  lines of the first 10000 bytes read as UTF-8, each cut to 500 code units and numbered.\<close>

definition k_binaryAsText :: jsstring where
  "k_binaryAsText = [0xBC14, 0xC774, 0xB108, 0xB9AC, 0x20, 0xD30C, 0xC77C, 0x20, 0x2D, 0x20,
     0xD14D, 0xC2A4, 0xD2B8, 0x20, 0xBCC0, 0xD658]"
definition k_originalSize :: jsstring where
  "k_originalSize = [0xC6D0, 0xBCF8, 0x20, 0xD06C, 0xAE30, 0x3A]"
definition k_line :: jsstring where
  "k_line = [0xB77C, 0xC778]"

definition numberedLines :: "nat \<Rightarrow> jsstring list \<Rightarrow> table" where
  "numberedLines start ls =
     map (\<lambda>(index, line). [CStr (k_line @ [0x20] @ showNat (index + 1)), CStr (take 500 line), CStr []])
       (zip [start ..< start + length ls] ls)"

definition binaryFallbackTable :: "buffer \<Rightarrow> jsstring \<Rightarrow> table" where
  "binaryFallbackTable buffer filename =
     (let textContent = toString_utf8 (take (min (length buffer) 10000) buffer);
          ls = take 100 (split [0x0A] textContent)
      in [[CStr k_fileName, CStr k_content, CStr k_remark],
          [CStr filename, CStr k_binaryAsText, CStr (k_originalSize @ [0x20] @ showNat (length buffer) @ js '' bytes'')]]
         @ numberedLines 0 ls)"

text \<open>
  \<open>handleBinaryExcelFile\<close>. Its \<^verbatim>\<open>try\<close> holds the loop, the call of \<open>convertBinaryToJsonToXlsx\<close>
  when no variant gave a workbook, and otherwise the normalization and the writing of the
  workbook found. Its \<^verbatim>\<open>catch\<close> writes the table above; an error there, of
  \<^verbatim>\<open>book_append_sheet\<close> or of the writer, is thrown to the caller.
\<close>

definition handleBinaryExcelFile :: "env \<Rightarrow> buffer \<Rightarrow> jsstring \<Rightarrow> error + buffer" where
  "handleBinaryExcelFile E buffer filename =
     (case (case firstValidWorkbook E buffer binaryReadOptions of
              None \<Rightarrow> convertBinaryToJsonToXlsx E buffer filename
            | Some workbook \<Rightarrow>
                (case normalizeWorkbook E workbook of
                   Inl e \<Rightarrow> Inl e
                 | Inr normalizedWorkbook \<Rightarrow> xlsx_write E normalizedWorkbook compressedWrite)) of
        Inr outputBuffer \<Rightarrow> Inr outputBuffer
      | Inl e \<Rightarrow> writeTable E (binaryFallbackTable buffer filename) (js ''Sheet1''))"

subsection \<open>The Excel path\<close>

text \<open>
  \<open>handleExcelFile\<close>: the configuration variants, then the container scan, then the second
  list of variants, then the binary stage, whose error, if any, is the error of
  \<open>handleExcelFile\<close>.
\<close>

definition handleExcelFile :: "env \<Rightarrow> buffer \<Rightarrow> jsstring \<Rightarrow> error + buffer" where
  "handleExcelFile E buffer filename =
     (case tryReadOptions E buffer validHeader \<lparr>jo_raw = None, jo_blankrows = None\<rparr> plainWrite readOptions of
        Some outputBuffer \<Rightarrow> Inr outputBuffer
      | None \<Rightarrow>
          (case containerScan E buffer filename of
             Some outputBuffer \<Rightarrow> Inr outputBuffer
           | None \<Rightarrow>
               (case tryReadOptions E buffer validFirstRow testDataOpts compressedWrite fallbackReadOptions of
                  Some outputBuffer \<Rightarrow> Inr outputBuffer
                | None \<Rightarrow> handleBinaryExcelFile E buffer filename)))"

section \<open>The conversion and the file process\<close>

text \<open>The routing of \<open>convertToXlsx\<close>: the extension is the text after the last dot of the
  lower-cased file name, and a buffer counts as a ZIP file by its first three bytes.\<close>

definition fileExtension :: "jsstring \<Rightarrow> jsstring" where
  "fileExtension filename = last (split [0x2E] (toLowerCase filename))"

definition isZipFile :: "buffer \<Rightarrow> bool" where
  "isZipFile buffer \<longleftrightarrow>
     length buffer \<ge> 4 \<and> buffer ! 0 = 0x50 \<and> buffer ! 1 = 0x4B \<and>
     (buffer ! 2 = 0x03 \<or> buffer ! 2 = 0x05 \<or> buffer ! 2 = 0x07)"

definition excelRouted :: "buffer \<Rightarrow> jsstring \<Rightarrow> bool" where
  "excelRouted buffer filename \<longleftrightarrow>
     fileExtension filename = js ''xlsx'' \<or> fileExtension filename = js ''xls'' \<or> isZipFile buffer"

text \<open>The standard parser attempt: \<open>None\<close> when \<^verbatim>\<open>XLSX.read\<close> throws, the workbook has no
  sheet, or the first row of the first sheet has no cell with text.\<close>

definition standardReadOptions :: read_opts where
  "standardReadOptions =
     [(''type'', S (js ''buffer'')), (''cellDates'', B True), (''cellNF'', B False), (''cellText'', B False), (''codepage'', N 65001)]"

definition standardParse :: "env \<Rightarrow> buffer \<Rightarrow> workbook option" where
  "standardParse E buffer =
     (case xlsx_read E buffer standardReadOptions of
        Inl e \<Rightarrow> None
      | Inr workbook \<Rightarrow>
          if workbook \<noteq> [] \<and>
             validFirstRow (firstSheetRows E \<lparr>jo_raw = Some False, jo_blankrows = None\<rparr> workbook)
          then Some workbook else None)"

text \<open>The prefix of the error that \<open>convertToXlsx\<close> throws: the conversion of the file
  failed.\<close>

definition msg_conversionFailed :: jsstring where
  "msg_conversionFailed = [0xD30C, 0xC77C, 0x20, 0xBCC0, 0xD658, 0xC5D0, 0x20, 0xC2E4, 0xD328,
     0xD588, 0xC2B5, 0xB2C8, 0xB2E4, 0x3A, 0x20]"

text \<open>
  \<open>convertToXlsx\<close>. The Excel path returns before the \<^verbatim>\<open>try\<close>, so an error of \<open>handleExcelFile\<close>
  reaches the caller as it is. In the \<^verbatim>\<open>try\<close>, the workbook comes from the standard parser or,
  when that fails or text recovery is forced, from delimited-text recovery; it is normalized
  and written. Every error in the \<^verbatim>\<open>try\<close>, the writer's included, is thrown again with the
  prefix.
\<close>

definition convertToXlsx :: "env \<Rightarrow> buffer \<Rightarrow> jsstring \<Rightarrow> bool \<Rightarrow> error + buffer" where
  "convertToXlsx E buffer filename forceTextRecovery =
     (if excelRouted buffer filename then handleExcelFile E buffer filename
      else
        (case (case (case (if \<not> forceTextRecovery then
                             (case standardParse E buffer of
                                Some workbook \<Rightarrow> Inr workbook
                              | None \<Rightarrow> textBasedRecovery E buffer)
                           else textBasedRecovery E buffer) of
                       Inl e \<Rightarrow> Inl e
                     | Inr workbook \<Rightarrow> normalizeWorkbook E workbook) of
                 Inl e \<Rightarrow> Inl e
               | Inr normalizedWorkbook \<Rightarrow> xlsx_write E normalizedWorkbook finalWrite) of
           Inl e \<Rightarrow> Inl (Error (msg_conversionFailed @ message e))
         | Inr xlsxBuffer \<Rightarrow> Inr xlsxBuffer))"

subsection \<open>processFile\<close>

definition SUPPORTED_EXTENSIONS :: "jsstring list" where
  "SUPPORTED_EXTENSIONS = [js ''.xls'', js ''.xlsx'', js ''.csv'', js ''.tsv'', js ''.txt'']"

definition MAX_FILE_SIZE :: int where
  "MAX_FILE_SIZE = 50 * 1024 * 1024"

text \<open>\<^verbatim>\<open>filename.toLowerCase().substring(filename.lastIndexOf('.'))\<close>: the index of the last dot
  is taken in the file name as given; without a dot it is -1 and the substring is the whole
  lower-cased name.\<close>

definition validateFileExtension :: "jsstring \<Rightarrow> bool" where
  "validateFileExtension filename =
     (let i = (case lastIndexOf [0x2E] filename (length filename) of Some i \<Rightarrow> i | None \<Rightarrow> 0);
          ext = drop i (toLowerCase filename)
      in ext \<in> set SUPPORTED_EXTENSIONS)"

definition validateFileSize :: "int \<Rightarrow> bool" where
  "validateFileSize n \<longleftrightarrow> n \<le> MAX_FILE_SIZE"

text \<open>The interface \<open>ConversionResult\<close>; an optional field that is absent is \<open>None\<close>. The
  fields \<open>buffer\<close>, \<open>filename\<close> and \<open>message\<close> carry a suffix here.\<close>

record ConversionResult =
  success :: bool
  buffer_r :: "buffer option"
  filename_r :: jsstring
  originalSize :: nat
  convertedSize :: "nat option"
  message_r :: "jsstring option"
  warnings :: "jsstring list option"

text \<open>The messages of \<open>processFile\<close>: the file format is not supported (followed by the list
  of the supported ones), the file is too large (followed by the limit in megabytes), the two
  warnings about a converted file much larger or much smaller than the original, and the
  suffix of the result's name (conversion done).\<close>

definition msg_unsupported :: jsstring where
  "msg_unsupported = [0xC9C0, 0xC6D0, 0xD558, 0xC9C0, 0x20, 0xC54A, 0xB294, 0x20, 0xD30C, 0xC77C,
     0x20, 0xD615, 0xC2DD, 0xC785, 0xB2C8, 0xB2E4, 0x2E, 0x20, 0xC9C0, 0xC6D0, 0x20, 0xD615,
     0xC2DD, 0x3A, 0x20]"
definition msg_tooLarge :: jsstring where
  "msg_tooLarge = [0xD30C, 0xC77C, 0xC774, 0x20, 0xB108, 0xBB34, 0x20, 0xD07D, 0xB2C8, 0xB2E4,
     0x2E, 0x20, 0xCD5C, 0xB300, 0x20, 0xD06C, 0xAE30, 0x3A, 0x20]"
definition msg_muchLarger :: jsstring where
  "msg_muchLarger = [0xBCC0, 0xD658, 0xB41C, 0x20, 0xD30C, 0xC77C, 0xC774, 0x20, 0xC6D0, 0xBCF8,
     0xBCF4, 0xB2E4, 0x20, 0xC0C1, 0xB2F9, 0xD788, 0x20, 0xD07D, 0xB2C8, 0xB2E4, 0x2E, 0x20,
     0xB370, 0xC774, 0xD130, 0x20, 0xD655, 0xC778, 0xC744, 0x20, 0xAD8C, 0xC7A5, 0xD569, 0xB2C8,
     0xB2E4, 0x2E]"
definition msg_muchSmaller :: jsstring where
  "msg_muchSmaller = [0xBCC0, 0xD658, 0xB41C, 0x20, 0xD30C, 0xC77C, 0xC774, 0x20, 0xC6D0, 0xBCF8,
     0xBCF4, 0xB2E4, 0x20, 0xC0C1, 0xB2F9, 0xD788, 0x20, 0xC791, 0xC2B5, 0xB2C8, 0xB2E4, 0x2E,
     0x20, 0xB370, 0xC774, 0xD130, 0x20, 0xC190, 0xC2E4, 0xC774, 0x20, 0xC788, 0xC744, 0x20,
     0xC218, 0x20, 0xC788, 0xC2B5, 0xB2C8, 0xB2E4, 0x2E]"
definition msg_doneSuffix :: jsstring where
  "msg_doneSuffix = [0x5F, 0xBCC0, 0xD658, 0xC644, 0xB8CC, 0x2E, 0x78, 0x6C, 0x73, 0x78]"

definition joinWith :: "jsstring \<Rightarrow> jsstring list \<Rightarrow> jsstring" where
  "joinWith sep xs = (case xs of [] \<Rightarrow> [] | x # rest \<Rightarrow> x @ concat (map (\<lambda>y. sep @ y) rest))"

text \<open>The size warnings. The source compares the quotient of the two lengths, a double,
  with 3 and with 0.1; for lengths up to the size limit the comparisons below decide the
  same. An empty original gives the quotient Infinity, or NaN when the result is empty too.\<close>

definition sizeWarnings :: "nat \<Rightarrow> nat \<Rightarrow> jsstring list" where
  "sizeWarnings converted original =
     (if (if original = 0 then converted > 0 else converted > 3 * original) then [msg_muchLarger]
      else if original \<noteq> 0 \<and> 10 * converted < original \<and> original > 1000 then [msg_muchSmaller]
      else [])"

definition processFile :: "env \<Rightarrow> buffer \<Rightarrow> jsstring \<Rightarrow> bool \<Rightarrow> ConversionResult" where
  "processFile E buffer originalFilename forceTextRecovery =
     (case (if \<not> validateFileExtension originalFilename then
              Inl (Error (msg_unsupported @ joinWith (js '', '') SUPPORTED_EXTENSIONS))
            else if \<not> validateFileSize (int (length buffer)) then
              Inl (Error (msg_tooLarge @ showNat (nat (MAX_FILE_SIZE div 1024 div 1024)) @ js ''MB''))
            else convertToXlsx E buffer originalFilename forceTextRecovery) of
        Inr convertedBuffer \<Rightarrow>
          (let baseName = stripExtension originalFilename;
               safeBaseName = sanitizeFilename baseName;
               resultFilename = safeBaseName @ msg_doneSuffix;
               ws = sizeWarnings (length convertedBuffer) (length buffer)
           in \<lparr>success = True, buffer_r = Some convertedBuffer, filename_r = resultFilename,
               originalSize = length buffer, convertedSize = Some (length convertedBuffer),
               message_r = None, warnings = (if ws \<noteq> [] then Some ws else None)\<rparr>)
      | Inl error \<Rightarrow>
          \<lparr>success = False, buffer_r = None, filename_r = originalFilename,
            originalSize = length buffer, convertedSize = None,
            message_r = Some (message error), warnings = None\<rparr>)"

section \<open>Collaborator environments for the examples\<close>

text \<open>
  Stand-ins for the libraries, used where a property is shown on a concrete input.
  \<open>kindsWriter\<close> accepts every workbook and writes, after the two bytes \<^verbatim>\<open>PK\<close>, one byte for the
  kind of each cell (0 for \<^verbatim>\<open>null\<close>) and a line feed after each row, so that its output shows
  what it was given. \<open>cappedWriter\<close> refuses a workbook with a text cell longer than a limit,
  as SheetJS does with the limit 32767, and writes the others as \<open>kindsWriter\<close> does.
\<close>

definition cellKind :: "cell \<Rightarrow> byte" where
  "cellKind c = (case c of CNull \<Rightarrow> 0 | CStr s \<Rightarrow> 1 | CNum x \<Rightarrow> 2 | CBool b \<Rightarrow> 3 | CDate d \<Rightarrow> 4)"

definition kindsWriter :: "workbook \<Rightarrow> write_opts \<Rightarrow> error + buffer" where
  "kindsWriter wb opts =
     Inr ([0x50, 0x4B] @ concat (map (\<lambda>sheet. concat (map (\<lambda>row. map cellKind row @ [0x0A]) (snd sheet))) wb))"

definition textTooLong :: "int \<Rightarrow> cell \<Rightarrow> bool" where
  "textTooLong limit c = (case c of CStr s \<Rightarrow> limit < int (length s) | _ \<Rightarrow> False)"

definition cappedWriter :: "int \<Rightarrow> workbook \<Rightarrow> write_opts \<Rightarrow> error + buffer" where
  "cappedWriter limit wb opts =
     (if list_ex (\<lambda>sheet. list_ex (list_ex (textTooLong limit)) (snd sheet)) wb
      then Inl (Error (js ''Text length must not exceed the limit''))
      else kindsWriter wb opts)"

text \<open>
  \<open>rejectingEnv\<close>: a decoder that rejects every buffer, a workbook builder that refuses a
  sheet name already present and nothing else, a reader of rows that returns the stored
  rows, the writer \<open>kindsWriter\<close>, a detector without an opinion, the single-byte decoding in
  the place of iconv, and zlib rejecting its input. \<open>decodingEnv\<close> differs in the decoder, which
  reads every buffer as one sheet of two rows whose first row lacks its second cell.
  \<open>cappedEnv\<close> differs from \<open>rejectingEnv\<close> in the writer, which refuses a text cell longer than
  twenty code units.
\<close>

definition rejectingEnv :: env where
  "rejectingEnv =
     \<lparr>xlsx_read = (\<lambda>b opts. Inl (Error (js ''unsupported file''))),
      sheet_to_json = (\<lambda>opts t. t),
      append_error = (\<lambda>names name. if name \<in> set names then Some (Error (js ''sheet exists'')) else None),
      xlsx_write = kindsWriter,
      detect = (\<lambda>b. None),
      iconv_decode = (\<lambda>encoding b. toString_latin1 b),
      iconv_encodingExists = (\<lambda>encoding. False),
      inflateRawSync = (\<lambda>b. Inl (Error (js ''invalid stored block lengths''))),
      gunzipSync = (\<lambda>b. Inl (Error (js ''incorrect header check'')))\<rparr>"

definition gapSheet :: table where
  "gapSheet = [[CStr (js ''name''), CNull], [CStr (js ''x''), CStr (js ''y'')]]"

definition decodingEnv :: env where
  "decodingEnv =
     \<lparr>xlsx_read = (\<lambda>b opts. Inr [(js ''Data'', gapSheet)]),
      sheet_to_json = (\<lambda>opts t. t),
      append_error = (\<lambda>names name. if name \<in> set names then Some (Error (js ''sheet exists'')) else None),
      xlsx_write = kindsWriter,
      detect = (\<lambda>b. None),
      iconv_decode = (\<lambda>encoding b. toString_latin1 b),
      iconv_encodingExists = (\<lambda>encoding. False),
      inflateRawSync = (\<lambda>b. Inl (Error (js ''invalid stored block lengths''))),
      gunzipSync = (\<lambda>b. Inl (Error (js ''incorrect header check'')))\<rparr>"

definition cappedEnv :: env where
  "cappedEnv =
     \<lparr>xlsx_read = (\<lambda>b opts. Inl (Error (js ''unsupported file''))),
      sheet_to_json = (\<lambda>opts t. t),
      append_error = (\<lambda>names name. if name \<in> set names then Some (Error (js ''sheet exists'')) else None),
      xlsx_write = cappedWriter 20,
      detect = (\<lambda>b. None),
      iconv_decode = (\<lambda>encoding b. toString_latin1 b),
      iconv_encodingExists = (\<lambda>encoding. False),
      inflateRawSync = (\<lambda>b. Inl (Error (js ''invalid stored block lengths''))),
      gunzipSync = (\<lambda>b. Inl (Error (js ''incorrect header check'')))\<rparr>"

definition asciiBytes :: "string \<Rightarrow> buffer" where
  "asciiBytes s = map (\<lambda>c. of_nat (of_char c)) s"

section \<open>Properties of the workbook written\<close>

text \<open>A table or a workbook without a \<^verbatim>\<open>null\<close> cell.\<close>

definition tableNullFree :: "table \<Rightarrow> bool" where
  "tableNullFree t \<longleftrightarrow> list_all (\<lambda>row. list_all (\<lambda>c. c \<noteq> CNull) row) t"

definition workbookNullFree :: "workbook \<Rightarrow> bool" where
  "workbookNullFree wb \<longleftrightarrow> list_all (\<lambda>s. tableNullFree (snd s)) wb"

text \<open>
  The stages return the bytes that the writer made. What can be said of such a buffer is
  what can be said of the workbook it was written from: \<open>writtenFrom E P out\<close> holds when \<open>out\<close>
  is the writer's result on a workbook with the property \<open>P\<close>.
\<close>

definition writtenFrom :: "env \<Rightarrow> (workbook \<Rightarrow> bool) \<Rightarrow> buffer \<Rightarrow> bool" where
  "writtenFrom E P out \<longleftrightarrow> (\<exists>wb opts. P wb \<and> xlsx_write E wb opts = Inr out)"

section \<open>Properties\<close>

subsection \<open>Rounding\<close>

lemma log2up_bound: "1 \<le> q \<Longrightarrow> 0 \<le> log2up q \<and> power_int 2 (log2up q) \<le> q"
proof (induction q rule: log2up.induct)
  case (1 q)
  show ?case
  proof (cases "q < 2")
    case True
    then have "log2up q = 0" by (subst log2up.simps) simp
    then show ?thesis using "1.prems" by simp
  next
    case False
    then have h: "1 \<le> q / 2" by simp
    have ih: "0 \<le> log2up (q / 2)" "power_int 2 (log2up (q / 2)) \<le> q / 2"
      using "1.IH"[OF False h] by simp_all
    have eq: "log2up q = log2up (q / 2) + 1" using False by (subst log2up.simps) simp
    have "power_int (2::rat) (log2up (q / 2) + 1) = power_int 2 (log2up (q / 2)) * 2"
      by (simp add: power_int_add)
    then show ?thesis using ih eq by simp
  qed
qed

lemma roundHalfEven_ge_floor: "\<lfloor>x\<rfloor> \<le> roundHalfEven x"
  by (simp add: roundHalfEven_def Let_def)

lemma roundDouble_nonneg: "0 \<le> q \<Longrightarrow> 0 \<le> roundDouble q"
proof -
  assume q: "0 \<le> q"
  have "0 \<le> of_int (roundHalfEven (q / u)) * u" if u: "0 < u" for u :: rat
  proof -
    have "0 \<le> q / u" using q u by simp
    then have "0 \<le> \<lfloor>q / u\<rfloor>" by simp
    then have "0 \<le> roundHalfEven (q / u)" using roundHalfEven_ge_floor[of "q / u"] by linarith
    then show ?thesis using u by simp
  qed
  then show ?thesis by (simp add: roundDouble_def Let_def)
qed

lemma roundDouble_ge_1: "1 \<le> q \<Longrightarrow> 1 \<le> roundDouble q"
proof -
  assume q: "1 \<le> q"
  define k where "k = log2up q"
  define u :: rat where "u = power_int 2 (k - 52)"
  have k: "0 \<le> k" "power_int 2 k \<le> q" using log2up_bound[OF q] by (simp_all add: k_def)
  have u: "0 < u" by (simp add: u_def)
  have ku: "power_int 2 k = 2 ^ 52 * u"
  proof -
    have "power_int (2::rat) k = power_int 2 (52 + (k - 52))" by simp
    also have "\<dots> = power_int 2 52 * power_int 2 (k - 52)" by (rule power_int_add) simp
    finally show ?thesis by (simp add: u_def)
  qed
  have "2 ^ 52 \<le> q / u" using k(2) u by (simp add: ku le_divide_eq)
  then have "of_int (2 ^ 52) \<le> q / u" by simp
  then have "2 ^ 52 \<le> \<lfloor>q / u\<rfloor>" by (simp only: le_floor_iff)
  then have "2 ^ 52 \<le> roundHalfEven (q / u)" using roundHalfEven_ge_floor[of "q / u"] by linarith
  then have "(2 ^ 52 :: rat) \<le> of_int (roundHalfEven (q / u))"
    by (metis of_int_le_iff of_int_numeral of_int_power)
  then have A: "2 ^ 52 * u \<le> of_int (roundHalfEven (q / u)) * u"
    using u by (simp only: mult_le_cancel_right_pos)
  have "1 \<le> power_int (2::rat) k" using k(1) by (simp add: one_le_power_int)
  then have B: "1 \<le> 2 ^ 52 * u" by (simp only: ku)
  have "1 \<le> of_int (roundHalfEven (q / u)) * u" by (rule order_trans[OF B A])
  moreover have "roundDouble q = of_int (roundHalfEven (q / u)) * u"
    using q k(1) by (simp add: roundDouble_def floorLog2_def Let_def u_def k_def max_def)
  ultimately show ?thesis by (simp only:)
qed


subsection \<open>Delimiter detection\<close>

lemma columnCounts_gt1: "\<forall>n\<in>set (columnCounts lines d). 2 \<le> n"
  by (auto simp: columnCounts_def)

lemma sum_list_ge: "\<forall>n\<in>set cc. (k::nat) \<le> n \<Longrightarrow> k * length cc \<le> sum_list cc"
  by (induction cc) auto

lemma avg_ge2:
  assumes "cc \<noteq> []" "\<forall>n\<in>set cc. 2 \<le> n"
  shows "(2::rat) \<le> of_nat (sum_list cc) / of_nat (length cc)"
proof -
  have "2 * length cc \<le> sum_list cc" using assms(2) by (rule sum_list_ge)
  then have "(of_nat (2 * length cc) :: rat) \<le> of_nat (sum_list cc)" by (simp only: of_nat_le_iff)
  moreover have "(0::rat) < of_nat (length cc)" using assms(1) by simp
  ultimately show ?thesis by (simp add: pos_le_divide_eq)
qed

lemma avgColumns_ge1:
  assumes "cc \<noteq> []" "\<forall>n\<in>set cc. 2 \<le> n"
  shows "1 \<le> roundDouble (of_nat (sum_list cc) / of_nat (length cc))"
  using avg_ge2[OF assms] by (intro roundDouble_ge_1) linarith

lemma delimiterScore_nonneg:
  assumes "cc \<noteq> []" "\<forall>n\<in>set cc. 2 \<le> n"
  shows "0 \<le> delimiterScore cc"
proof -
  have a: "(0::rat) \<le> roundDouble (of_nat (sum_list cc) / of_nat (length cc))"
    using avgColumns_ge1[OF assms] by linarith
  have m: "(0::rat) \<le> max c (1 / 2)" for c by simp
  show ?thesis unfolding delimiterScore_def Let_def
    by (intro roundDouble_nonneg mult_nonneg_nonneg a m) simp
qed

lemma delimiterScore_spec:
  assumes "cc \<noteq> []" "\<forall>n\<in>set cc. 2 \<le> n"
  shows "delimiterScore cc = score_spec cc"
proof -
  have "max (roundDouble (of_nat (sum_list cc) / of_nat (length cc))) (1::rat)
        = roundDouble (of_nat (sum_list cc) / of_nat (length cc))"
    using avgColumns_ge1[OF assms] by simp
  then show ?thesis by (simp add: delimiterScore_def score_spec_def Let_def)
qed

lemma candidateScore_nonneg: "0 \<le> candidateScore lines d"
  using delimiterScore_nonneg[OF _ columnCounts_gt1, of lines d]
  by (auto simp: candidateScore_def Let_def)

lemma detectStep_alt:
  "detectStep lines st d =
     (if columnCounts lines d \<noteq> [] \<and> candidateScore lines d > snd st then (d, candidateScore lines d) else st)"
  by (simp add: detectStep_def candidateScore_def Let_def)

lemma detect_foldl_inv:
  assumes "\<forall>d\<in>set done. candidateScore lines d \<le> snd st"
    and "(snd st = 0 \<and> fst st = [0x2C]) \<or> (fst st \<in> set done \<and> candidateScore lines (fst st) = snd st \<and> 0 < snd st)"
    and "0 \<le> snd st"
  shows "let r = foldl (detectStep lines) st ds in
           (\<forall>d\<in>set (done @ ds). candidateScore lines d \<le> snd r) \<and>
           ((snd r = 0 \<and> fst r = [0x2C]) \<or> (fst r \<in> set (done @ ds) \<and> candidateScore lines (fst r) = snd r \<and> 0 < snd r)) \<and> 0 \<le> snd r"
  using assms
proof (induction ds arbitrary: st "done")
  case Nil
  then show ?case by simp
next
  case (Cons d ds)
  let ?st' = "detectStep lines st d"
  have nn: "0 \<le> candidateScore lines d" by (rule candidateScore_nonneg)
  have z: "columnCounts lines d = [] \<Longrightarrow> candidateScore lines d = 0" by (simp add: candidateScore_def)
  have 1: "\<forall>x\<in>set (done @ [d]). candidateScore lines x \<le> snd ?st'"
    using Cons.prems(1) Cons.prems(3) z by (auto simp: detectStep_alt intro: order_trans less_imp_le)
  have 2: "(snd ?st' = 0 \<and> fst ?st' = [0x2C]) \<or> (fst ?st' \<in> set (done @ [d]) \<and> candidateScore lines (fst ?st') = snd ?st' \<and> 0 < snd ?st')"
    using Cons.prems(2) Cons.prems(3) by (auto simp: detectStep_alt)
  have 3: "0 \<le> snd ?st'" using Cons.prems(3) nn by (auto simp: detectStep_alt)
  show ?case using Cons.IH[OF 1 2 3] by simp
qed


lemma detect_result:
  "(\<forall>d\<in>set delimiters. candidateScore L d \<le> snd (foldl (detectStep L) ([0x2C], 0) delimiters)) \<and>
   ((snd (foldl (detectStep L) ([0x2C], 0) delimiters) = 0 \<and>
     fst (foldl (detectStep L) ([0x2C], 0) delimiters) = [0x2C]) \<or>
    (fst (foldl (detectStep L) ([0x2C], 0) delimiters) \<in> set delimiters \<and>
     candidateScore L (fst (foldl (detectStep L) ([0x2C], 0) delimiters)) =
       snd (foldl (detectStep L) ([0x2C], 0) delimiters) \<and>
     0 < snd (foldl (detectStep L) ([0x2C], 0) delimiters)))"
  using detect_foldl_inv[of "[]" L "([0x2C], 0)" delimiters]
  by (simp add: Let_def)

text \<open>
  Claim C6, as amended. The sample is the non-blank lines among the first ten lines of the
  text. For every text the detector returns one of tab, comma, semicolon and pipe, and no
  candidate has a higher score on the sample than the one returned. The score of a candidate
  with column counts \<open>cc\<close> (the counts, above one, of the sampled lines it splits) is
  average \<open>\<times>\<close> max(consistency, 0.5) \<times> number of counts, computed in double precision with
  every operation rounded, the consistency being 0.8 when the largest count exceeds ten and
  1 - (max - min) / average otherwise (the source's guard \<open>max average 1\<close> never applies, the
  counts being at least two); it is zero when the candidate splits no sampled line. The
  detector returns comma when no candidate splits a sampled line into more than one column,
  and on the text \<open>a,b,c / 1,2,3 / 4,5,6\<close> it returns comma.
\<close>

theorem detectDelimiter_highest_score:
  "detectDelimiter text \<in> set delimiters \<and>
   (\<forall>d\<in>set delimiters.
      candidateScore (sampleLines text) d \<le> candidateScore (sampleLines text) (detectDelimiter text)) \<and>
   ((\<forall>d\<in>set delimiters. columnCounts (sampleLines text) d = []) \<longrightarrow> detectDelimiter text = [0x2C]) \<and>
   (\<forall>d. columnCounts (sampleLines text) d \<noteq> [] \<longrightarrow>
      candidateScore (sampleLines text) d = score_spec (columnCounts (sampleLines text) d)) \<and>
   detectDelimiter (js ''a,b,c\<newline>1,2,3\<newline>4,5,6'') = [0x2C]"
proof -
  let ?L = "sampleLines text"
  let ?r = "foldl (detectStep ?L) ([0x2C], 0) delimiters"
  have r: "detectDelimiter text = fst ?r" by (simp add: detectDelimiter_def)
  have comma: "[0x2C] \<in> set delimiters" by (simp add: delimiters_def)
  have le: "\<forall>d\<in>set delimiters. candidateScore ?L d \<le> snd ?r"
    and cases: "(snd ?r = 0 \<and> fst ?r = [0x2C]) \<or>
                (fst ?r \<in> set delimiters \<and> candidateScore ?L (fst ?r) = snd ?r \<and> 0 < snd ?r)"
    using detect_result[of "sampleLines text"] by simp_all
  have mem: "detectDelimiter text \<in> set delimiters"
    using cases comma r by auto
  have best: "\<forall>d\<in>set delimiters. candidateScore ?L d \<le> candidateScore ?L (detectDelimiter text)"
  proof
    fix d assume d: "d \<in> set delimiters"
    from cases show "candidateScore ?L d \<le> candidateScore ?L (detectDelimiter text)"
    proof
      assume z: "snd ?r = 0 \<and> fst ?r = [0x2C]"
      then have "candidateScore ?L d \<le> 0" using le d by auto
      also have "0 \<le> candidateScore ?L (detectDelimiter text)" by (rule candidateScore_nonneg)
      finally show ?thesis .
    next
      assume "fst ?r \<in> set delimiters \<and> candidateScore ?L (fst ?r) = snd ?r \<and> 0 < snd ?r"
      then show ?thesis using le d r by auto
    qed
  qed
  have dflt: "detectDelimiter text = [0x2C]" if none: "\<forall>d\<in>set delimiters. columnCounts ?L d = []"
  proof -
    have "\<forall>d\<in>set delimiters. candidateScore ?L d = 0" using none by (simp add: candidateScore_def)
    then show ?thesis using cases r by auto
  qed
  have spec: "\<forall>d. columnCounts ?L d \<noteq> [] \<longrightarrow> candidateScore ?L d = score_spec (columnCounts ?L d)"
    using delimiterScore_spec[OF _ columnCounts_gt1] by (simp add: candidateScore_def Let_def)
  have ex: "detectDelimiter (js ''a,b,c\<newline>1,2,3\<newline>4,5,6'') = [0x2C]"
    by code_simp
  show ?thesis using mem best dflt spec ex by blast
qed

text \<open>
  The witness has a text that no candidate splits, a text that comma splits, and the text
  \<open>tiedText\<close>, where rounding decides: tab scores less than 7, comma exactly 7, and the detector
  returns comma.
\<close>

theorem detectDelimiter_highest_score_witness:
  "columnCounts (sampleLines (js ''abc'')) [0x09] = [] \<and>
   columnCounts (sampleLines (js ''abc'')) [0x2C] = [] \<and>
   columnCounts (sampleLines (js ''abc'')) [0x3B] = [] \<and>
   columnCounts (sampleLines (js ''abc'')) [0x7C] = [] \<and>
   detectDelimiter (js ''abc'') = [0x2C] \<and>
   columnCounts (sampleLines (js ''a,b;c'')) [0x2C] = [2] \<and>
   candidateScore (sampleLines (js ''a,b;c'')) [0x2C] = score_spec [2] \<and>
   candidateScore (sampleLines (js ''a,b;c'')) [0x3B] \<le> candidateScore (sampleLines (js ''a,b;c'')) (detectDelimiter (js ''a,b;c'')) \<and>
   columnCounts (sampleLines tiedText) [0x09] = [3, 5, 5] \<and>
   columnCounts (sampleLines tiedText) [0x2C] = [7] \<and>
   candidateScore (sampleLines tiedText) [0x09] = 7 - 1 / 2 ^ 50 \<and>
   candidateScore (sampleLines tiedText) [0x2C] = 7 \<and>
   detectDelimiter tiedText = [0x2C] \<and>
   candidateScore (sampleLines tiedText) [0x09] \<le> candidateScore (sampleLines tiedText) (detectDelimiter tiedText)"
proof -
  have a: "columnCounts (sampleLines (js ''abc'')) [0x09] = []"
          "columnCounts (sampleLines (js ''abc'')) [0x2C] = []"
          "columnCounts (sampleLines (js ''abc'')) [0x3B] = []"
          "columnCounts (sampleLines (js ''abc'')) [0x7C] = []"
          "columnCounts (sampleLines (js ''a,b;c'')) [0x2C] = [2]"
    by code_simp+
  have t: "columnCounts (sampleLines tiedText) [0x09] = [3, 5, 5]"
          "columnCounts (sampleLines tiedText) [0x2C] = [7]"
          "candidateScore (sampleLines tiedText) [0x09] = 7 - 1 / 2 ^ 50"
          "candidateScore (sampleLines tiedText) [0x2C] = 7"
          "detectDelimiter tiedText = [0x2C]"
    by code_simp+
  show ?thesis
    using detectDelimiter_highest_score[of "js ''abc''"] detectDelimiter_highest_score[of "js ''a,b;c''"]
      detectDelimiter_highest_score[of tiedText] a t
    by (simp add: delimiters_def)
qed

text \<open>
  Claim C6 as stated takes the sample to be the first up to ten non-blank lines. On ten empty
  lines followed by \<open>a;b\<close> that sample is the line \<open>a;b\<close>, on which semicolon scores 2; the
  source samples nothing there and returns comma, whose score on that line is 0.
\<close>

theorem detectDelimiter_sample_counterexample:
  "detectDelimiter blankLedText = [0x2C] \<and>
   candidateScore (sampleLines_spec blankLedText) [0x3B] = 2 \<and>
   candidateScore (sampleLines_spec blankLedText) (detectDelimiter blankLedText) = 0"
  by code_simp

subsection \<open>Line tokenizer\<close>

lemma dropWhile_hd: "dropWhile P xs \<noteq> [] \<Longrightarrow> \<not> P (hd (dropWhile P xs))"
  by (simp add: hd_dropWhile)

lemma trim_idem: "trim (trim s) = trim s"
proof -
  define t where "t = dropWhile isSpace s"
  define u where "u = dropWhile isSpace (rev t)"
  have tu: "trim s = rev u" by (simp add: trim_def t_def u_def)
  have u_hd: "u \<noteq> [] \<Longrightarrow> \<not> isSpace (hd u)" unfolding u_def by (rule dropWhile_hd)
  have t_hd: "t \<noteq> [] \<Longrightarrow> \<not> isSpace (hd t)" unfolding t_def by (rule dropWhile_hd)
  have "\<exists>p. rev t = p @ u" unfolding u_def
    by (metis takeWhile_dropWhile_id)
  then obtain p where p: "rev t = p @ u" by blast
  then have t_eq: "t = rev u @ rev p" by (metis rev_append rev_rev_ident)
  have a: "dropWhile isSpace (rev u) = rev u"
  proof (cases "u = []")
    case True then show ?thesis by simp
  next
    case False
    then have "hd (rev u) = hd t" using t_eq by simp
    moreover have "t \<noteq> []" using t_eq False by simp
    ultimately have "\<not> isSpace (hd (rev u))" using t_hd by simp
    then show ?thesis using False by (cases "rev u") auto
  qed
  have b: "dropWhile isSpace u = u"
    using u_hd by (cases u) auto
  show ?thesis
    unfolding tu unfolding trim_def by (simp add: a b)
qed

lemma trim_ends:
  assumes "trim s \<noteq> []"
  shows "\<not> isSpace (hd (trim s)) \<and> \<not> isSpace (last (trim s))"
proof -
  define t where "t = dropWhile isSpace s"
  define u where "u = dropWhile isSpace (rev t)"
  have tu: "trim s = rev u" by (simp add: trim_def t_def u_def)
  have u_ne: "u \<noteq> []" using assms tu by simp
  have u_hd: "\<not> isSpace (hd u)" using u_ne unfolding u_def by (rule dropWhile_hd)
  obtain p where p: "rev t = p @ u" unfolding u_def by (metis takeWhile_dropWhile_id)
  then have t_eq: "t = rev u @ rev p" by (metis rev_append rev_rev_ident)
  have t_ne: "t \<noteq> []" using t_eq u_ne by simp
  have "\<not> isSpace (hd t)" using t_ne unfolding t_def by (rule dropWhile_hd)
  moreover have "hd t = hd (rev u)" using t_eq u_ne by simp
  ultimately have "\<not> isSpace (hd (rev u))" by simp
  moreover have "last (rev u) = hd u" using u_ne by (simp add: last_rev)
  ultimately show ?thesis using u_hd by (simp add: tu)
qed

lemma scan_result_ends:
  "\<forall>f\<in>set (result st). f \<noteq> [] \<longrightarrow> \<not> isSpace (hd f) \<and> \<not> isSpace (last f) \<Longrightarrow>
   \<forall>f\<in>set (result (scan d st s)). f \<noteq> [] \<longrightarrow> \<not> isSpace (hd f) \<and> \<not> isSpace (last f)"
proof (induction d st s rule: scan.induct)
  case (1 delimiter st)
  then show ?case by simp
next
  case (2 delimiter st c rest)
  have push: "\<forall>f\<in>set (result st @ [trim (current st)]). f \<noteq> [] \<longrightarrow> \<not> isSpace (hd f) \<and> \<not> isSpace (last f)"
    using "2.prems" trim_ends[of "current st"] by auto
  show ?case using 2 push by (auto split: list.splits)
qed

lemma scan_result_trimmed:
  "\<forall>f\<in>set (result st). trim f = f \<Longrightarrow> \<forall>f\<in>set (result (scan d st s)). trim f = f"
  by (induction d st s rule: scan.induct) (auto simp: trim_idem split: list.splits)

lemma scan_quoted_body:
  "inQuotes st \<Longrightarrow> quoteChar st = [q] \<Longrightarrow> q \<notin> set body \<Longrightarrow>
   scan d st (body @ rest) = scan d (st\<lparr>current := current st @ body\<rparr>) rest"
  by (induction body arbitrary: st) auto

lemma not_space_quotes: "\<not> isSpace dquote" "\<not> isSpace squote"
  by (simp_all add: isSpace_def dquote_def squote_def)

lemma trim_Nil: "trim [] = []"
  by (simp add: trim_def)

lemma trim_no_space_ends:
  "\<not> isSpace a \<Longrightarrow> \<not> isSpace b \<Longrightarrow> trim (a # m @ [b]) = a # m @ [b]"
  by (simp add: trim_def)

lemma parse_single_quoted:
  assumes q: "q = dquote \<or> q = squote" and nb: "q \<notin> set body"
  shows "parseCSVLine (q # body @ [q]) d = [trim body]"
proof -
  have ns: "\<not> isSpace q" using q not_space_quotes by auto
  have t: "trim (q # body @ [q]) = q # body @ [q]" by (rule trim_no_space_ends[OF ns ns])
  let ?s0 = "\<lparr>result = [], current = [], inQuotes = True, quoteChar = [q]\<rparr>"
  have "scan d \<lparr>result = [], current = [], inQuotes = False, quoteChar = []\<rparr> (q # body @ [q])
        = scan d ?s0 (body @ [q])"
    using q by auto
  also have "\<dots> = scan d (?s0\<lparr>current := current ?s0 @ body\<rparr>) [q]"
    by (rule scan_quoted_body[where q = q]) (simp_all add: nb)
  also have "\<dots> = \<lparr>result = [], current = body, inQuotes = False, quoteChar = []\<rparr>"
    by simp
  finally show ?thesis
    unfolding parseCSVLine_def t by simp
qed

text \<open>
  Claim C8. The line tokenizer honours quoting. Every field that \<open>parseCSVLine\<close> emits is
  trimmed: it has no white space at either end, and trimming it again changes nothing. The
  tokenizer always returns at least one field (the model has no failing branch: the loop
  reads one code unit at a time and nothing in it can throw). Inside a quoted region every
  code unit other than the quote character, the delimiter included, is appended to the
  current field and no field boundary is emitted; a doubled quote character inside the
  region contributes one literal quote character; a line that is one quoted field yields
  exactly that field whatever delimiters it contains; and the line \<open>"a,b",c\<close> with delimiter
  \<open>,\<close> yields the two fields \<open>a,b\<close> and \<open>c\<close>.
\<close>

theorem parseCSVLine_honours_quoting:
  "(\<forall>f\<in>set (parseCSVLine line d). trim f = f) \<and>
   (\<forall>f\<in>set (parseCSVLine line d). f \<noteq> [] \<longrightarrow> \<not> isSpace (hd f) \<and> \<not> isSpace (last f)) \<and>
   parseCSVLine line d \<noteq> [] \<and>
   (inQuotes st \<and> quoteChar st = [q] \<and> q \<notin> set body \<longrightarrow>
      scan d st (body @ rest) = scan d (st\<lparr>current := current st @ body\<rparr>) rest) \<and>
   (inQuotes st \<and> quoteChar st = [q] \<longrightarrow>
      scan d st (q # q # rest) = scan d (st\<lparr>current := current st @ [q]\<rparr>) rest) \<and>
   ((q = dquote \<or> q = squote) \<and> q \<notin> set body \<longrightarrow>
      parseCSVLine (q # body @ [q]) d = [trim body]) \<and>
   parseCSVLine (js ''\"a,b\",c'') (js '','') = [js ''a,b'', js ''c'']"
proof (intro conjI impI)
  show "\<forall>f\<in>set (parseCSVLine line d). trim f = f"
    using scan_result_trimmed[of "\<lparr>result = [], current = [], inQuotes = False, quoteChar = []\<rparr>" d "trim line"]
    by (auto simp: parseCSVLine_def Let_def trim_idem trim_Nil)
  show "\<forall>f\<in>set (parseCSVLine line d). f \<noteq> [] \<longrightarrow> \<not> isSpace (hd f) \<and> \<not> isSpace (last f)"
    using scan_result_ends[of "\<lparr>result = [], current = [], inQuotes = False, quoteChar = []\<rparr>" d "trim line"]
      trim_ends[of "current (scan d \<lparr>result = [], current = [], inQuotes = False, quoteChar = []\<rparr> (trim line))"]
    by (auto simp: parseCSVLine_def Let_def)
  show "parseCSVLine line d \<noteq> []" by (simp add: parseCSVLine_def Let_def)
  show "scan d st (body @ rest) = scan d (st\<lparr>current := current st @ body\<rparr>) rest"
    if "inQuotes st \<and> quoteChar st = [q] \<and> q \<notin> set body"
    using that scan_quoted_body by blast
  show "scan d st (q # q # rest) = scan d (st\<lparr>current := current st @ [q]\<rparr>) rest"
    if "inQuotes st \<and> quoteChar st = [q]"
    using that by simp
  show "parseCSVLine (q # body @ [q]) d = [trim body]"
    if "(q = dquote \<or> q = squote) \<and> q \<notin> set body"
    using that parse_single_quoted by blast
  show "parseCSVLine (js ''\"a,b\",c'') (js '','') = [js ''a,b'', js ''c'']"
    by code_simp
qed

text \<open>
  The witness has a line whose fields carry white space around them, outside and inside the
  quotes, and a quoted region entered by hand.
\<close>

theorem parseCSVLine_honours_quoting_witness:
  "parseCSVLine (js ''  x y , \" a,b \" ,, c  '') (js '','') = [js ''x y'', js ''a,b'', [], js ''c''] \<and>
   js ''x y'' \<in> set (parseCSVLine (js ''  x y , \" a,b \" ,, c  '') (js '','')) \<and>
   \<not> isSpace (hd (js ''x y'')) \<and> \<not> isSpace (last (js ''x y'')) \<and> trim (js ''x y'') = js ''x y'' \<and>
   trim (js '' a,b '') = js ''a,b'' \<and>
   (dquote = dquote \<or> dquote = squote) \<and> dquote \<notin> set (js ''a,b'') \<and>
   inQuotes \<lparr>result = [], current = [], inQuotes = True, quoteChar = [dquote]\<rparr> \<and>
   parseCSVLine (dquote # js ''a,b'' @ [dquote]) (js '','') = [js ''a,b''] \<and>
   scan (js '','') \<lparr>result = [], current = [], inQuotes = True, quoteChar = [dquote]\<rparr> (js ''a,b'' @ [dquote])
     = \<lparr>result = [], current = js ''a,b'', inQuotes = False, quoteChar = []\<rparr>"
proof -
  have p: "parseCSVLine (js ''  x y , \" a,b \" ,, c  '') (js '','') = [js ''x y'', js ''a,b'', [], js ''c'']"
    by code_simp
  have t: "trim (js '' a,b '') = js ''a,b''" by code_simp
  show ?thesis
    using parseCSVLine_honours_quoting[of "js ''  x y , \" a,b \" ,, c  ''" "js '',''"
        "\<lparr>result = [], current = [], inQuotes = True, quoteChar = [dquote]\<rparr>" dquote "js ''a,b''" "[dquote]"]
      p t
    by (simp add: js_def dquote_def squote_def trim_def isSpace_def)
qed

subsection \<open>Cell normalizer\<close>

lemmas normalizeCell_eval =
  normalizeCell_def numberRule_def percentRule_def dateRule_def booleanRule_def
  numberMatch_def percentMatch_def parseFloat_def removeCommas_def simpleDatePattern_def parseISO_def
  toLowerCase_def lowerChar_def stripPrefixChar_def digitsValue_def isDigit_def trim_def isSpace_def
  js_def str_cham_def str_geojit_def daysInMonth_def isLeapYear_def Let_def

lemma roundDouble_examples:
  "roundDouble (2469 / 2) = 2469 / 2" "roundDouble 50 = 50" "roundDouble (1 / 2) = 1 / 2"
  by code_simp+

text \<open>
  Claim C5. The cell normalizer applies its rules in order, the first that matches deciding
  the result: \<open>1,234.5\<close> is the number 1234.5 (the number rule, commas removed), \<open>50%\<close> is the
  number 0.5 (the percent rule, after the number rule has not matched), \<open>2024-01-01\<close> is the date
  1 January 2024, \<open>(123)\<close> stays the text \<open>(123)\<close> (the parenthesis rule comes before the number
  rule), and the Korean word for true is the boolean true. Both numbers are doubles, and the
  division of 50 by 100 is exact.
\<close>

theorem normalizeCell_examples:
  "normalizeCell (js ''1,234.5'') = CNum (2469 / 2) \<and>
   normalizeCell (js ''50%'') = CNum (1 / 2) \<and>
   normalizeCell (js ''2024-01-01'') = CDate (Date 2024 1 1) \<and>
   normalizeCell (js ''(123)'') = CStr (js ''(123)'') \<and>
   normalizeCell str_cham = CBool True"
  by (simp add: normalizeCell_eval roundDouble_examples)

theorem normalizeCell_examples_witness:
  "normalizeCell (js ''50%'') = CNum (1 / 2) \<and> normalizeCell [0xCC38] = CBool True"
  using normalizeCell_examples by (simp add: str_cham_def)

subsection \<open>Delimited-text recovery\<close>

lemma processLine_length: "length (processLine d i line) = length (parseCSVLine line d)"
  by (simp add: processLine_def headerCells_def Let_def)

lemma buildRows_snd:
  "snd (buildRows d i ls st) = foldl max (snd st) (map (\<lambda>line. length (parseCSVLine line d)) ls)"
  by (induction ls arbitrary: i st) (simp_all add: Let_def processLine_length)

lemma foldl_max_Max: "foldl max (m::nat) xs = Max (set (m # xs))"
proof (induction xs arbitrary: m)
  case Nil
  then show ?case by simp
next
  case (Cons x xs)
  have "Max (insert m (insert x (set xs))) = Max (insert (max m x) (set xs))"
    by (cases "set xs = {}") (simp_all add: max.assoc)
  then show ?case using Cons by simp
qed

lemma foldl_max_0: "xs \<noteq> [] \<Longrightarrow> foldl max (0::nat) xs = Max (set xs)"
  by (simp add: foldl_max_Max)

lemma buildRows_bounded:
  "\<forall>row\<in>set (fst st). length row \<le> snd st \<Longrightarrow>
   \<forall>row\<in>set (fst (buildRows d i ls st)). length row \<le> snd (buildRows d i ls st)"
proof (induction ls arbitrary: i st)
  case Nil
  then show ?case by simp
next
  case (Cons line ls)
  let ?p = "processLine d i line"
  let ?m = "max (snd st) (length ?p)"
  let ?data = "if i = 0 \<or> list_ex cellNonEmpty ?p then fst st @ [?p] else fst st"
  have "\<forall>row\<in>set (fst (?data, ?m)). length row \<le> snd (?data, ?m)"
    using Cons.prems by (auto simp: max_def)
  from Cons.IH[OF this] show ?case by (simp add: Let_def)
qed

lemma padRow_length: "length row \<le> m \<Longrightarrow> length (padRow m row) = m"
  by (simp add: padRow_def)

text \<open>
  Claim C7. Rectangularity. When delimited-text recovery succeeds, its workbook is the one
  sheet \<open>Sheet1\<close> whose rows are the kept rows (the header and every data row with a
  non-empty cell), each filled at the right with empty strings up to \<open>m\<close>, the largest number
  of fields that the tokenizer found in a line; every row of the sheet has exactly \<open>m\<close> cells.
\<close>

theorem textBasedRecovery_rectangular:
  "textBasedRecovery E buffer = Inr wb \<longrightarrow>
     (let text = detectAndDecode E buffer;
          delimiter = detectDelimiter text;
          lines = nonBlankLines text;
          m = Max (set (map (\<lambda>line. length (parseCSVLine line delimiter)) lines));
          rows = fst (buildRows delimiter 0 lines ([], 0))
      in lines \<noteq> [] \<and> rows \<noteq> [] \<and>
         wb = [(js ''Sheet1'', map (padRow m) rows)] \<and>
         (\<forall>row\<in>set rows. length row \<le> m) \<and>
         (\<forall>row\<in>set (map (padRow m) rows). length row = m))"
proof
  assume ok: "textBasedRecovery E buffer = Inr wb"
  define delimiter where "delimiter = detectDelimiter (detectAndDecode E buffer)"
  define lines where "lines = nonBlankLines (detectAndDecode E buffer)"
  define st where "st = buildRows delimiter 0 lines ([], 0)"
  define m where "m = Max (set (map (\<lambda>line. length (parseCSVLine line delimiter)) lines))"
  have unfold: "textBasedRecovery E buffer =
      (if map (padRow (snd st)) (fst st) = [] then Inl (Error msg_noData)
       else book_append_sheet E [] (map (padRow (snd st)) (fst st)) (js ''Sheet1''))"
    by (simp add: textBasedRecovery_def Let_def st_def lines_def delimiter_def)
  have ne: "fst st \<noteq> []" using ok unfold by (auto split: if_splits)
  have lines_ne: "lines \<noteq> []"
  proof
    assume "lines = []"
    then have "fst st = []" by (simp add: st_def)
    then show False using ne by simp
  qed
  have snd_st: "snd st = m"
    unfolding st_def m_def buildRows_snd using lines_ne by (simp add: foldl_max_0)
  have bounded: "\<forall>row\<in>set (fst st). length row \<le> m"
    using buildRows_bounded[of "([], 0)" delimiter 0 lines] snd_st by (simp add: st_def)
  have wb: "wb = [(js ''Sheet1'', map (padRow m) (fst st))]"
    using ok unfold ne snd_st by (auto simp: book_append_sheet_def split: option.splits)
  have rect: "\<forall>row\<in>set (map (padRow m) (fst st)). length row = m"
    using bounded by (auto simp: padRow_length)
  show "let text = detectAndDecode E buffer;
          delimiter = detectDelimiter text;
          lines = nonBlankLines text;
          m = Max (set (map (\<lambda>line. length (parseCSVLine line delimiter)) lines));
          rows = fst (buildRows delimiter 0 lines ([], 0))
      in lines \<noteq> [] \<and> rows \<noteq> [] \<and>
         wb = [(js ''Sheet1'', map (padRow m) rows)] \<and>
         (\<forall>row\<in>set rows. length row \<le> m) \<and>
         (\<forall>row\<in>set (map (padRow m) rows). length row = m)"
    unfolding Let_def
    using lines_ne ne wb bounded rect
    by (simp add: st_def lines_def delimiter_def m_def)
qed

theorem textBasedRecovery_rectangular_witness:
  "textBasedRecovery rejectingEnv (asciiBytes ''a,b,c\<newline>x,y\<newline>,,,,\<newline>z'') =
     Inr [(js ''Sheet1'',
           [[CStr (js ''a''), CStr (js ''b''), CStr (js ''c''), CStr [], CStr []],
            [CStr (js ''x''), CStr (js ''y''), CStr [], CStr [], CStr []],
            [CStr (js ''z''), CStr [], CStr [], CStr [], CStr []]])] \<and>
   Max (set (map (\<lambda>line. length (parseCSVLine line (js '','')))
              (nonBlankLines (js ''a,b,c\<newline>x,y\<newline>,,,,\<newline>z'')))) = 5"
proof -
  have t: "textBasedRecovery rejectingEnv (asciiBytes ''a,b,c\<newline>x,y\<newline>,,,,\<newline>z'') =
     Inr [(js ''Sheet1'',
           [[CStr (js ''a''), CStr (js ''b''), CStr (js ''c''), CStr [], CStr []],
            [CStr (js ''x''), CStr (js ''y''), CStr [], CStr [], CStr []],
            [CStr (js ''z''), CStr [], CStr [], CStr [], CStr []]])]"
    by code_simp
  have m: "Max (set (map (\<lambda>line. length (parseCSVLine line (js '','')))
              (nonBlankLines (js ''a,b,c\<newline>x,y\<newline>,,,,\<newline>z'')))) = 5"
    by code_simp
  show ?thesis
    using textBasedRecovery_rectangular[of rejectingEnv "asciiBytes ''a,b,c\<newline>x,y\<newline>,,,,\<newline>z''"] t m
    by simp
qed

subsection \<open>What the stages write\<close>

lemma book_append_sheet_fresh:
  "append_error E [] name = None \<Longrightarrow> book_append_sheet E [] ws name = Inr [(name, ws)]"
  by (simp add: book_append_sheet_def)

lemma book_append_sheet_Inr:
  "book_append_sheet E wb ws name = Inr r \<Longrightarrow> r = wb @ [(name, ws)]"
  by (auto simp: book_append_sheet_def split: option.splits)

lemma writeTable_fresh:
  "append_error E [] name = None \<Longrightarrow> writeTable E t name = xlsx_write E [(name, t)] compressedWrite"
  by (simp add: writeTable_def book_append_sheet_fresh)

lemma writeTable_Inr:
  "writeTable E t name = Inr out \<Longrightarrow> xlsx_write E [(name, t)] compressedWrite = Inr out"
  by (auto simp: writeTable_def split: sum.splits dest: book_append_sheet_Inr)

lemma writeTable_written:
  "writeTable E t name = Inr out \<Longrightarrow> P [(name, t)] \<Longrightarrow> writtenFrom E P out"
  unfolding writtenFrom_def using writeTable_Inr by blast

lemma normalizeSheets_length:
  "normalizeSheets E acc wb = Inr r \<Longrightarrow> length r = length acc + length wb"
proof (induction wb arbitrary: acc)
  case Nil
  then show ?case by simp
next
  case (Cons s wb)
  obtain n ws where s: "s = (n, ws)" by (cases s)
  from Cons.prems obtain acc' where
    a: "book_append_sheet E acc (normalizeRows (sheet_to_json E \<lparr>jo_raw = Some False, jo_blankrows = None\<rparr> ws))
          (take 31 (sanitizeFilename n)) = Inr acc'"
    and r: "normalizeSheets E acc' wb = Inr r"
    by (auto simp: s Let_def split: sum.splits)
  have "length acc' = Suc (length acc)" using book_append_sheet_Inr[OF a] by simp
  then show ?case using Cons.IH[OF r] by simp
qed

lemma normalizeWorkbook_nonempty:
  "normalizeWorkbook E wb = Inr r \<Longrightarrow> wb \<noteq> [] \<Longrightarrow> r \<noteq> []"
  using normalizeSheets_length[of E "[]" wb r] by (auto simp: normalizeWorkbook_def)

lemma sanitize_Sheet1: "take 31 (sanitizeFilename (js ''Sheet1'')) = js ''Sheet1''"
  by code_simp

lemma normalizeWorkbook_Sheet1:
  "append_error E [] (js ''Sheet1'') = None \<Longrightarrow>
   normalizeWorkbook E [(js ''Sheet1'', t)] =
     Inr [(js ''Sheet1'', normalizeRows (sheet_to_json E \<lparr>jo_raw = Some False, jo_blankrows = None\<rparr> t))]"
  by (simp add: normalizeWorkbook_def Let_def sanitize_Sheet1 book_append_sheet_fresh)

lemma textBasedRecovery_empty:
  "nonBlankLines (detectAndDecode E b) = [] \<Longrightarrow> textBasedRecovery E b = Inl (Error msg_noData)"
  by (simp add: textBasedRecovery_def Let_def)

lemma buildRows_keeps_header: "fst st \<noteq> [] \<Longrightarrow> fst (buildRows d i ls st) \<noteq> []"
  by (induction ls arbitrary: i st) (simp_all add: Let_def)

lemma buildRows_nonempty: "ls \<noteq> [] \<Longrightarrow> fst (buildRows d 0 ls st) \<noteq> []"
  by (cases ls) (simp_all add: Let_def buildRows_keeps_header)

lemma textBasedRecovery_lines:
  assumes "nonBlankLines (detectAndDecode E b) \<noteq> []" "append_error E [] (js ''Sheet1'') = None"
  shows "\<exists>t. t \<noteq> [] \<and> textBasedRecovery E b = Inr [(js ''Sheet1'', t)]"
  using assms buildRows_nonempty[OF assms(1)]
  by (simp add: textBasedRecovery_def Let_def book_append_sheet_fresh)

lemma firstValidWorkbook_nonempty: "firstValidWorkbook E b opts = Some wb \<Longrightarrow> wb \<noteq> []"
  by (induction opts) (auto simp: validFirstRow_def firstSheetRows_def split: sum.splits if_splits list.splits)

lemma firstValidWorkbook_read:
  "firstValidWorkbook E b os = Some wb \<Longrightarrow> \<exists>opts. xlsx_read E b opts = Inr wb"
  by (induction os) (auto split: sum.splits if_splits)

lemma normalizeCell_not_null: "normalizeCell v \<noteq> CNull"
  by (simp add: normalizeCell_def booleanRule_def Let_def split: option.splits)

lemma normalizeRows_nulls:
  "map (map (\<lambda>c. c = CNull)) (normalizeRows t) = map (map (\<lambda>c. c = CNull)) t"
  by (auto simp: normalizeRows_def normalizeCell_not_null split: cell.splits)

lemma normalizeRows_nullFree: "tableNullFree t \<Longrightarrow> tableNullFree (normalizeRows t)"
  by (auto simp: tableNullFree_def normalizeRows_def list_all_iff normalizeCell_not_null split: cell.splits)

lemma strings_nullFree: "tableNullFree (map (map CStr) rows)"
  by (simp add: tableNullFree_def list_all_iff)

lemma strings_nullFree_Cons: "tableNullFree (map CStr h # map (map CStr) rows)"
  by (simp add: tableNullFree_def list_all_iff)

lemma headerCells_nullFree: "list_all (\<lambda>c. c \<noteq> CNull) (headerCells cells)"
  by (auto simp: headerCells_def list_all_iff Let_def)

lemma processLine_nullFree: "list_all (\<lambda>c. c \<noteq> CNull) (processLine d i line)"
  by (simp add: processLine_def Let_def headerCells_nullFree) (simp add: list_all_iff normalizeCell_not_null)

lemma buildRows_nullFree:
  "tableNullFree (fst st) \<Longrightarrow> tableNullFree (fst (buildRows d i ls st))"
proof (induction ls arbitrary: i st)
  case Nil
  then show ?case by simp
next
  case (Cons line ls)
  have "tableNullFree (fst st @ [processLine d i line])"
    using Cons.prems processLine_nullFree[of d i line] by (simp add: tableNullFree_def)
  then show ?case using Cons.prems by (auto simp: Let_def intro!: Cons.IH)
qed

lemma padRow_nullFree: "tableNullFree t \<Longrightarrow> tableNullFree (map (padRow m) t)"
  by (auto simp: tableNullFree_def list_all_iff padRow_def)

lemma single_sheet_nullFree:
  "book_append_sheet E [] t n = Inr wb \<Longrightarrow> tableNullFree t \<Longrightarrow> workbookNullFree wb"
  by (auto simp: workbookNullFree_def dest: book_append_sheet_Inr)

lemma textBasedRecovery_nullFree:
  assumes "textBasedRecovery E b = Inr wb"
  shows "workbookNullFree wb"
proof -
  let ?text = "detectAndDecode E b"
  let ?st = "buildRows (detectDelimiter ?text) 0 (nonBlankLines ?text) ([], 0)"
  have "tableNullFree (map (padRow (snd ?st)) (fst ?st))"
    by (intro padRow_nullFree buildRows_nullFree) (simp add: tableNullFree_def)
  moreover have "book_append_sheet E [] (map (padRow (snd ?st)) (fst ?st)) (js ''Sheet1'') = Inr wb"
    using assms by (auto simp: textBasedRecovery_def Let_def split: if_splits)
  ultimately show ?thesis by (rule single_sheet_nullFree[rotated])
qed

lemma normalizeSheets_nullFree:
  assumes "\<forall>opts t. tableNullFree t \<longrightarrow> tableNullFree (sheet_to_json E opts t)"
  shows "workbookNullFree acc \<Longrightarrow> workbookNullFree wb \<Longrightarrow> normalizeSheets E acc wb = Inr r \<Longrightarrow>
         workbookNullFree r"
proof (induction wb arbitrary: acc)
  case Nil
  then show ?case by simp
next
  case (Cons s wb)
  obtain n ws where s: "s = (n, ws)" by (cases s)
  let ?t = "normalizeRows (sheet_to_json E \<lparr>jo_raw = Some False, jo_blankrows = None\<rparr> ws)"
  from Cons.prems(3) obtain acc' where
    a: "book_append_sheet E acc ?t (take 31 (sanitizeFilename n)) = Inr acc'"
    and r: "normalizeSheets E acc' wb = Inr r"
    by (auto simp: s Let_def split: sum.splits)
  have ws: "tableNullFree ws" and wb: "workbookNullFree wb"
    using Cons.prems(2) by (simp_all add: workbookNullFree_def s)
  have "tableNullFree ?t" using assms ws by (intro normalizeRows_nullFree) blast
  then have "workbookNullFree acc'"
    using book_append_sheet_Inr[OF a] Cons.prems(1) by (simp add: workbookNullFree_def)
  from Cons.IH[OF this wb r] show ?case .
qed

lemma normalizeWorkbook_nullFree:
  assumes "\<forall>opts t. tableNullFree t \<longrightarrow> tableNullFree (sheet_to_json E opts t)"
    and "workbookNullFree wb" and "normalizeWorkbook E wb = Inr r"
  shows "workbookNullFree r"
  using normalizeSheets_nullFree[OF assms(1) _ assms(2), of "[]" r] assms(3)
  by (simp add: normalizeWorkbook_def workbookNullFree_def)

lemma firstValidWorkbook_nullFree:
  assumes "\<forall>opts wb. xlsx_read E b opts = Inr wb \<longrightarrow> workbookNullFree wb"
  shows "firstValidWorkbook E b os = Some r \<Longrightarrow> workbookNullFree r"
  using assms by (induction os) (auto split: sum.splits if_splits)

lemma tokenTable_nullFree: "tableNullFree (tokenTable ts)"
  by (auto simp: tableNullFree_def tokenTable_def tokenRow_def list_all_iff Let_def split: prod.splits)

lemma fileStatusTable_nullFree: "tableNullFree (fileStatusTable b f)"
  by (simp add: tableNullFree_def fileStatusTable_def)

lemma sharedStringsTable_nullFree: "tableNullFree (sharedStringsTable ts)"
  using strings_nullFree
  by (auto simp: sharedStringsTable_def Let_def tableNullFree_def list_all_iff)

lemma worksheetTable_nullFree: "tableNullFree (worksheetTable vs)"
  using headerCells_nullFree strings_nullFree
  by (auto simp: worksheetTable_def Let_def tableNullFree_def list_all_iff split: list.splits)

lemma fileInfoTable_nullFree: "tableNullFree (fileInfoTable b f)"
  by (simp add: tableNullFree_def fileInfoTable_def)

lemma binaryFallbackTable_nullFree: "tableNullFree (binaryFallbackTable b f)"
  by (auto simp: tableNullFree_def binaryFallbackTable_def numberedLines_def Let_def list_all_iff)

text \<open>
  A property \<open>P\<close> that holds of every one-sheet workbook with a table of the stages' own, and
  of every normalized workbook that came from the decoder, holds of the workbook behind every
  buffer that a stage returns. The tables of the stages' own hold no \<^verbatim>\<open>null\<close>, which is all
  that is asked of them here.
\<close>

lemma tryReadOptions_written:
  assumes "\<And>opts wb n. xlsx_read E b opts = Inr wb \<Longrightarrow> wb \<noteq> [] \<Longrightarrow> normalizeWorkbook E wb = Inr n \<Longrightarrow> P n"
  shows "tryReadOptions E b valid jo wo os = Some out \<Longrightarrow> writtenFrom E P out"
proof (induction os)
  case Nil
  then show ?case by simp
next
  case (Cons opts os)
  show ?case
  proof (cases "xlsx_read E b opts")
    case (Inl e)
    then show ?thesis using Cons by simp
  next
    case (Inr wb)
    show ?thesis
    proof (cases "wb \<noteq> [] \<and> valid (firstSheetRows E jo wb)")
      case False
      then show ?thesis using Cons Inr by auto
    next
      case True
      show ?thesis
      proof (cases "normalizeWorkbook E wb")
        case (Inl e)
        then show ?thesis using Cons \<open>xlsx_read E b opts = Inr wb\<close> True by simp
      next
        case n: (Inr n)
        have Pn: "P n" using assms[OF Inr _ n] True by simp
        show ?thesis
        proof (cases "xlsx_write E n wo")
          case (Inl e)
          then show ?thesis using Cons Inr True n by simp
        next
          case w: (Inr o')
          then have "out = o'" using Cons.prems Inr True n by simp
          then show ?thesis using Pn w by (auto simp: writtenFrom_def)
        qed
      qed
    qed
  qed
qed

lemma findMeaningful_written:
  assumes tab: "\<And>name t. tableNullFree t \<Longrightarrow> P [(name, t)]"
  shows "findMeaningfulTextInBuffer E b f = Inr out \<Longrightarrow> writtenFrom E P out"
  by (auto simp: findMeaningfulTextInBuffer_def Let_def split: sum.splits if_splits
      intro: writeTable_written tab tokenTable_nullFree fileStatusTable_nullFree)

lemma sharedStrings_written:
  assumes tab: "\<And>name t. tableNullFree t \<Longrightarrow> P [(name, t)]"
  shows "extractDataFromSharedStrings E b f c = Inr out \<Longrightarrow> writtenFrom E P out"
  by (auto simp: extractDataFromSharedStrings_def Let_def split: sum.splits if_splits
      intro: writeTable_written tab sharedStringsTable_nullFree findMeaningful_written)

lemma worksheet_written:
  assumes tab: "\<And>name t. tableNullFree t \<Longrightarrow> P [(name, t)]"
  shows "extractDataFromWorksheet E b f c = Inr out \<Longrightarrow> writtenFrom E P out"
  by (auto simp: extractDataFromWorksheet_def Let_def split: sum.splits if_splits
      intro: writeTable_written tab worksheetTable_nullFree)

lemma containerScan_written:
  assumes tab: "\<And>name t. tableNullFree t \<Longrightarrow> P [(name, t)]"
  shows "containerScan E b f = Some out \<Longrightarrow> writtenFrom E P out"
  by (auto simp: containerScan_def Let_def split: option.splits sum.splits if_splits
      intro: sharedStrings_written worksheet_written tab)

lemma convertBinary_written:
  assumes tab: "\<And>name t. tableNullFree t \<Longrightarrow> P [(name, t)]"
  shows "convertBinaryToJsonToXlsx E b f = Inr out \<Longrightarrow> writtenFrom E P out"
  by (auto simp: convertBinaryToJsonToXlsx_def Let_def split: sum.splits option.splits
      intro: writeTable_written tab strings_nullFree_Cons fileInfoTable_nullFree)

lemma handleBinary_written:
  assumes tab: "\<And>name t. tableNullFree t \<Longrightarrow> P [(name, t)]"
    and norm: "\<And>opts wb n. xlsx_read E b opts = Inr wb \<Longrightarrow> wb \<noteq> [] \<Longrightarrow> normalizeWorkbook E wb = Inr n \<Longrightarrow> P n"
    and r: "handleBinaryExcelFile E b f = Inr out"
  shows "writtenFrom E P out"
proof (cases "firstValidWorkbook E b binaryReadOptions")
  case None
  then show ?thesis using r
    by (auto simp: handleBinaryExcelFile_def split: sum.splits
        intro: writeTable_written tab binaryFallbackTable_nullFree convertBinary_written)
next
  case (Some wb)
  obtain opts where rd: "xlsx_read E b opts = Inr wb" using firstValidWorkbook_read[OF Some] by blast
  have ne: "wb \<noteq> []" using Some by (rule firstValidWorkbook_nonempty)
  show ?thesis
  proof (cases "normalizeWorkbook E wb")
    case (Inl e)
    then show ?thesis using r Some
      by (auto simp: handleBinaryExcelFile_def intro: writeTable_written tab binaryFallbackTable_nullFree)
  next
    case (Inr n)
    have Pn: "P n" using norm[OF rd ne Inr] .
    show ?thesis
    proof (cases "xlsx_write E n compressedWrite")
      case (Inl e)
      then show ?thesis using r Some Inr
        by (auto simp: handleBinaryExcelFile_def intro: writeTable_written tab binaryFallbackTable_nullFree)
    next
      case w: (Inr o')
      then have "out = o'" using r Some Inr by (simp add: handleBinaryExcelFile_def)
      then show ?thesis using Pn w by (auto simp: writtenFrom_def)
    qed
  qed
qed

lemma handleExcelFile_written:
  assumes tab: "\<And>name t. tableNullFree t \<Longrightarrow> P [(name, t)]"
    and norm: "\<And>opts wb n. xlsx_read E b opts = Inr wb \<Longrightarrow> wb \<noteq> [] \<Longrightarrow> normalizeWorkbook E wb = Inr n \<Longrightarrow> P n"
    and r: "handleExcelFile E b f = Inr out"
  shows "writtenFrom E P out"
  using r tryReadOptions_written[of E b P, OF norm] containerScan_written[of P E b f out, OF tab]
    handleBinary_written[of P E b f out, OF tab norm]
  by (auto simp: handleExcelFile_def split: option.splits)

text \<open>
  The last resort of the Excel path is the table of the binary stage's \<^verbatim>\<open>catch\<close>, written
  outside every \<^verbatim>\<open>try\<close>: an error of the Excel path is the writer's error on that table, and when
  the writer accepts that table the Excel path returns a buffer.
\<close>

lemma handleBinary_error:
  assumes "append_error E [] (js ''Sheet1'') = None" and "handleBinaryExcelFile E b f = Inl e"
  shows "xlsx_write E [(js ''Sheet1'', binaryFallbackTable b f)] compressedWrite = Inl e"
  using assms(2) by (auto simp: handleBinaryExcelFile_def writeTable_fresh[OF assms(1)] split: sum.splits)

lemma handleExcelFile_error:
  assumes "append_error E [] (js ''Sheet1'') = None" and "handleExcelFile E b f = Inl e"
  shows "xlsx_write E [(js ''Sheet1'', binaryFallbackTable b f)] compressedWrite = Inl e"
  using assms(2) handleBinary_error[OF assms(1), of b f e]
  by (auto simp: handleExcelFile_def split: option.splits)

lemma handleExcelFile_returns:
  assumes "append_error E [] (js ''Sheet1'') = None"
    and "xlsx_write E [(js ''Sheet1'', binaryFallbackTable b f)] compressedWrite = Inr fallback"
  shows "\<exists>out. handleExcelFile E b f = Inr out"
proof (cases "handleExcelFile E b f")
  case (Inl e)
  then show ?thesis using handleExcelFile_error[OF assms(1) Inl] assms(2) by simp
next
  case (Inr out)
  then show ?thesis by blast
qed

lemma nonempty_sheet: "(\<lambda>wb. wb \<noteq> []) [(name, t)]"
  by simp

lemma handleExcelFile_nonempty:
  "handleExcelFile E b f = Inr out \<Longrightarrow> writtenFrom E (\<lambda>wb. wb \<noteq> []) out"
  by (rule handleExcelFile_written[where P = "\<lambda>wb. wb \<noteq> []"])
     (auto dest: normalizeWorkbook_nonempty)


subsection \<open>No stage introduces a null cell\<close>

lemma standardParse_read:
  "standardParse E b = Some wb \<Longrightarrow> xlsx_read E b standardReadOptions = Inr wb \<and> wb \<noteq> []"
  by (auto simp: standardParse_def split: sum.splits if_splits)

lemma nullFree_sheet: "tableNullFree t \<Longrightarrow> workbookNullFree [(name, t)]"
  by (simp add: workbookNullFree_def)

lemma convertToXlsx_nullFree:
  assumes sj: "\<forall>opts t. tableNullFree t \<longrightarrow> tableNullFree (sheet_to_json E opts t)"
    and rd: "\<forall>opts wb. xlsx_read E b opts = Inr wb \<longrightarrow> workbookNullFree wb"
    and r: "convertToXlsx E b f force = Inr out"
  shows "writtenFrom E workbookNullFree out"
proof (cases "excelRouted b f")
  case True
  have norm: "workbookNullFree n"
    if "xlsx_read E b opts = Inr wb" "wb \<noteq> []" "normalizeWorkbook E wb = Inr n" for opts wb n
    using that rd normalizeWorkbook_nullFree[OF sj _ that(3)] by blast
  show ?thesis
    using r True handleExcelFile_written[of workbookNullFree E b f out, OF nullFree_sheet norm]
    by (simp add: convertToXlsx_def)
next
  case False
  define w where "w = (if \<not> force then (case standardParse E b of Some workbook \<Rightarrow> Inr workbook
                                                        | None \<Rightarrow> textBasedRecovery E b)
                       else textBasedRecovery E b)"
  from r False obtain wb n where wb: "w = Inr wb" and n: "normalizeWorkbook E wb = Inr n"
    and o: "xlsx_write E n finalWrite = Inr out"
    by (auto simp: convertToXlsx_def w_def[symmetric] split: sum.splits)
  have "workbookNullFree wb"
    using wb rd standardParse_read[of E b wb] textBasedRecovery_nullFree[of E b wb]
    by (auto simp: w_def split: if_splits option.splits)
  then have "workbookNullFree n" using normalizeWorkbook_nullFree[OF sj _ n] by blast
  then show ?thesis using o by (auto simp: writtenFrom_def)
qed

text \<open>
  Claim C4, as amended. The cell normalizer never returns \<^verbatim>\<open>null\<close>, and the table of
  delimited-text recovery holds no \<^verbatim>\<open>null\<close>: absent data is the empty string there.
  \<open>normalizeWorkbook\<close> passes every cell that is not a string through as it is, so its rows
  have a \<^verbatim>\<open>null\<close> exactly where the rows read from the sheet have one (the source reads them
  with \<^verbatim>\<open>defval: null\<close>). When the decoded sheets have no gap (the decoder's workbooks hold no
  \<^verbatim>\<open>null\<close>, and reading a sheet without \<^verbatim>\<open>null\<close> gives rows without \<^verbatim>\<open>null\<close>), every buffer that
  the conversion returns, on any path, is the writer's result on a workbook that holds no
  \<^verbatim>\<open>null\<close>; every table that the recovery stages build themselves consists of strings.
\<close>

theorem cells_null_free:
  "normalizeCell v \<noteq> CNull \<and>
   (textBasedRecovery E b = Inr wb \<longrightarrow> workbookNullFree wb) \<and>
   map (map (\<lambda>c. c = CNull)) (normalizeRows t) = map (map (\<lambda>c. c = CNull)) t \<and>
   ((\<forall>opts t. tableNullFree t \<longrightarrow> tableNullFree (sheet_to_json E opts t)) \<and>
    (\<forall>opts wb. xlsx_read E b opts = Inr wb \<longrightarrow> workbookNullFree wb) \<and>
    convertToXlsx E b f force = Inr out \<longrightarrow> writtenFrom E workbookNullFree out)"
  using normalizeCell_not_null textBasedRecovery_nullFree normalizeRows_nulls
    convertToXlsx_nullFree[of E b f force out]
  by blast

text \<open>
  The witness is a text of two lines, the second shorter than the first: recovery fills the
  missing cell with the empty string, and the conversion returns what the writer makes of
  that workbook, one byte for the kind of each cell.
\<close>

theorem cells_null_free_witness:
  "textBasedRecovery rejectingEnv (asciiBytes ''a,b\<newline>x'') =
     Inr [(js ''Sheet1'', [[CStr (js ''a''), CStr (js ''b'')], [CStr (js ''x''), CStr []]])] \<and>
   workbookNullFree [(js ''Sheet1'', [[CStr (js ''a''), CStr (js ''b'')], [CStr (js ''x''), CStr []]])] \<and>
   convertToXlsx rejectingEnv (asciiBytes ''a,b\<newline>x'') (js ''a.csv'') False =
     Inr [0x50, 0x4B, 1, 1, 0x0A, 1, 1, 0x0A] \<and>
   writtenFrom rejectingEnv workbookNullFree [0x50, 0x4B, 1, 1, 0x0A, 1, 1, 0x0A]"
proof -
  let ?wb = "[(js ''Sheet1'', [[CStr (js ''a''), CStr (js ''b'')], [CStr (js ''x''), CStr []]])]"
  have t: "textBasedRecovery rejectingEnv (asciiBytes ''a,b\<newline>x'') = Inr ?wb"
    and c: "convertToXlsx rejectingEnv (asciiBytes ''a,b\<newline>x'') (js ''a.csv'') False =
              Inr [0x50, 0x4B, 1, 1, 0x0A, 1, 1, 0x0A]"
    by code_simp+
  have s: "\<forall>opts t. tableNullFree t \<longrightarrow> tableNullFree (sheet_to_json rejectingEnv opts t)"
    and r: "\<forall>opts wb. xlsx_read rejectingEnv (asciiBytes ''a,b\<newline>x'') opts = Inr wb \<longrightarrow> workbookNullFree wb"
    by (simp_all add: rejectingEnv_def)
  show ?thesis
    using cells_null_free[of _ rejectingEnv "asciiBytes ''a,b\<newline>x''" ?wb _ "js ''a.csv''" False
        "[0x50, 0x4B, 1, 1, 0x0A, 1, 1, 0x0A]"] t c s r
    by blast
qed

text \<open>
  Claim C4 as stated fails on the structured-decode path: a decoded sheet whose first row
  lacks its second cell is normalized and written with \<^verbatim>\<open>null\<close> in that place, which shows as
  the byte 0 in the output of the example writer.
\<close>

theorem cells_null_free_counterexample:
  "normalizeWorkbook decodingEnv [(js ''Data'', gapSheet)] = Inr [(js ''Data'', gapSheet)] \<and>
   gapSheet ! 0 ! 1 = CNull \<and> \<not> workbookNullFree [(js ''Data'', gapSheet)] \<and>
   convertToXlsx decodingEnv (asciiBytes ''PK'') (js ''book.xls'') False =
     xlsx_write decodingEnv [(js ''Data'', gapSheet)] plainWrite \<and>
   convertToXlsx decodingEnv (asciiBytes ''PK'') (js ''book.xls'') False =
     Inr [0x50, 0x4B, 1, 0, 0x0A, 1, 1, 0x0A]"
  by code_simp

subsection \<open>The conversion\<close>

lemma convertToXlsx_excel:
  "excelRouted b f \<Longrightarrow> convertToXlsx E b f force = handleExcelFile E b f"
  by (simp add: convertToXlsx_def)

lemma convertToXlsx_text:
  assumes "\<not> excelRouted b f" "force \<or> standardParse E b = None"
  shows "convertToXlsx E b f force =
     (case (case (case textBasedRecovery E b of Inl e \<Rightarrow> Inl e | Inr workbook \<Rightarrow> normalizeWorkbook E workbook) of
              Inl e \<Rightarrow> Inl e
            | Inr normalizedWorkbook \<Rightarrow> xlsx_write E normalizedWorkbook finalWrite) of
        Inl e \<Rightarrow> Inl (Error (msg_conversionFailed @ message e))
      | Inr xlsxBuffer \<Rightarrow> Inr xlsxBuffer)"
  using assms by (auto simp: convertToXlsx_def)

lemma convertToXlsx_parsed:
  assumes "\<not> excelRouted b f" "\<not> force" "standardParse E b = Some wb"
  shows "convertToXlsx E b f force =
     (case (case normalizeWorkbook E wb of
              Inl e \<Rightarrow> Inl e
            | Inr normalizedWorkbook \<Rightarrow> xlsx_write E normalizedWorkbook finalWrite) of
        Inl e \<Rightarrow> Inl (Error (msg_conversionFailed @ message e))
      | Inr xlsxBuffer \<Rightarrow> Inr xlsxBuffer)"
  using assms by (simp add: convertToXlsx_def)

lemma text_path_fails:
  assumes "\<not> excelRouted b f" "force \<or> standardParse E b = None"
    and "nonBlankLines (detectAndDecode E b) = []"
  shows "convertToXlsx E b f force = Inl (Error (msg_conversionFailed @ msg_noData))"
  by (simp add: convertToXlsx_text[OF assms(1,2)] textBasedRecovery_empty[OF assms(3)])

lemma text_path_writes:
  assumes "\<not> excelRouted b f" "force \<or> standardParse E b = None"
    and "nonBlankLines (detectAndDecode E b) \<noteq> []" and "append_error E [] (js ''Sheet1'') = None"
  shows "\<exists>t. t \<noteq> [] \<and> textBasedRecovery E b = Inr [(js ''Sheet1'', t)] \<and>
           convertToXlsx E b f force =
             (case xlsx_write E
                     [(js ''Sheet1'', normalizeRows (sheet_to_json E \<lparr>jo_raw = Some False, jo_blankrows = None\<rparr> t))]
                     finalWrite of
                Inl e \<Rightarrow> Inl (Error (msg_conversionFailed @ message e))
              | Inr xlsxBuffer \<Rightarrow> Inr xlsxBuffer)"
proof -
  obtain t where t: "t \<noteq> []" "textBasedRecovery E b = Inr [(js ''Sheet1'', t)]"
    using textBasedRecovery_lines[OF assms(3,4)] by blast
  show ?thesis
    using t by (auto simp: convertToXlsx_text[OF assms(1,2)] normalizeWorkbook_Sheet1[OF assms(4)])
qed

lemma example_facts:
  "append_error rejectingEnv [] (js ''Sheet1'') = None"
  "append_error cappedEnv [] (js ''Sheet1'') = None"
  "excelRouted [] (js ''a.xlsx'')"
  "\<not> excelRouted (asciiBytes ''a,b'') (js ''a.csv'')"
  "\<not> excelRouted [] (js ''a.csv'')"
  "standardParse rejectingEnv (asciiBytes ''a,b'') = None"
  "standardParse rejectingEnv [] = None"
  "nonBlankLines (detectAndDecode rejectingEnv (asciiBytes ''a,b'')) = [js ''a,b'']"
  "nonBlankLines (detectAndDecode rejectingEnv []) = []"
  by code_simp+

text \<open>
  Claim C1, as amended. Provided that the sheet \<open>Sheet1\<close> can be appended to a new workbook:
  for every buffer and file name routed to the Excel path (extension \<open>xlsx\<close> or \<open>xls\<close>, or a
  ZIP signature) and whatever the force option, when the writer accepts the last-resort table
  of the binary stage (which holds the file name and the first lines of the buffer),
  \<open>convertToXlsx\<close> returns a buffer, and every buffer it returns on this path is the writer's
  result on a workbook with at least one sheet. For any other input, when delimited-text
  recovery is entered (the option is set, or the standard decode failed or gave a first row
  without text): if the decoded text has a non-blank line, the result is the writer's result
  on the normalized sheet \<open>Sheet1\<close> of the recovered rows, a buffer when the writer accepts it
  and the writer's error with the prefix of the conversion error when it does not; if the
  decoded text has no non-blank line, \<open>convertToXlsx\<close> raises the conversion error.
\<close>

theorem convertToXlsx_returns:
  "append_error E [] (js ''Sheet1'') = None \<longrightarrow>
     (excelRouted b f \<longrightarrow>
        (\<forall>out. convertToXlsx E b f force = Inr out \<longrightarrow> writtenFrom E (\<lambda>wb. wb \<noteq> []) out) \<and>
        ((\<exists>fallback. xlsx_write E [(js ''Sheet1'', binaryFallbackTable b f)] compressedWrite = Inr fallback) \<longrightarrow>
           (\<exists>out. convertToXlsx E b f force = Inr out))) \<and>
     (\<not> excelRouted b f \<and> (force \<or> standardParse E b = None) \<and>
      nonBlankLines (detectAndDecode E b) \<noteq> [] \<longrightarrow>
        (\<exists>t. t \<noteq> [] \<and> textBasedRecovery E b = Inr [(js ''Sheet1'', t)] \<and>
           convertToXlsx E b f force =
             (case xlsx_write E
                     [(js ''Sheet1'', normalizeRows (sheet_to_json E \<lparr>jo_raw = Some False, jo_blankrows = None\<rparr> t))]
                     finalWrite of
                Inl e \<Rightarrow> Inl (Error (msg_conversionFailed @ message e))
              | Inr xlsxBuffer \<Rightarrow> Inr xlsxBuffer))) \<and>
     (\<not> excelRouted b f \<and> (force \<or> standardParse E b = None) \<and>
      nonBlankLines (detectAndDecode E b) = [] \<longrightarrow>
        convertToXlsx E b f force = Inl (Error (msg_conversionFailed @ msg_noData)))"
proof (intro impI conjI allI)
  assume a: "append_error E [] (js ''Sheet1'') = None"
  show "writtenFrom E (\<lambda>wb. wb \<noteq> []) out"
    if "excelRouted b f" "convertToXlsx E b f force = Inr out" for out
    using that handleExcelFile_nonempty[of E b f out] by (simp add: convertToXlsx_excel)
  show "\<exists>out. convertToXlsx E b f force = Inr out"
    if "excelRouted b f"
      "\<exists>fallback. xlsx_write E [(js ''Sheet1'', binaryFallbackTable b f)] compressedWrite = Inr fallback"
    using that handleExcelFile_returns[OF a, of b f] by (auto simp: convertToXlsx_excel)
  show "\<exists>t. t \<noteq> [] \<and> textBasedRecovery E b = Inr [(js ''Sheet1'', t)] \<and>
           convertToXlsx E b f force =
             (case xlsx_write E
                     [(js ''Sheet1'', normalizeRows (sheet_to_json E \<lparr>jo_raw = Some False, jo_blankrows = None\<rparr> t))]
                     finalWrite of
                Inl e \<Rightarrow> Inl (Error (msg_conversionFailed @ message e))
              | Inr xlsxBuffer \<Rightarrow> Inr xlsxBuffer)"
    if h: "\<not> excelRouted b f \<and> (force \<or> standardParse E b = None) \<and> nonBlankLines (detectAndDecode E b) \<noteq> []"
    by (rule text_path_writes[of b f force E]) (use h a in simp_all)
  show "convertToXlsx E b f force = Inl (Error (msg_conversionFailed @ msg_noData))"
    if h: "\<not> excelRouted b f \<and> (force \<or> standardParse E b = None) \<and> nonBlankLines (detectAndDecode E b) = []"
    by (rule text_path_fails[of b f force E]) (use h in simp_all)
qed

text \<open>
  The witness runs the empty buffer named \<open>a.xlsx\<close> through the Excel path, where the writer
  accepts the last-resort table and the conversion returns the written file information
  table; the text \<open>a,b\<close> named \<open>a.csv\<close> through forced text recovery, which returns the writer's
  result on a sheet of one row of two strings; and the empty buffer named \<open>a.csv\<close>, which
  raises.
\<close>

theorem convertToXlsx_returns_witness:
  "append_error rejectingEnv [] (js ''Sheet1'') = None \<and>
   excelRouted [] (js ''a.xlsx'') \<and>
   xlsx_write rejectingEnv [(js ''Sheet1'', binaryFallbackTable [] (js ''a.xlsx''))] compressedWrite =
     Inr [0x50, 0x4B, 1, 1, 1, 0x0A, 1, 1, 1, 0x0A, 1, 1, 1, 0x0A] \<and>
   convertToXlsx rejectingEnv [] (js ''a.xlsx'') False = Inr [0x50, 0x4B, 1, 1, 1, 1, 0x0A, 1, 1, 1, 1, 0x0A] \<and>
   writtenFrom rejectingEnv (\<lambda>wb. wb \<noteq> []) [0x50, 0x4B, 1, 1, 1, 1, 0x0A, 1, 1, 1, 1, 0x0A] \<and>
   \<not> excelRouted (asciiBytes ''a,b'') (js ''a.csv'') \<and>
   nonBlankLines (detectAndDecode rejectingEnv (asciiBytes ''a,b'')) \<noteq> [] \<and>
   textBasedRecovery rejectingEnv (asciiBytes ''a,b'') = Inr [(js ''Sheet1'', [[CStr (js ''a''), CStr (js ''b'')]])] \<and>
   convertToXlsx rejectingEnv (asciiBytes ''a,b'') (js ''a.csv'') True = Inr [0x50, 0x4B, 1, 1, 0x0A] \<and>
   \<not> excelRouted [] (js ''a.csv'') \<and>
   nonBlankLines (detectAndDecode rejectingEnv []) = [] \<and>
   convertToXlsx rejectingEnv [] (js ''a.csv'') True = Inl (Error (msg_conversionFailed @ msg_noData))"
proof -
  have w: "xlsx_write rejectingEnv [(js ''Sheet1'', binaryFallbackTable [] (js ''a.xlsx''))] compressedWrite =
             Inr [0x50, 0x4B, 1, 1, 1, 0x0A, 1, 1, 1, 0x0A, 1, 1, 1, 0x0A]"
    "convertToXlsx rejectingEnv [] (js ''a.xlsx'') False = Inr [0x50, 0x4B, 1, 1, 1, 1, 0x0A, 1, 1, 1, 1, 0x0A]"
    "textBasedRecovery rejectingEnv (asciiBytes ''a,b'') = Inr [(js ''Sheet1'', [[CStr (js ''a''), CStr (js ''b'')]])]"
    "convertToXlsx rejectingEnv (asciiBytes ''a,b'') (js ''a.csv'') True = Inr [0x50, 0x4B, 1, 1, 0x0A]"
    by code_simp+
  show ?thesis
    using convertToXlsx_returns[of rejectingEnv "[]" "js ''a.xlsx''" False]
      convertToXlsx_returns[of rejectingEnv "asciiBytes ''a,b''" "js ''a.csv''" True]
      convertToXlsx_returns[of rejectingEnv "[]" "js ''a.csv''" True]
      example_facts w
    by simp
qed

text \<open>
  Claim C1 as stated fails in three ways. On the empty buffer with the file name \<open>a.csv\<close>,
  whether the decoder rejects it or reads it as a workbook with one empty sheet, text
  recovery is entered, finds no line, and \<open>convertToXlsx\<close> raises. With a writer that refuses
  long text cells, as SheetJS does, a text file whose one line is longer than the limit makes
  it raise the writer's error, and so does, on the Excel path, a file name longer than the
  limit, which every last-resort table holds.
\<close>

theorem convertToXlsx_raises_counterexample:
  "convertToXlsx rejectingEnv [] (js ''a.csv'') False = Inl (Error (msg_conversionFailed @ msg_noData)) \<and>
   convertToXlsx (rejectingEnv\<lparr>xlsx_read := \<lambda>b opts. Inr [(js ''Sheet1'', [])]\<rparr>) [] (js ''a.csv'') False =
     Inl (Error (msg_conversionFailed @ msg_noData)) \<and>
   convertToXlsx cappedEnv (asciiBytes ''the quick brown fox jumps'') (js ''a.txt'') False =
     Inl (Error (msg_conversionFailed @ js ''Text length must not exceed the limit'')) \<and>
   convertToXlsx cappedEnv [] (js ''a-long-name-of-a-workbook.xlsx'') False =
     Inl (Error (js ''Text length must not exceed the limit''))"
  by code_simp

text \<open>
  Claim C2, as amended. Provided that the sheet \<open>Sheet1\<close> can be appended to a new workbook,
  the failures of \<open>convertToXlsx\<close> that the caller sees are these. On the Excel path, with the
  force option set or unset, it raises only when the writer refuses the last-resort table of
  the binary stage, and the error is the writer's. Off the Excel path, when the option is
  set, or is unset and the standard decode failed or gave a first row without text, it raises
  exactly when the decoded text has no non-blank line or the writer refuses the normalized
  workbook of the recovered rows. Off the Excel path with the option unset and a workbook
  from the standard decode, it raises exactly when \<open>normalizeWorkbook\<close> fails on that workbook
  (\<^verbatim>\<open>book_append_sheet\<close> refusing a normalized sheet) or the writer refuses the normalized
  workbook.
\<close>

theorem convertToXlsx_failures:
  "append_error E [] (js ''Sheet1'') = None \<longrightarrow>
     (excelRouted b f \<longrightarrow>
        (\<forall>e. convertToXlsx E b f force = Inl e \<longrightarrow>
           xlsx_write E [(js ''Sheet1'', binaryFallbackTable b f)] compressedWrite = Inl e)) \<and>
     (\<not> excelRouted b f \<and> (force \<or> standardParse E b = None) \<longrightarrow>
        ((\<exists>e. convertToXlsx E b f force = Inl e) \<longleftrightarrow>
           nonBlankLines (detectAndDecode E b) = [] \<or>
           (\<exists>workbook n e. textBasedRecovery E b = Inr workbook \<and> normalizeWorkbook E workbook = Inr n \<and>
              xlsx_write E n finalWrite = Inl e))) \<and>
     (\<not> excelRouted b f \<and> \<not> force \<and> standardParse E b = Some wb \<longrightarrow>
        ((\<exists>e. convertToXlsx E b f force = Inl e) \<longleftrightarrow>
           (\<exists>e. normalizeWorkbook E wb = Inl e) \<or>
           (\<exists>n e. normalizeWorkbook E wb = Inr n \<and> xlsx_write E n finalWrite = Inl e)))"
proof (intro impI conjI allI)
  assume a: "append_error E [] (js ''Sheet1'') = None"
  show "xlsx_write E [(js ''Sheet1'', binaryFallbackTable b f)] compressedWrite = Inl e"
    if "excelRouted b f" "convertToXlsx E b f force = Inl e" for e
    using that handleExcelFile_error[OF a, of b f e] by (simp add: convertToXlsx_excel)
  show "(\<exists>e. convertToXlsx E b f force = Inl e) \<longleftrightarrow>
           nonBlankLines (detectAndDecode E b) = [] \<or>
           (\<exists>workbook n e. textBasedRecovery E b = Inr workbook \<and> normalizeWorkbook E workbook = Inr n \<and>
              xlsx_write E n finalWrite = Inl e)"
    if h: "\<not> excelRouted b f \<and> (force \<or> standardParse E b = None)"
  proof (cases "nonBlankLines (detectAndDecode E b) = []")
    case True
    then show ?thesis using text_path_fails[of b f force E] h by auto
  next
    case False
    obtain t where t: "textBasedRecovery E b = Inr [(js ''Sheet1'', t)]"
      using textBasedRecovery_lines[OF False a] by blast
    have c: "convertToXlsx E b f force =
        (case (case normalizeWorkbook E [(js ''Sheet1'', t)] of
                 Inl e \<Rightarrow> Inl e
               | Inr normalizedWorkbook \<Rightarrow> xlsx_write E normalizedWorkbook finalWrite) of
           Inl e \<Rightarrow> Inl (Error (msg_conversionFailed @ message e))
         | Inr xlsxBuffer \<Rightarrow> Inr xlsxBuffer)"
      using convertToXlsx_text[of b f force E] h by (simp add: t)
    show ?thesis using False
      by (auto simp: c t normalizeWorkbook_Sheet1[OF a] split: sum.splits)
  qed
  show "(\<exists>e. convertToXlsx E b f force = Inl e) \<longleftrightarrow>
           (\<exists>e. normalizeWorkbook E wb = Inl e) \<or>
           (\<exists>n e. normalizeWorkbook E wb = Inr n \<and> xlsx_write E n finalWrite = Inl e)"
    if h: "\<not> excelRouted b f \<and> \<not> force \<and> standardParse E b = Some wb"
    using convertToXlsx_parsed[of b f force E wb] h
    by (auto split: sum.splits)
qed

text \<open>
  The witness has one input for each case: on the Excel path, a file name longer than the
  limit of the example writer, where the error raised is the writer's on the last-resort
  table; off the Excel path, a line that the writer accepts, a line longer than the limit,
  and no line at all; and a workbook from the standard decode, which is normalized and
  written.
\<close>

theorem convertToXlsx_failures_witness:
  "append_error cappedEnv [] (js ''Sheet1'') = None \<and>
   excelRouted [] (js ''a-long-name-of-a-workbook.xlsx'') \<and>
   convertToXlsx cappedEnv [] (js ''a-long-name-of-a-workbook.xlsx'') True =
     Inl (Error (js ''Text length must not exceed the limit'')) \<and>
   xlsx_write cappedEnv [(js ''Sheet1'', binaryFallbackTable [] (js ''a-long-name-of-a-workbook.xlsx''))] compressedWrite =
     Inl (Error (js ''Text length must not exceed the limit'')) \<and>
   \<not> excelRouted (asciiBytes ''a,b'') (js ''a.csv'') \<and>
   standardParse cappedEnv (asciiBytes ''a,b'') = None \<and>
   nonBlankLines (detectAndDecode cappedEnv (asciiBytes ''a,b'')) \<noteq> [] \<and>
   \<not> (\<exists>e. convertToXlsx cappedEnv (asciiBytes ''a,b'') (js ''a.csv'') False = Inl e) \<and>
   nonBlankLines (detectAndDecode cappedEnv (asciiBytes ''the quick brown fox jumps'')) \<noteq> [] \<and>
   (\<exists>e. convertToXlsx cappedEnv (asciiBytes ''the quick brown fox jumps'') (js ''a.txt'') False = Inl e) \<and>
   (\<exists>workbook n e. textBasedRecovery cappedEnv (asciiBytes ''the quick brown fox jumps'') = Inr workbook \<and>
      normalizeWorkbook cappedEnv workbook = Inr n \<and> xlsx_write cappedEnv n finalWrite = Inl e) \<and>
   nonBlankLines (detectAndDecode cappedEnv []) = [] \<and>
   (\<exists>e. convertToXlsx cappedEnv [] (js ''a.csv'') True = Inl e) \<and>
   standardParse decodingEnv [] = Some [(js ''Data'', gapSheet)] \<and>
   \<not> (\<exists>e. convertToXlsx decodingEnv [] (js ''a.csv'') False = Inl e)"
proof -
  have x: "excelRouted [] (js ''a-long-name-of-a-workbook.xlsx'')"
    "convertToXlsx cappedEnv [] (js ''a-long-name-of-a-workbook.xlsx'') True =
       Inl (Error (js ''Text length must not exceed the limit''))"
    by code_simp+
  have c: "\<not> excelRouted (asciiBytes ''the quick brown fox jumps'') (js ''a.txt'')"
    "standardParse cappedEnv (asciiBytes ''a,b'') = None"
    "standardParse cappedEnv (asciiBytes ''the quick brown fox jumps'') = None"
    "standardParse cappedEnv [] = None"
    "nonBlankLines (detectAndDecode cappedEnv (asciiBytes ''a,b'')) = [js ''a,b'']"
    "nonBlankLines (detectAndDecode cappedEnv (asciiBytes ''the quick brown fox jumps'')) = [js ''the quick brown fox jumps'']"
    "nonBlankLines (detectAndDecode cappedEnv []) = []"
    "convertToXlsx cappedEnv (asciiBytes ''a,b'') (js ''a.csv'') False = Inr [0x50, 0x4B, 1, 1, 0x0A]"
    "convertToXlsx cappedEnv (asciiBytes ''the quick brown fox jumps'') (js ''a.txt'') False =
       Inl (Error (msg_conversionFailed @ js ''Text length must not exceed the limit''))"
    by code_simp+
  have d: "standardParse decodingEnv [] = Some [(js ''Data'', gapSheet)]"
    "append_error decodingEnv [] (js ''Sheet1'') = None"
    "convertToXlsx decodingEnv [] (js ''a.csv'') False = Inr [0x50, 0x4B, 1, 0, 0x0A, 1, 1, 0x0A]"
    by code_simp+
  show ?thesis
    using convertToXlsx_failures[of cappedEnv "[]" "js ''a-long-name-of-a-workbook.xlsx''" True]
      convertToXlsx_failures[of cappedEnv "asciiBytes ''a,b''" "js ''a.csv''" False]
      convertToXlsx_failures[of cappedEnv "asciiBytes ''the quick brown fox jumps''" "js ''a.txt''" False]
      convertToXlsx_failures[of cappedEnv "[]" "js ''a.csv''" True]
      convertToXlsx_failures[of decodingEnv "[]" "js ''a.csv''" False "[(js ''Data'', gapSheet)]"]
      example_facts x c d
    by simp
qed

text \<open>
  Claim C2 as stated fails in both halves. With the option set, the empty buffer named
  \<open>a.xlsx\<close> has no non-blank line, yet the conversion returns a buffer (the Excel path ignores
  the option), and a text file with a line longer than the writer's limit makes it raise
  although the text has a non-blank line. With the option unset, the empty buffer named
  \<open>a.csv\<close> makes it raise.
\<close>

theorem convertToXlsx_sole_failure_counterexample:
  "nonBlankLines (detectAndDecode rejectingEnv []) = [] \<and>
   convertToXlsx rejectingEnv [] (js ''a.xlsx'') True = Inr [0x50, 0x4B, 1, 1, 1, 1, 0x0A, 1, 1, 1, 1, 0x0A] \<and>
   nonBlankLines (detectAndDecode cappedEnv (asciiBytes ''the quick brown fox jumps'')) = [js ''the quick brown fox jumps''] \<and>
   convertToXlsx cappedEnv (asciiBytes ''the quick brown fox jumps'') (js ''a.txt'') True =
     Inl (Error (msg_conversionFailed @ js ''Text length must not exceed the limit'')) \<and>
   convertToXlsx rejectingEnv [] (js ''a.csv'') False = Inl (Error (msg_conversionFailed @ msg_noData))"
  by code_simp

lemma detectedDecode_reader:
  "detectedDecode (E\<lparr>xlsx_read := r\<rparr>) b = detectedDecode E b"
  by (simp add: detectedDecode_def Let_def split: option.splits prod.splits)

lemma detectAndDecode_reader:
  "detectAndDecode (E\<lparr>xlsx_read := r\<rparr>) b = detectAndDecode E b"
  by (simp add: detectAndDecode_def detectedDecode_reader Let_def split: option.splits)

lemma book_append_sheet_reader:
  "book_append_sheet (E\<lparr>xlsx_read := r\<rparr>) wb ws n = book_append_sheet E wb ws n"
  by (simp add: book_append_sheet_def)

lemma textBasedRecovery_reader:
  "textBasedRecovery (E\<lparr>xlsx_read := r\<rparr>) b = textBasedRecovery E b"
  by (simp add: textBasedRecovery_def detectAndDecode_reader book_append_sheet_reader Let_def)

lemma normalizeSheets_reader:
  "normalizeSheets (E\<lparr>xlsx_read := r\<rparr>) acc wb = normalizeSheets E acc wb"
  by (induction wb arbitrary: acc) (auto simp: book_append_sheet_reader Let_def split: sum.splits)

text \<open>
  Claim C3, as amended. For every buffer and file name that is not routed to the Excel path,
  the conversion with the force option set is delimited-text recovery followed by
  normalization and writing, and its result does not depend on the structured decoder
  \<^verbatim>\<open>XLSX.read\<close>, which is not called. An input routed to the Excel path is handled by
  \<open>handleExcelFile\<close>, whatever the option.
\<close>

theorem forced_text_recovery:
  "(\<not> excelRouted b f \<longrightarrow>
      convertToXlsx E b f True =
        (case (case (case textBasedRecovery E b of Inl e \<Rightarrow> Inl e | Inr workbook \<Rightarrow> normalizeWorkbook E workbook) of
                 Inl e \<Rightarrow> Inl e
               | Inr normalizedWorkbook \<Rightarrow> xlsx_write E normalizedWorkbook finalWrite) of
           Inl e \<Rightarrow> Inl (Error (msg_conversionFailed @ message e))
         | Inr xlsxBuffer \<Rightarrow> Inr xlsxBuffer) \<and>
      convertToXlsx (E\<lparr>xlsx_read := r\<rparr>) b f True = convertToXlsx E b f True) \<and>
   (excelRouted b f \<longrightarrow> convertToXlsx E b f force = handleExcelFile E b f)"
proof (intro conjI impI)
  assume n: "\<not> excelRouted b f"
  show "convertToXlsx E b f True =
        (case (case (case textBasedRecovery E b of Inl e \<Rightarrow> Inl e | Inr workbook \<Rightarrow> normalizeWorkbook E workbook) of
                 Inl e \<Rightarrow> Inl e
               | Inr normalizedWorkbook \<Rightarrow> xlsx_write E normalizedWorkbook finalWrite) of
           Inl e \<Rightarrow> Inl (Error (msg_conversionFailed @ message e))
         | Inr xlsxBuffer \<Rightarrow> Inr xlsxBuffer)"
    using convertToXlsx_text[OF n, of True E] by simp
  show "convertToXlsx (E\<lparr>xlsx_read := r\<rparr>) b f True = convertToXlsx E b f True"
    using n
    by (simp add: convertToXlsx_def textBasedRecovery_reader
        normalizeWorkbook_def normalizeSheets_reader split: sum.splits)
next
  show "convertToXlsx E b f force = handleExcelFile E b f" if "excelRouted b f"
    using that by (rule convertToXlsx_excel)
qed

theorem forced_text_recovery_witness:
  "\<not> excelRouted (asciiBytes ''a,b'') (js ''a.csv'') \<and>
   convertToXlsx decodingEnv (asciiBytes ''a,b'') (js ''a.csv'') True =
     convertToXlsx rejectingEnv (asciiBytes ''a,b'') (js ''a.csv'') True \<and>
   convertToXlsx decodingEnv (asciiBytes ''a,b'') (js ''a.csv'') True = Inr [0x50, 0x4B, 1, 1, 0x0A] \<and>
   convertToXlsx decodingEnv (asciiBytes ''a,b'') (js ''a.csv'') False = Inr [0x50, 0x4B, 1, 0, 0x0A, 1, 1, 0x0A] \<and>
   excelRouted [] (js ''a.xlsx'') \<and>
   convertToXlsx decodingEnv [] (js ''a.xlsx'') True = handleExcelFile decodingEnv [] (js ''a.xlsx'')"
proof -
  have de: "rejectingEnv\<lparr>xlsx_read := \<lambda>b opts. Inr [(js ''Data'', gapSheet)]\<rparr> = decodingEnv"
    by (simp add: decodingEnv_def rejectingEnv_def)
  have v: "convertToXlsx decodingEnv (asciiBytes ''a,b'') (js ''a.csv'') True = Inr [0x50, 0x4B, 1, 1, 0x0A]"
    "convertToXlsx decodingEnv (asciiBytes ''a,b'') (js ''a.csv'') False = Inr [0x50, 0x4B, 1, 0, 0x0A, 1, 1, 0x0A]"
    by code_simp+
  show ?thesis
    using forced_text_recovery[of "asciiBytes ''a,b''" "js ''a.csv''" rejectingEnv
        "\<lambda>b opts. Inr [(js ''Data'', gapSheet)]" True]
      forced_text_recovery[of "[]" "js ''a.xlsx''" decodingEnv "xlsx_read decodingEnv" True]
      example_facts v
    by (simp add: de)
qed

text \<open>
  Claim C3 as stated fails for the file name \<open>a.xlsx\<close>: with the option set and a decoder that
  reads the (empty) buffer, the result is the decoder's workbook, normalized and written,
  where delimited-text recovery would have raised.
\<close>

theorem forced_text_recovery_counterexample:
  "convertToXlsx decodingEnv [] (js ''a.xlsx'') True = xlsx_write decodingEnv [(js ''Data'', gapSheet)] plainWrite \<and>
   convertToXlsx decodingEnv [] (js ''a.xlsx'') True = Inr [0x50, 0x4B, 1, 0, 0x0A, 1, 1, 0x0A] \<and>
   textBasedRecovery decodingEnv [] = Inl (Error msg_noData)"
  by code_simp

text \<open>
  Claim C10. \<open>processFile\<close> returns a result for every buffer, file name and force option;
  the model has no other outcome, the whole body of the source being inside one \<^verbatim>\<open>try\<close>. When
  the extension is not supported, the buffer is larger than the limit, or the conversion
  raises, the result has \<open>success = false\<close>, the file name as given, the length of the buffer as
  \<open>originalSize\<close>, a message, and no buffer. In every other case it has \<open>success = true\<close> and
  carries the converted buffer.
\<close>

theorem processFile_result:
  "(let r = processFile E b f force in
      if \<not> validateFileExtension f \<or> \<not> validateFileSize (int (length b)) \<or> (\<exists>e. convertToXlsx E b f force = Inl e)
      then \<not> success r \<and> filename_r r = f \<and> originalSize r = length b \<and>
           (\<exists>m. message_r r = Some m) \<and> buffer_r r = None
      else success r \<and> originalSize r = length b \<and>
           (\<exists>out. convertToXlsx E b f force = Inr out \<and> buffer_r r = Some out \<and>
                  convertedSize r = Some (length out)))"
  by (cases "convertToXlsx E b f force") (auto simp: processFile_def Let_def)

text \<open>
  The witness has one input for each outcome: an extension that is not supported, a
  conversion that raises for want of a line, a conversion that raises the writer's error,
  and a conversion that returns.
\<close>

theorem processFile_result_witness:
  "\<not> validateFileExtension (js ''a.exe'') \<and>
   \<not> success (processFile rejectingEnv [] (js ''a.exe'') False) \<and>
   filename_r (processFile rejectingEnv [] (js ''a.exe'') False) = js ''a.exe'' \<and>
   buffer_r (processFile rejectingEnv [] (js ''a.exe'') False) = None \<and>
   validateFileExtension (js ''a.csv'') \<and> validateFileSize (int (length ([]::buffer))) \<and>
   convertToXlsx rejectingEnv [] (js ''a.csv'') False = Inl (Error (msg_conversionFailed @ msg_noData)) \<and>
   \<not> success (processFile rejectingEnv [] (js ''a.csv'') False) \<and>
   originalSize (processFile rejectingEnv [] (js ''a.csv'') False) = 0 \<and>
   convertToXlsx cappedEnv (asciiBytes ''the quick brown fox jumps'') (js ''a.txt'') False =
     Inl (Error (msg_conversionFailed @ js ''Text length must not exceed the limit'')) \<and>
   \<not> success (processFile cappedEnv (asciiBytes ''the quick brown fox jumps'') (js ''a.txt'') False) \<and>
   buffer_r (processFile cappedEnv (asciiBytes ''the quick brown fox jumps'') (js ''a.txt'') False) = None \<and>
   success (processFile rejectingEnv (asciiBytes ''a,b'') (js ''a.csv'') False) \<and>
   buffer_r (processFile rejectingEnv (asciiBytes ''a,b'') (js ''a.csv'') False) = Some [0x50, 0x4B, 1, 1, 0x0A]"
proof -
  have f: "\<not> validateFileExtension (js ''a.exe'')" "validateFileExtension (js ''a.csv'')"
    "validateFileExtension (js ''a.txt'')"
    "validateFileSize (int (length ([]::buffer)))" "validateFileSize (int (length (asciiBytes ''a,b'')))"
    "validateFileSize (int (length (asciiBytes ''the quick brown fox jumps'')))"
    "convertToXlsx rejectingEnv [] (js ''a.csv'') False = Inl (Error (msg_conversionFailed @ msg_noData))"
    "convertToXlsx cappedEnv (asciiBytes ''the quick brown fox jumps'') (js ''a.txt'') False =
       Inl (Error (msg_conversionFailed @ js ''Text length must not exceed the limit''))"
    "convertToXlsx rejectingEnv (asciiBytes ''a,b'') (js ''a.csv'') False = Inr [0x50, 0x4B, 1, 1, 0x0A]"
    by code_simp+
  show ?thesis
    using processFile_result[of rejectingEnv "[]" "js ''a.exe''" False]
      processFile_result[of rejectingEnv "[]" "js ''a.csv''" False]
      processFile_result[of cappedEnv "asciiBytes ''the quick brown fox jumps''" "js ''a.txt''" False]
      processFile_result[of rejectingEnv "asciiBytes ''a,b''" "js ''a.csv''" False] f
    by (simp add: Let_def)
qed

subsection \<open>Byte-scan miner\<close>

text \<open>
  Claim C9, as amended. When the byte-scan miner finds no token, in the file name and in the
  buffer under every encoding it tries, and the sheet \<open>FileStatus\<close> can be appended to a new
  workbook, what the miner returns is what the writer makes of the workbook with that one
  sheet: a table of five rows of two cells, a title row, a row stating that the file is
  damaged and that no meaningful text was found, a row with the file name as given, a row
  with the length of the buffer followed by the word \<open>bytes\<close>, and a row of advice.
\<close>

theorem byteScan_no_token:
  "uniqueTexts buffer filename = [] \<and> append_error E [] (js ''FileStatus'') = None \<longrightarrow>
     findMeaningfulTextInBuffer E buffer filename =
       xlsx_write E [(js ''FileStatus'', fileStatusTable buffer filename)] compressedWrite \<and>
     length (fileStatusTable buffer filename) = 5 \<and>
     (\<forall>row\<in>set (fileStatusTable buffer filename). length row = 2) \<and>
     fileStatusTable buffer filename ! 1 = [CStr k_fileDamaged, CStr k_noMeaningfulText] \<and>
     fileStatusTable buffer filename ! 2 = [CStr k_fileName, CStr filename] \<and>
     fileStatusTable buffer filename ! 3 =
       [CStr k_fileSize, CStr (showNat (length buffer) @ js '' bytes'')]"
  by (simp add: findMeaningfulTextInBuffer_def writeTable_fresh fileStatusTable_def)

text \<open>
  The witness has the empty buffer and a buffer of five bytes that no encoding turns into a
  token, both with the file name \<open>a.b\<close>.
\<close>

theorem byteScan_no_token_witness:
  "uniqueTexts [] (js ''a.b'') = [] \<and> append_error rejectingEnv [] (js ''FileStatus'') = None \<and>
   findMeaningfulTextInBuffer rejectingEnv [] (js ''a.b'') =
     xlsx_write rejectingEnv [(js ''FileStatus'', fileStatusTable [] (js ''a.b''))] compressedWrite \<and>
   fileStatusTable [] (js ''a.b'') ! 3 = [CStr k_fileSize, CStr (js ''0 bytes'')] \<and>
   uniqueTexts [0, 1, 0xFE, 0xFF, 0x80] (js ''a.b'') = [] \<and>
   findMeaningfulTextInBuffer rejectingEnv [0, 1, 0xFE, 0xFF, 0x80] (js ''a.b'') =
     xlsx_write rejectingEnv [(js ''FileStatus'', fileStatusTable [0, 1, 0xFE, 0xFF, 0x80] (js ''a.b''))] compressedWrite \<and>
   fileStatusTable [0, 1, 0xFE, 0xFF, 0x80] (js ''a.b'') ! 3 = [CStr k_fileSize, CStr (js ''5 bytes'')]"
proof -
  have u: "uniqueTexts [] (js ''a.b'') = []" "append_error rejectingEnv [] (js ''FileStatus'') = None"
    "showNat (length ([]::buffer)) @ js '' bytes'' = js ''0 bytes''"
    "uniqueTexts [0, 1, 0xFE, 0xFF, 0x80] (js ''a.b'') = []"
    "showNat (length ([0, 1, 0xFE, 0xFF, 0x80]::buffer)) @ js '' bytes'' = js ''5 bytes''"
    by code_simp+
  show ?thesis
    using byteScan_no_token[of "[]" "js ''a.b''" rejectingEnv]
      byteScan_no_token[of "[0, 1, 0xFE, 0xFF, 0x80]" "js ''a.b''" rejectingEnv] u
    by simp
qed

text \<open>
  Claim C9 as stated calls the diagnostic a one-row table. On the empty buffer named \<open>a.b\<close>
  the miner finds nothing and writes the sheet of five rows, each of two text cells.
\<close>

theorem byteScan_one_row_counterexample:
  "uniqueTexts [] (js ''a.b'') = [] \<and>
   findMeaningfulTextInBuffer rejectingEnv [] (js ''a.b'') =
     xlsx_write rejectingEnv [(js ''FileStatus'', fileStatusTable [] (js ''a.b''))] compressedWrite \<and>
   findMeaningfulTextInBuffer rejectingEnv [] (js ''a.b'') =
     Inr [0x50, 0x4B, 1, 1, 0x0A, 1, 1, 0x0A, 1, 1, 0x0A, 1, 1, 0x0A, 1, 1, 0x0A] \<and>
   length (fileStatusTable [] (js ''a.b'')) = 5"
  by code_simp

end
